theory Spec2Isabelle
  imports Main
begin

section \<open>Python strings\<close>

text \<open>
  A Python \<open>str\<close> is modelled as a \<open>string\<close> whose characters are the code points
  0..255 (Latin-1). \<open>str.strip()\<close> removes the characters for which \<open>str.isspace\<close>
  holds, \<open>str.lower()\<close> maps the upper-case letters of that range to lower case, and
  \<open>len\<close> is \<open>length\<close>.
\<close>

definition is_space :: "char \<Rightarrow> bool" where
  "is_space c = (let n = (of_char c :: nat) in
     (9 \<le> n \<and> n \<le> 13) \<or> (28 \<le> n \<and> n \<le> 32) \<or> n = 133 \<or> n = 160)"

definition strip :: "string \<Rightarrow> string" where
  "strip s = rev (dropWhile is_space (rev (dropWhile is_space s)))"

definition lower_char :: "char \<Rightarrow> char" where
  "lower_char c = (let n = (of_char c :: nat) in
     if (65 \<le> n \<and> n \<le> 90) \<or> (192 \<le> n \<and> n \<le> 222 \<and> n \<noteq> 215)
     then char_of (n + 32) else c)"

definition lower :: "string \<Rightarrow> string" where
  "lower s = map lower_char s"

text \<open>\<open>sep.join(parts)\<close>\<close>

fun join :: "string \<Rightarrow> string list \<Rightarrow> string" where
  "join sep [] = []"
| "join sep [x] = x"
| "join sep (x # y # ys) = x @ sep @ join sep (y # ys)"

text \<open>\<open>s.startswith(p)\<close>\<close>

definition startswith :: "string \<Rightarrow> string \<Rightarrow> bool" where
  "startswith s p = (take (length p) s = p)"

text \<open>\<open>p in s\<close> for strings\<close>

fun contains :: "string \<Rightarrow> string \<Rightarrow> bool" where
  "contains [] p = (p = [])"
| "contains (c # cs) p = (startswith (c # cs) p \<or> contains cs p)"

text \<open>\<open>str(n)\<close> for an integer: decimal digits, with a minus sign when negative.\<close>

definition digit_char :: "nat \<Rightarrow> char" where
  "digit_char d = char_of (48 + d)"

function str_nat :: "nat \<Rightarrow> string" where
  "str_nat n = (if n < 10 then [digit_char n] else str_nat (n div 10) @ [digit_char (n mod 10)])"
  by pat_completeness auto
termination
  by (relation "measure id") auto

definition str_int :: "int \<Rightarrow> string" where
  "str_int i = (if i < 0 then CHR ''-'' # str_nat (nat (- i)) else str_nat (nat i))"

text \<open>\<open>repr(s)\<close> for a string: the quote is \<open>'\<close> unless the string has a \<open>'\<close> and no
  \<open>"\<close>; the quote and the backslash are escaped, so are tab, newline and carriage
  return, and every other non-printable character is written \<open>\xNN\<close>.\<close>

definition is_printable :: "char \<Rightarrow> bool" where
  "is_printable c = (let n = (of_char c :: nat) in
     (32 \<le> n \<and> n \<le> 126) \<or> (161 \<le> n \<and> n \<noteq> 173))"

definition hex_digit :: "nat \<Rightarrow> char" where
  "hex_digit d = (if d < 10 then char_of (48 + d) else char_of (87 + d))"

definition repr_char :: "char \<Rightarrow> char \<Rightarrow> string" where
  "repr_char q c =
     (if c = q \<or> c = CHR 0x5C then [CHR 0x5C, c]
      else if c = CHR 0x09 then [CHR 0x5C, CHR ''t'']
      else if c = CHR 0x0A then [CHR 0x5C, CHR ''n'']
      else if c = CHR 0x0D then [CHR 0x5C, CHR ''r'']
      else if is_printable c then [c]
      else [CHR 0x5C, CHR ''x'', hex_digit ((of_char c :: nat) div 16),
            hex_digit ((of_char c :: nat) mod 16)])"

definition repr_str :: "string \<Rightarrow> string" where
  "repr_str s =
     (let q = (if CHR 0x27 \<in> set s \<and> CHR 0x22 \<notin> set s then CHR 0x22 else CHR 0x27)
      in [q] @ concat (map (repr_char q) s) @ [q])"

section \<open>JSON values\<close>

text \<open>
  The values \<open>json.loads\<close> produces. A Python \<open>float\<close> is represented by the three
  observations the program can make of it: its \<open>str()\<close>, its truth value and its
  \<open>int()\<close> (\<open>None\<close> where \<open>int\<close> raises, for infinities and NaN). A \<open>dict\<close> is an
  association list in insertion order; \<open>d.get(k)\<close> is \<open>map_of d k\<close>.
\<close>

datatype pyfloat = PyFloat (float_str: string) (float_truthy: bool) (float_int: "int option")

datatype json =
    JNull
  | JBool bool
  | JInt int
  | JFloat pyfloat
  | JStr string
  | JList "json list"
  | JDict "(string \<times> json) list"

type_synonym pydict = "(string \<times> json) list"

fun py_repr :: "json \<Rightarrow> string"
  and py_repr_list :: "json list \<Rightarrow> string list"
  and py_repr_items :: "(string \<times> json) list \<Rightarrow> string list" where
  "py_repr JNull = ''None''"
| "py_repr (JBool b) = (if b then ''True'' else ''False'')"
| "py_repr (JInt i) = str_int i"
| "py_repr (JFloat f) = float_str f"
| "py_repr (JStr s) = repr_str s"
| "py_repr (JList xs) = ''['' @ join '', '' (py_repr_list xs) @ '']''"
| "py_repr (JDict kvs) = ''{'' @ join '', '' (py_repr_items kvs) @ ''}''"
| "py_repr_list [] = []"
| "py_repr_list (x # xs) = py_repr x # py_repr_list xs"
| "py_repr_items [] = []"
| "py_repr_items ((k, v) # kvs) = (repr_str k @ '': '' @ py_repr v) # py_repr_items kvs"

text \<open>\<open>str(v)\<close>\<close>

fun py_str :: "json \<Rightarrow> string" where
  "py_str (JStr s) = s"
| "py_str v = py_repr v"

text \<open>The truth value of \<open>v\<close>, as in \<open>v or default\<close>.\<close>

fun py_truthy :: "json \<Rightarrow> bool" where
  "py_truthy JNull = False"
| "py_truthy (JBool b) = b"
| "py_truthy (JInt i) = (i \<noteq> 0)"
| "py_truthy (JFloat f) = float_truthy f"
| "py_truthy (JStr s) = (s \<noteq> [])"
| "py_truthy (JList xs) = (xs \<noteq> [])"
| "py_truthy (JDict kvs) = (kvs \<noteq> [])"

text \<open>\<open>d.get(k, default)\<close>\<close>

definition get_or :: "pydict \<Rightarrow> string \<Rightarrow> json \<Rightarrow> json" where
  "get_or d k dflt = (case map_of d k of None \<Rightarrow> dflt | Some v \<Rightarrow> v)"

text \<open>\<open>d.get(k)\<close>: Python's \<open>None\<close> is \<open>JNull\<close>.\<close>

definition get :: "pydict \<Rightarrow> string \<Rightarrow> json" where
  "get d k = get_or d k JNull"

text \<open>\<open>a or b\<close>\<close>

definition py_or :: "json \<Rightarrow> json \<Rightarrow> json" where
  "py_or a b = (if py_truthy a then a else b)"

text \<open>\<open>s or d\<close> for strings\<close>

definition str_or :: "string \<Rightarrow> string \<Rightarrow> string" where
  "str_or s d = (if s \<noteq> [] then s else d)"

text \<open>The exceptions the program raises or catches, each with what the handlers read.\<close>

datatype exn =
    HTTPError int "string option"
  | ValueError string
  | IndexError string
  | OtherException string

fun str_exn :: "exn \<Rightarrow> string" where
  "str_exn (HTTPError code body) = ''HTTP Error '' @ str_int code"
| "str_exn (ValueError m) = m"
| "str_exn (IndexError m) = m"
| "str_exn (OtherException m) = m"

section \<open>The canonical result\<close>

text \<open>
  The dictionaries that \<open>_normalize_ai_output\<close> builds have fixed keys and string
  values; they are records here, and \<open>result_json\<close> is the dictionary itself.
\<close>

record biomarker =
  b_name :: string
  b_value :: string
  b_status :: string
  b_explanation :: string

record recommendation =
  r_name :: string
  r_protocol :: string
  r_reason :: string

record result =
  biomarkers :: "biomarker list"
  recommendations :: "recommendation list"
  summary :: string
  disclaimer :: string

definition biomarker_json :: "biomarker \<Rightarrow> json" where
  "biomarker_json b = JDict [(''name'', JStr (b_name b)), (''value'', JStr (b_value b)),
     (''status'', JStr (b_status b)), (''explanation'', JStr (b_explanation b))]"

definition recommendation_json :: "recommendation \<Rightarrow> json" where
  "recommendation_json r = JDict [(''name'', JStr (r_name r)), (''protocol'', JStr (r_protocol r)),
     (''reason'', JStr (r_reason r))]"

definition result_json :: "result \<Rightarrow> pydict" where
  "result_json r = [(''biomarkers'', JList (map biomarker_json (biomarkers r))),
     (''recommendations'', JList (map recommendation_json (recommendations r))),
     (''summary'', JStr (summary r)), (''disclaimer'', JStr (disclaimer r))]"

definition DEFAULT_DISCLAIMER :: string where
  "DEFAULT_DISCLAIMER =
     ''DISCLAIMER: This is not medical advice. Consult a healthcare provider before use.''"

section \<open>Schema Normalizer\<close>

subsection \<open>\<open>_dedupe_normalized_output\<close>\<close>

type_synonym pair_key = "string \<times> string"

definition biomarker_key :: "biomarker \<Rightarrow> pair_key" where
  "biomarker_key item = (lower (strip (b_name item)), lower (strip (b_value item)))"

definition recommendation_key :: "recommendation \<Rightarrow> pair_key" where
  "recommendation_key item = (lower (strip (r_name item)), lower (strip (r_protocol item)))"

text \<open>The body of the \<open>if key in seen_biomarkers\<close> branch: the two updates of \<open>existing\<close>.\<close>

definition merge_duplicate :: "biomarker \<Rightarrow> biomarker \<Rightarrow> biomarker" where
  "merge_duplicate existing item =
     (let e1 = (if length (b_explanation item) > length (b_explanation existing)
                then existing\<lparr>b_explanation := b_explanation item\<rparr> else existing)
      in if lower (strip (b_status e1)) = ''unknown'' \<and> strip (b_status item) \<noteq> []
         then e1\<lparr>b_status := b_status item\<rparr> else e1)"

text \<open>
  The first loop. \<open>seen_biomarkers\<close> maps a key to the clone appended to
  \<open>deduped_biomarkers\<close>, the same object; here it maps the key to the clone's index in
  the list, and updating \<open>existing\<close> updates the list at that index.
\<close>

fun dedupe_biomarkers_loop ::
  "biomarker list \<Rightarrow> (pair_key \<rightharpoonup> nat) \<Rightarrow> biomarker list \<Rightarrow> biomarker list" where
  "dedupe_biomarkers_loop [] seen_biomarkers deduped_biomarkers = deduped_biomarkers"
| "dedupe_biomarkers_loop (item # items) seen_biomarkers deduped_biomarkers =
     (case seen_biomarkers (biomarker_key item) of
        Some i \<Rightarrow> dedupe_biomarkers_loop items seen_biomarkers
                    (deduped_biomarkers[i := merge_duplicate (deduped_biomarkers ! i) item])
      | None \<Rightarrow> dedupe_biomarkers_loop items
                    (seen_biomarkers(biomarker_key item \<mapsto> length deduped_biomarkers))
                    (deduped_biomarkers @ [item]))"

fun dedupe_recommendations_loop ::
  "recommendation list \<Rightarrow> pair_key set \<Rightarrow> recommendation list \<Rightarrow> recommendation list" where
  "dedupe_recommendations_loop [] seen_recos deduped_recommendations = deduped_recommendations"
| "dedupe_recommendations_loop (item # items) seen_recos deduped_recommendations =
     (if recommendation_key item \<in> seen_recos
      then dedupe_recommendations_loop items seen_recos deduped_recommendations
      else dedupe_recommendations_loop items (insert (recommendation_key item) seen_recos)
             (deduped_recommendations @ [item]))"

definition dedupe_normalized_output :: "result \<Rightarrow> result" where
  "dedupe_normalized_output normalized =
     normalized\<lparr>biomarkers := dedupe_biomarkers_loop (biomarkers normalized) Map.empty [],
                recommendations := dedupe_recommendations_loop (recommendations normalized) {} []\<rparr>"

subsection \<open>\<open>_normalize_ai_output\<close>\<close>

text \<open>One iteration of each loop, for an \<open>item\<close> that is a dictionary.\<close>

definition normalize_biomarker :: "pydict \<Rightarrow> biomarker" where
  "normalize_biomarker item = \<lparr>
     b_name = str_or (strip (py_str (get_or item ''name'' (JStr '''')))) ''Unknown'',
     b_value = str_or (strip (py_str (get_or item ''value'' (JStr '''')))) ''N/A'',
     b_status = str_or (strip (py_str (get_or item ''status'' (JStr ''Unknown'')))) ''Unknown'',
     b_explanation = str_or (strip (py_str (get_or item ''explanation'' (JStr ''''))))
                       ''No explanation provided.'' \<rparr>"

definition normalize_recommendation :: "pydict \<Rightarrow> recommendation" where
  "normalize_recommendation item = \<lparr>
     r_name = str_or (strip (py_str (get_or item ''name'' (JStr '''')))) ''Recommendation'',
     r_protocol = str_or (strip (py_str (get_or item ''protocol''
                     (get_or item ''protocolText'' (JStr ''''))))) ''No protocol provided.'',
     r_reason = str_or (strip (py_str (get_or item ''reason'' (JStr '''')))) ''No reason provided.'' \<rparr>"

text \<open>The items of a list that are dictionaries (the others are skipped by \<open>continue\<close>).\<close>

fun dict_items :: "json list \<Rightarrow> pydict list" where
  "dict_items [] = []"
| "dict_items (JDict d # xs) = d # dict_items xs"
| "dict_items (_ # xs) = dict_items xs"

definition normalize_ai_output :: "pydict \<Rightarrow> exn + result" where
  "normalize_ai_output result =
     (case (get result ''biomarkers'', get result ''recommendations'', get result ''summary'') of
        (JList bs, JList rs, JStr s) \<Rightarrow>
          Inr (dedupe_normalized_output \<lparr>
                 biomarkers = map normalize_biomarker (dict_items bs),
                 recommendations = map normalize_recommendation (dict_items rs),
                 summary = strip s,
                 disclaimer = strip (py_str (py_or (get result ''disclaimer'')
                                                   (JStr DEFAULT_DISCLAIMER))) \<rparr>)
      | _ \<Rightarrow> Inl (ValueError ''LLM output missing required fields''))"

section \<open>Merger\<close>

type_synonym triple_key = "string \<times> string \<times> string"

definition biomarker_triple_key :: "biomarker \<Rightarrow> triple_key" where
  "biomarker_triple_key item =
     (lower (strip (b_name item)), lower (strip (b_value item)), lower (strip (b_status item)))"

text \<open>The two nested loops of \<open>_merge_normalized_outputs\<close> visit the items of the chunks
  in order; each is a loop over the concatenation.\<close>

fun merge_biomarkers_loop ::
  "biomarker list \<Rightarrow> triple_key set \<Rightarrow> biomarker list \<Rightarrow> biomarker list" where
  "merge_biomarkers_loop [] seen_biomarkers merged_biomarkers = merged_biomarkers"
| "merge_biomarkers_loop (item # items) seen_biomarkers merged_biomarkers =
     (if biomarker_triple_key item \<in> seen_biomarkers
      then merge_biomarkers_loop items seen_biomarkers merged_biomarkers
      else merge_biomarkers_loop items (insert (biomarker_triple_key item) seen_biomarkers)
             (merged_biomarkers @ [item]))"

text \<open>\<open>next((s.strip() for s in xs if s.strip()), dflt)\<close>\<close>

fun first_nonblank :: "string list \<Rightarrow> string \<Rightarrow> string" where
  "first_nonblank [] dflt = dflt"
| "first_nonblank (s # xs) dflt = (if strip s \<noteq> [] then strip s else first_nonblank xs dflt)"

definition merge_summary :: "result list \<Rightarrow> string" where
  "merge_summary chunks =
     (let last_summary = first_nonblank (rev (map summary chunks)) ''''
      in ''Analyzed report pages in order across '' @ str_int (int (length chunks)) @ '' batch(es).''
         @ (if last_summary \<noteq> [] then '' '' @ last_summary else []))"

definition merge_normalized_outputs :: "result list \<Rightarrow> exn + result" where
  "merge_normalized_outputs chunks =
     (if chunks = [] then Inl (ValueError ''No chunk outputs to merge'')
      else Inr (dedupe_normalized_output \<lparr>
             biomarkers = merge_biomarkers_loop (concat (map biomarkers chunks)) {} [],
             recommendations = dedupe_recommendations_loop (concat (map recommendations chunks)) {} [],
             summary = merge_summary chunks,
             disclaimer = first_nonblank (map disclaimer chunks) DEFAULT_DISCLAIMER \<rparr>))"

section \<open>Configuration\<close>

text \<open>
  The module-level constants, read once from the environment, as one record.
  \<open>AI_PROVIDER\<close> and the keys are stripped when they are read (and \<open>AI_PROVIDER\<close>
  lower-cased); the two sizes are \<open>max(1, int(...))\<close> of their variables.
\<close>

record config =
  AI_PROVIDER :: string
  OPENROUTER_API_KEY :: string
  QWEN_API_KEY :: string
  OPENROUTER_PRIMARY_MODEL :: string
  OPENROUTER_FALLBACK_MODEL :: string
  OPENROUTER_FALLBACK_MODEL_2 :: string
  OPENROUTER_FALLBACK_MODEL_3 :: string
  QWEN_PRIMARY_MODEL :: string
  QWEN_FALLBACK_MODEL :: string
  QWEN_FALLBACK_MODEL_2 :: string
  QWEN_FALLBACK_MODEL_3 :: string
  env_PAGE_BATCH_SIZE :: int
  env_MIN_BIOMARKERS_PER_IMAGE_HINT :: int
  OPENROUTER_ENABLE_RECONCILIATION :: bool
  AI_OCR_ONLY_MODE :: bool
  AI_VISUAL_ONLY_MODE :: bool

definition OPENROUTER_PAGE_BATCH_SIZE :: "config \<Rightarrow> nat" where
  "OPENROUTER_PAGE_BATCH_SIZE cfg = nat (max 1 (env_PAGE_BATCH_SIZE cfg))"

definition OPENROUTER_MIN_BIOMARKERS_PER_IMAGE_HINT :: "config \<Rightarrow> nat" where
  "OPENROUTER_MIN_BIOMARKERS_PER_IMAGE_HINT cfg = nat (max 1 (env_MIN_BIOMARKERS_PER_IMAGE_HINT cfg))"

definition active_provider_api_key :: "config \<Rightarrow> string" where
  "active_provider_api_key cfg =
     (if AI_PROVIDER cfg = ''qwen'' then QWEN_API_KEY cfg else OPENROUTER_API_KEY cfg)"

definition active_provider_model_chain :: "config \<Rightarrow> string list" where
  "active_provider_model_chain cfg =
     (let chain =
        (if AI_PROVIDER cfg = ''qwen''
         then [QWEN_PRIMARY_MODEL cfg, QWEN_FALLBACK_MODEL cfg, QWEN_FALLBACK_MODEL_2 cfg,
               QWEN_FALLBACK_MODEL_3 cfg]
         else [OPENROUTER_PRIMARY_MODEL cfg, OPENROUTER_FALLBACK_MODEL cfg,
               OPENROUTER_FALLBACK_MODEL_2 cfg, OPENROUTER_FALLBACK_MODEL_3 cfg])
      in filter (\<lambda>m. strip m \<noteq> []) chain)"

text \<open>The second loop of \<open>_active_provider_model_chain_for_mode\<close>.\<close>

fun append_missing :: "string list \<Rightarrow> string list \<Rightarrow> string list" where
  "append_missing [] text_first = text_first"
| "append_missing (model # chain) text_first =
     append_missing chain (if model \<notin> set text_first then text_first @ [model] else text_first)"

definition active_provider_model_chain_for_mode :: "config \<Rightarrow> string list" where
  "active_provider_model_chain_for_mode cfg =
     (let chain = active_provider_model_chain cfg in
      if \<not> AI_OCR_ONLY_MODE cfg then chain
      else append_missing chain
             (filter (\<lambda>model. contains (lower model) ''gemma'' \<or>
                        (\<not> contains (lower model) ''vl'' \<and> \<not> contains (lower model) ''vision''))
                chain))"

text \<open>The list \<open>recon_models\<close> built at the start of the reconciliation chain.\<close>

definition recon_models :: "config \<Rightarrow> string list" where
  "recon_models cfg =
     (let r0 = [];
          r1 = (if OPENROUTER_FALLBACK_MODEL cfg \<noteq> [] then r0 @ [OPENROUTER_FALLBACK_MODEL cfg] else r0);
          r2 = (if OPENROUTER_FALLBACK_MODEL_2 cfg \<noteq> [] \<and> OPENROUTER_FALLBACK_MODEL_2 cfg \<notin> set r1
                then r1 @ [OPENROUTER_FALLBACK_MODEL_2 cfg] else r1);
          r3 = (if OPENROUTER_PRIMARY_MODEL cfg \<noteq> [] \<and> OPENROUTER_PRIMARY_MODEL cfg \<notin> set r2
                then r2 @ [OPENROUTER_PRIMARY_MODEL cfg] else r2)
      in filter (\<lambda>m. m \<noteq> []) r3)"

section \<open>The request\<close>

text \<open>\<open>int(v)\<close>, \<open>None\<close> where it raises. For a string: surrounding white space, an optional
  sign, decimal digits with single underscores between them, at most 4300 digits.\<close>

definition is_int_space :: "char \<Rightarrow> bool" where
  "is_int_space c = (let n = (of_char c :: nat) in
     (9 \<le> n \<and> n \<le> 13) \<or> n = 32 \<or> n = 133 \<or> n = 160)"

definition is_digit :: "char \<Rightarrow> bool" where
  "is_digit c = (let n = (of_char c :: nat) in 48 \<le> n \<and> n \<le> 57)"

fun digits_ok :: "bool \<Rightarrow> string \<Rightarrow> bool" where
  "digits_ok prev_digit [] = prev_digit"
| "digits_ok prev_digit (c # cs) =
     (if is_digit c then digits_ok True cs
      else if c = CHR ''_'' \<and> prev_digit then digits_ok False cs
      else False)"

definition digits_value :: "string \<Rightarrow> int" where
  "digits_value ds = foldl (\<lambda>a c. 10 * a + (int (of_char c) - 48)) 0 (filter is_digit ds)"

definition int_of_digits :: "string \<Rightarrow> int option" where
  "int_of_digits ds =
     (if digits_ok False ds \<and> length (filter is_digit ds) \<le> 4300
      then Some (digits_value ds) else None)"

definition int_of_str :: "string \<Rightarrow> int option" where
  "int_of_str s =
     (case rev (dropWhile is_int_space (rev (dropWhile is_int_space s))) of
        [] \<Rightarrow> None
      | c # cs \<Rightarrow>
          if c = CHR ''-'' then map_option uminus (int_of_digits cs)
          else if c = CHR ''+'' then int_of_digits cs
          else int_of_digits (c # cs))"

fun py_int :: "json \<Rightarrow> int option" where
  "py_int JNull = None"
| "py_int (JBool b) = Some (if b then 1 else 0)"
| "py_int (JInt i) = Some i"
| "py_int (JFloat f) = float_int f"
| "py_int (JStr s) = int_of_str s"
| "py_int (JList xs) = None"
| "py_int (JDict kvs) = None"

fun extract_report_text_keys :: "pydict \<Rightarrow> string list \<Rightarrow> string" where
  "extract_report_text_keys payload [] = ''''"
| "extract_report_text_keys payload (key # keys) =
     (case get payload key of
        JStr v \<Rightarrow> if strip v \<noteq> [] then strip v else extract_report_text_keys payload keys
      | _ \<Rightarrow> extract_report_text_keys payload keys)"

definition extract_report_text :: "pydict \<Rightarrow> string" where
  "extract_report_text payload =
     extract_report_text_keys payload [''reportText'', ''report_text'', ''ocrText'', ''ocr_text'']"

text \<open>The inner loop of \<open>_extract_report_text_by_page\<close>: the accepted (page, text) pairs.\<close>

fun pages_of_items :: "json list \<Rightarrow> (int \<times> string) list" where
  "pages_of_items [] = []"
| "pages_of_items (JDict item # xs) =
     (case py_int (get item ''page'') of
        None \<Rightarrow> pages_of_items xs
      | Some page \<Rightarrow>
          (case get item ''text'' of
             JStr t \<Rightarrow> if page \<le> 0 \<or> strip t = [] then pages_of_items xs
                       else (page, strip t) # pages_of_items xs
           | _ \<Rightarrow> pages_of_items xs))"
| "pages_of_items (_ # xs) = pages_of_items xs"

fun extract_report_text_by_page_keys :: "pydict \<Rightarrow> string list \<Rightarrow> (int \<times> string) list" where
  "extract_report_text_by_page_keys payload [] = []"
| "extract_report_text_by_page_keys payload (key # keys) =
     (case get payload key of
        JList v \<Rightarrow> (let pages = pages_of_items v in
                    if pages \<noteq> [] then sort_key fst pages
                    else extract_report_text_by_page_keys payload keys)
      | _ \<Rightarrow> extract_report_text_by_page_keys payload keys)"

definition extract_report_text_by_page :: "pydict \<Rightarrow> (int \<times> string) list" where
  "extract_report_text_by_page payload =
     extract_report_text_by_page_keys payload
       [''reportTextByPage'', ''report_text_by_page'', ''ocrTextByPage'', ''ocr_text_by_page'']"

fun positive_ints :: "json list \<Rightarrow> int list" where
  "positive_ints [] = []"
| "positive_ints (p # ps) =
     (case py_int p of
        None \<Rightarrow> positive_ints ps
      | Some v \<Rightarrow> if v > 0 then v # positive_ints ps else positive_ints ps)"

fun groups_of_items :: "json list \<Rightarrow> int list list" where
  "groups_of_items [] = []"
| "groups_of_items (JList g # xs) =
     (let ints = positive_ints g in
      if ints \<noteq> [] then sort (remdups ints) # groups_of_items xs else groups_of_items xs)"
| "groups_of_items (_ # xs) = groups_of_items xs"

fun extract_stitched_page_groups_keys :: "pydict \<Rightarrow> string list \<Rightarrow> int list list" where
  "extract_stitched_page_groups_keys payload [] = []"
| "extract_stitched_page_groups_keys payload (key # keys) =
     (case get payload key of
        JList v \<Rightarrow> (let groups = groups_of_items v in
                    if groups \<noteq> [] then groups
                    else extract_stitched_page_groups_keys payload keys)
      | _ \<Rightarrow> extract_stitched_page_groups_keys payload keys)"

definition extract_stitched_page_groups :: "pydict \<Rightarrow> int list list" where
  "extract_stitched_page_groups payload =
     extract_stitched_page_groups_keys payload
       [''stitchedPageGroups'', ''stitched_page_groups'', ''pageGroups'', ''page_groups'']"

definition raw_pages_covered_by_image_indices :: "pydict \<Rightarrow> int list \<Rightarrow> int list" where
  "raw_pages_covered_by_image_indices payload image_indices_1based =
     (let groups = extract_stitched_page_groups payload;
          covered = (if groups \<noteq> []
                     then concat (map (\<lambda>img_idx.
                            if 1 \<le> img_idx \<and> img_idx \<le> int (length groups)
                            then groups ! nat (img_idx - 1) else []) image_indices_1based)
                     else image_indices_1based)
      in sort (remdups (filter (\<lambda>p. p > 0) covered)))"

definition report_text_subset_for_images :: "pydict \<Rightarrow> int list \<Rightarrow> string" where
  "report_text_subset_for_images payload image_indices_1based =
     (let by_page = extract_report_text_by_page payload;
          target_pages = set (raw_pages_covered_by_image_indices payload image_indices_1based);
          parts = map (\<lambda>(page, t). ''[Page '' @ str_int page @ '']'' @ [CHR 0x0A] @ t)
                    (filter (\<lambda>(page, t). page \<in> target_pages) by_page)
      in if by_page \<noteq> [] \<and> parts \<noteq> [] then join [CHR 0x0A, CHR 0x0A] parts
         else extract_report_text payload)"

section \<open>Model Caller\<close>

text \<open>
  \<open>_call_openrouter_model\<close> is the one effect of the pipeline: an HTTP request to a
  remote model. It is modelled by the arguments it is called with, by a responder that
  answers a call with the parsed JSON object or with the exception raised, and by the log
  of the calls made so far, which every function of the pipeline takes and returns. The
  responder reads the log, so the same call may be answered differently each time. The
  payload is the same for every call of a request and is not repeated in the arguments;
  an overriding prompt is kept as the values its text is formatted from.
\<close>

datatype prompt =
    ReconciliationPrompt result string "int list" int
  | SynthesisPrompt result string

record call_args =
  ca_model :: string
  ca_report_text :: string
  ca_images_override :: "json list"
  ca_page_numbers :: "int list"
  ca_total_pages :: int
  ca_prompt_override :: "prompt option"

type_synonym call_log = "call_args list"

type_synonym responder = "call_log \<Rightarrow> call_args \<Rightarrow> exn + pydict"

definition call_openrouter_model :: "responder \<Rightarrow> call_args \<Rightarrow> call_log \<Rightarrow> (exn + pydict) \<times> call_log" where
  "call_openrouter_model env args log = (env log args, log @ [args])"

section \<open>Fallback Chain Runner\<close>

text \<open>The two \<open>except\<close> clauses: the string appended to \<open>errors_local\<close>. The body of an
  \<open>HTTPError\<close> is \<open>None\<close> when reading it fails.\<close>

definition format_error :: "nat \<Rightarrow> string \<Rightarrow> exn \<Rightarrow> string" where
  "format_error limit model e =
     (case e of
        HTTPError code body \<Rightarrow>
          model @ '': HTTP '' @ str_int code @ '' '' @
            take limit (case body of Some b \<Rightarrow> b | None \<Rightarrow> ''<unreadable>'')
      | _ \<Rightarrow> model @ '': '' @ str_exn e)"

text \<open>
  The body of the \<open>try\<close> that the three chains share, up to the normalized output:
  \<open>raw = _call_openrouter_model(...)\<close>, then \<open>normalized = _normalize_ai_output(raw)\<close>.
  \<open>Inl\<close> is the exception either raises.
\<close>

definition try_body :: "responder \<Rightarrow> call_args \<Rightarrow> call_log \<Rightarrow> (exn + result) \<times> call_log" where
  "try_body env args log =
     (case call_openrouter_model env args log of
        (Inl e, log') \<Rightarrow> (Inl e, log')
      | (Inr raw, log') \<Rightarrow> (normalize_ai_output raw, log'))"

text \<open>
  The \<open>for model in ...: try: ... except ...\<close> loop of the three chains: it stops at the
  first model whose call and normalization both succeed; an exception of either is
  formatted and appended to \<open>errors_local\<close>. \<open>Inr\<close> is the normalized output and its
  model, \<open>Inl\<close> is \<open>errors_local\<close> after the last model.
\<close>

fun try_models ::
  "responder \<Rightarrow> nat \<Rightarrow> (string \<Rightarrow> call_args) \<Rightarrow> string list \<Rightarrow> string list \<Rightarrow> call_log
     \<Rightarrow> (string list + result \<times> string) \<times> call_log" where
  "try_models env limit args [] errors_local log = (Inl errors_local, log)"
| "try_models env limit args (model # models) errors_local log =
     (case try_body env (args model) log of
        (Inl e, log') \<Rightarrow>
          try_models env limit args models (errors_local @ [format_error limit model e]) log'
      | (Inr normalized, log') \<Rightarrow> (Inr (normalized, model), log'))"

text \<open>The variable \<open>report_text\<close> of \<open>maybe_generate_with_openrouter\<close>, which its
  closures read.\<close>

definition report_text :: "config \<Rightarrow> pydict \<Rightarrow> string" where
  "report_text cfg payload = (if AI_VISUAL_ONLY_MODE cfg then '''' else extract_report_text payload)"

definition extraction_args ::
  "config \<Rightarrow> pydict \<Rightarrow> json list \<Rightarrow> int list \<Rightarrow> int \<Rightarrow> string \<Rightarrow> call_args" where
  "extraction_args cfg payload images_subset page_numbers total_pages model =
     (let report_text_subset =
            (if AI_VISUAL_ONLY_MODE cfg then ''''
             else report_text_subset_for_images payload page_numbers)
      in \<lparr> ca_model = model,
            ca_report_text = str_or report_text_subset (report_text cfg payload),
            ca_images_override = images_subset,
            ca_page_numbers = page_numbers,
            ca_total_pages = total_pages,
            ca_prompt_override = None \<rparr>)"

definition run_model_chain_for_images ::
  "config \<Rightarrow> responder \<Rightarrow> pydict \<Rightarrow> json list \<Rightarrow> int list \<Rightarrow> int \<Rightarrow> call_log
     \<Rightarrow> (result option \<times> string) \<times> call_log" where
  "run_model_chain_for_images cfg env payload images_subset page_numbers total_pages log =
     (case try_models env 300 (extraction_args cfg payload images_subset page_numbers total_pages)
             (active_provider_model_chain_for_mode cfg) [] log of
        (Inr (normalized, model), log') \<Rightarrow> ((Some normalized, model), log')
      | (Inl errors_local, log') \<Rightarrow> ((None, join '' | '' errors_local), log'))"

section \<open>Reconciliation Pass\<close>

definition reconciliation_args ::
  "config \<Rightarrow> pydict \<Rightarrow> json list \<Rightarrow> int list \<Rightarrow> int \<Rightarrow> result \<Rightarrow> string \<Rightarrow> call_args" where
  "reconciliation_args cfg payload images_subset page_numbers total_pages extracted model =
     (let report_text_subset =
            (if \<not> AI_VISUAL_ONLY_MODE cfg
             then report_text_subset_for_images payload page_numbers else '''')
      in \<lparr> ca_model = model,
            ca_report_text = report_text_subset,
            ca_images_override = images_subset,
            ca_page_numbers = page_numbers,
            ca_total_pages = total_pages,
            ca_prompt_override =
              Some (ReconciliationPrompt extracted report_text_subset page_numbers total_pages) \<rparr>)"

definition run_reconciliation_chain_for_images ::
  "config \<Rightarrow> responder \<Rightarrow> pydict \<Rightarrow> json list \<Rightarrow> int list \<Rightarrow> int \<Rightarrow> result \<Rightarrow> call_log
     \<Rightarrow> (result \<times> string option) \<times> call_log" where
  "run_reconciliation_chain_for_images cfg env payload images_subset page_numbers total_pages
       extracted log =
     (if AI_VISUAL_ONLY_MODE cfg \<or> \<not> OPENROUTER_ENABLE_RECONCILIATION cfg
      then ((extracted, None), log)
      else
        (case try_models env 300
                (reconciliation_args cfg payload images_subset page_numbers total_pages extracted)
                (recon_models cfg) [] log of
           (Inr (normalized, model), log') \<Rightarrow> ((normalized, Some model), log')
         | (Inl errors_local, log') \<Rightarrow>
             ((extracted, if errors_local \<noteq> [] then Some (join '' | '' errors_local) else None),
              log')))"

section \<open>Synthesis Pass\<close>

definition synthesis_args :: "config \<Rightarrow> pydict \<Rightarrow> result \<Rightarrow> string \<Rightarrow> call_args" where
  "synthesis_args cfg payload extracted model =
     (let report_text_full =
            (if AI_VISUAL_ONLY_MODE cfg then '''' else str_or (extract_report_text payload) '''')
      in \<lparr> ca_model = model,
            ca_report_text = report_text_full,
            ca_images_override = [],
            ca_page_numbers = [],
            ca_total_pages = 0,
            ca_prompt_override = Some (SynthesisPrompt extracted report_text_full) \<rparr>)"

definition run_summary_recommendation_synthesis ::
  "config \<Rightarrow> responder \<Rightarrow> pydict \<Rightarrow> result \<Rightarrow> call_log \<Rightarrow> (result \<times> string option) \<times> call_log" where
  "run_summary_recommendation_synthesis cfg env payload extracted log =
     (case try_models env 220 (synthesis_args cfg payload extracted)
             (active_provider_model_chain_for_mode cfg) [] log of
        (Inr (normalized, model), log') \<Rightarrow>
          ((dedupe_normalized_output
              (extracted\<lparr>recommendations := recommendations normalized,
                         summary := summary normalized,
                         disclaimer := disclaimer normalized\<rparr>),
            Some model), log')
      | (Inl errors_local, log') \<Rightarrow>
          ((extracted, if errors_local \<noteq> [] then Some (join '' | '' errors_local) else None),
           log'))"

section \<open>Completeness-Retry Controller\<close>

definition is_suspiciously_incomplete :: "config \<Rightarrow> result \<Rightarrow> nat \<Rightarrow> bool" where
  "is_suspiciously_incomplete cfg normalized image_count =
     (if image_count \<ge> 2 \<and>
         length (biomarkers normalized) < OPENROUTER_MIN_BIOMARKERS_PER_IMAGE_HINT cfg * image_count
      then True else False)"

text \<open>\<open>if recon_meta: return reconciled, f"{model_or_error} | reconciliation:{recon_meta}"\<close>,
  else \<open>return reconciled, model_or_error\<close>: the second component.\<close>

definition with_reconciliation :: "string \<Rightarrow> string option \<Rightarrow> string" where
  "with_reconciliation meta recon_meta =
     (case recon_meta of
        Some m \<Rightarrow> if m \<noteq> [] then meta @ '' | reconciliation:'' @ m else meta
      | None \<Rightarrow> meta)"

text \<open>
  The loop \<open>for i, img in enumerate(images_subset)\<close>, from index \<open>i\<close> on. \<open>Inr None\<close>: a
  single-image chain failed and the loop was left; \<open>Inr (Some ...)\<close>: the loop ended, with
  \<open>retry_chunks\<close> and \<open>retry_models\<close>; \<open>Inl\<close>: \<open>page_numbers[i]\<close> raised.
\<close>

fun retry_loop ::
  "config \<Rightarrow> responder \<Rightarrow> pydict \<Rightarrow> int list \<Rightarrow> int \<Rightarrow> json list \<Rightarrow> nat \<Rightarrow> result list
     \<Rightarrow> string list \<Rightarrow> call_log \<Rightarrow> (exn + (result list \<times> string list) option) \<times> call_log" where
  "retry_loop cfg env payload page_numbers total_pages [] i retry_chunks retry_models log =
     (Inr (Some (retry_chunks, retry_models)), log)"
| "retry_loop cfg env payload page_numbers total_pages (img # imgs) i retry_chunks retry_models log =
     (if i \<ge> length page_numbers then (Inl (IndexError ''list index out of range''), log)
      else
        (case run_model_chain_for_images cfg env payload [img] [page_numbers ! i] total_pages log of
           ((None, single_model), log') \<Rightarrow> (Inr None, log')
         | ((Some single_normalized, single_model), log') \<Rightarrow>
             retry_loop cfg env payload page_numbers total_pages imgs (Suc i)
               (retry_chunks @ [single_normalized]) (retry_models @ [single_model]) log'))"

definition run_with_completeness_retry ::
  "config \<Rightarrow> responder \<Rightarrow> pydict \<Rightarrow> json list \<Rightarrow> int list \<Rightarrow> int \<Rightarrow> call_log
     \<Rightarrow> (exn + result option \<times> string) \<times> call_log" where
  "run_with_completeness_retry cfg env payload images_subset page_numbers total_pages log =
     (case run_model_chain_for_images cfg env payload images_subset page_numbers total_pages log of
        ((None, model_or_error), log1) \<Rightarrow> (Inr (None, model_or_error), log1)
      | ((Some normalized, model_or_error), log1) \<Rightarrow>
          if length images_subset \<le> 1 \<or>
             \<not> is_suspiciously_incomplete cfg normalized (length images_subset)
          then
            (case run_reconciliation_chain_for_images cfg env payload images_subset page_numbers
                    total_pages normalized log1 of
               ((reconciled, recon_meta), log2) \<Rightarrow>
                 (Inr (Some reconciled, with_reconciliation model_or_error recon_meta), log2))
          else
            (case retry_loop cfg env payload page_numbers total_pages images_subset 0 [] [] log1 of
               (Inl e, log2) \<Rightarrow> (Inl e, log2)
             | (Inr None, log2) \<Rightarrow>
                 (case run_reconciliation_chain_for_images cfg env payload images_subset
                         page_numbers total_pages normalized log2 of
                    ((reconciled, recon_meta), log3) \<Rightarrow>
                      (Inr (Some reconciled, with_reconciliation model_or_error recon_meta), log3))
             | (Inr (Some (retry_chunks, retry_models)), log2) \<Rightarrow>
                 (case merge_normalized_outputs retry_chunks of
                    Inl e \<Rightarrow> (Inl e, log2)
                  | Inr merged_retry \<Rightarrow>
                      (case run_reconciliation_chain_for_images cfg env payload images_subset
                              page_numbers total_pages merged_retry log2 of
                         ((reconciled, recon_meta), log3) \<Rightarrow>
                           (Inr (Some reconciled,
                                 with_reconciliation
                                   (model_or_error @ '' (completeness-retry via '' @
                                      join '' -> '' retry_models @ '')'')
                                   recon_meta), log3)))))"

section \<open>Batch Orchestrator\<close>

text \<open>\<open>range(start, stop, step)\<close> for the positive \<open>step\<close> the program calls it with.\<close>

function py_range :: "nat \<Rightarrow> nat \<Rightarrow> nat \<Rightarrow> nat list" where
  "py_range start stop step =
     (if step = 0 \<or> start \<ge> stop then [] else start # py_range (start + step) stop step)"
  by pat_completeness auto
termination
  by (relation "measure (\<lambda>(start, stop, step). stop - start)") auto

definition provider_label :: "config \<Rightarrow> string" where
  "provider_label cfg = (if AI_PROVIDER cfg = ''qwen'' then ''Qwen'' else ''OpenRouter'')"

text \<open>The images and the page numbers of the batch that starts at index \<open>start\<close>.\<close>

definition batch_subset :: "config \<Rightarrow> json list \<Rightarrow> nat \<Rightarrow> json list" where
  "batch_subset cfg images start =
     (let total_pages = length images;
          end' = min (start + OPENROUTER_PAGE_BATCH_SIZE cfg) total_pages
      in take (end' - start) (drop start images))"

definition batch_page_numbers :: "config \<Rightarrow> json list \<Rightarrow> nat \<Rightarrow> int list" where
  "batch_page_numbers cfg images start =
     (let total_pages = length images;
          end' = min (start + OPENROUTER_PAGE_BATCH_SIZE cfg) total_pages
      in map int [start + 1 ..< end' + 1])"

text \<open>How the loop over the batches ends: by the \<open>return None, ...\<close> of a failed batch,
  or after the last batch with \<open>chunk_results\<close> and \<open>model_hits\<close>.\<close>

datatype batch_outcome = BatchFailed string | BatchDone "result list" "string list"

fun batch_loop ::
  "config \<Rightarrow> responder \<Rightarrow> pydict \<Rightarrow> json list \<Rightarrow> nat list \<Rightarrow> result list \<Rightarrow> string list
     \<Rightarrow> call_log \<Rightarrow> (exn + batch_outcome) \<times> call_log" where
  "batch_loop cfg env payload images [] chunk_results model_hits log =
     (Inr (BatchDone chunk_results model_hits), log)"
| "batch_loop cfg env payload images (start # starts) chunk_results model_hits log =
     (let subset = batch_subset cfg images start;
          page_numbers = batch_page_numbers cfg images start
      in case run_with_completeness_retry cfg env payload subset page_numbers
                (int (length images)) log of
           (Inl e, log') \<Rightarrow> (Inl e, log')
         | (Inr (None, model_or_error), log') \<Rightarrow>
             (Inr (BatchFailed (provider_label cfg @ '' batch mode failed. '' @
                     join '' | '' [''pages '' @ py_repr (JList (map JInt page_numbers)) @ '': '' @
                                 model_or_error])), log')
         | (Inr (Some normalized, model_or_error), log') \<Rightarrow>
             batch_loop cfg env payload images starts (chunk_results @ [normalized])
               (model_hits @ [model_or_error]) log')"

text \<open>\<open>if synth_meta: meta += f" | summary/reco:{synth_meta}"\<close>\<close>

definition with_synthesis :: "string \<Rightarrow> string option \<Rightarrow> string" where
  "with_synthesis meta synth_meta =
     (case synth_meta of
        Some m \<Rightarrow> if m \<noteq> [] then meta @ '' | summary/reco:'' @ m else meta
      | None \<Rightarrow> meta)"

definition request_images :: "pydict \<Rightarrow> json list" where
  "request_images payload = (case get_or payload ''images'' (JList []) of JList xs \<Rightarrow> xs | _ \<Rightarrow> [])"

definition maybe_generate_with_openrouter ::
  "config \<Rightarrow> responder \<Rightarrow> pydict \<Rightarrow> call_log \<Rightarrow> (exn + result option \<times> string) \<times> call_log" where
  "maybe_generate_with_openrouter cfg env payload log =
     (if active_provider_api_key cfg = []
      then (Inr (None, provider_label cfg @ '' disabled (missing '' @
                   (if AI_PROVIDER cfg = ''qwen'' then ''QWEN_API_KEY'' else ''OPENROUTER_API_KEY'') @
                   '')''), log)
      else
        let images = request_images payload in
        if AI_OCR_ONLY_MODE cfg \<and>
           \<not> (strip (report_text cfg payload) \<noteq> [] \<or> extract_report_text_by_page payload \<noteq> [])
        then (Inr (None, provider_label cfg @ '' OCR-only mode enabled but no OCR text was provided''),
              log)
        else if \<not> AI_OCR_ONLY_MODE cfg \<and> length images > OPENROUTER_PAGE_BATCH_SIZE cfg
        then
          (case batch_loop cfg env payload images
                  (py_range 0 (length images) (OPENROUTER_PAGE_BATCH_SIZE cfg)) [] [] log of
             (Inl e, log') \<Rightarrow> (Inl e, log')
           | (Inr (BatchFailed msg), log') \<Rightarrow> (Inr (None, msg), log')
           | (Inr (BatchDone chunk_results model_hits), log') \<Rightarrow>
               (case merge_normalized_outputs chunk_results of
                  Inl e \<Rightarrow> (Inl e, log')
                | Inr merged \<Rightarrow>
                    (case run_summary_recommendation_synthesis cfg env payload merged log' of
                       ((merged', synth_meta), log'') \<Rightarrow>
                         (Inr (Some merged',
                               with_synthesis
                                 (provider_label cfg @ '' batch success (ordered pages) via '' @
                                    join '' -> '' model_hits)
                                 synth_meta), log''))))
        else
          (case run_with_completeness_retry cfg env payload images
                  (map int [1 ..< length images + 1]) (int (length images)) log of
             (Inl e, log') \<Rightarrow> (Inl e, log')
           | (Inr (Some normalized, model_or_error), log') \<Rightarrow>
               (case run_summary_recommendation_synthesis cfg env payload normalized log' of
                  ((normalized', synth_meta), log'') \<Rightarrow>
                    (Inr (Some normalized',
                          with_synthesis (provider_label cfg @ '' success via '' @ model_or_error)
                            synth_meta), log''))
           | (Inr (None, model_or_error), log') \<Rightarrow>
               (Inr (None, provider_label cfg @ '' failed. '' @ join '' | '' [model_or_error]),
                log')))"

section \<open>Concrete configurations and requests\<close>

text \<open>The configuration of an empty environment: every constant has its default.\<close>

definition default_config :: config where
  "default_config = \<lparr>
     AI_PROVIDER = ''openrouter'',
     OPENROUTER_API_KEY = '''',
     QWEN_API_KEY = '''',
     OPENROUTER_PRIMARY_MODEL = ''nvidia/nemotron-nano-12b-v2-vl:free'',
     OPENROUTER_FALLBACK_MODEL = ''qwen/qwen3-vl-30b-a3b-thinking'',
     OPENROUTER_FALLBACK_MODEL_2 = ''qwen/qwen3-vl-235b-a22b-thinking'',
     OPENROUTER_FALLBACK_MODEL_3 = ''google/gemma-3-27b-it:free'',
     QWEN_PRIMARY_MODEL = ''qwen-vl-max-latest'',
     QWEN_FALLBACK_MODEL = ''qwen-vl-plus-latest'',
     QWEN_FALLBACK_MODEL_2 = ''qwen2.5-vl-72b-instruct'',
     QWEN_FALLBACK_MODEL_3 = '''',
     env_PAGE_BATCH_SIZE = 2,
     env_MIN_BIOMARKERS_PER_IMAGE_HINT = 2,
     OPENROUTER_ENABLE_RECONCILIATION = True,
     AI_OCR_ONLY_MODE = False,
     AI_VISUAL_ONLY_MODE = False \<rparr>"

text \<open>\<open>AI_PROVIDER=qwen\<close> with a key, everything else by default.\<close>

definition qwen_config :: config where
  "qwen_config = default_config\<lparr>AI_PROVIDER := ''qwen'', QWEN_API_KEY := ''sk-test''\<rparr>"

text \<open>\<open>AI_OCR_ONLY_MODE=true\<close> with an OpenRouter key.\<close>

definition ocr_only_config :: config where
  "ocr_only_config = default_config\<lparr>OPENROUTER_API_KEY := ''sk-test'', AI_OCR_ONLY_MODE := True\<rparr>"

text \<open>A request of five page images and no OCR text.\<close>

definition five_images :: pydict where
  "five_images = [(''images'', JList [JStr ''img1'', JStr ''img2'', JStr ''img3'', JStr ''img4'',
                                       JStr ''img5''])]"

text \<open>A provider that cannot be reached: every call raises.\<close>

definition env_down :: responder where
  "env_down log args = Inl (OtherException ''timed out'')"

section \<open>Outcomes of a chain\<close>

text \<open>
  The outcome of the \<open>i\<close>-th model of a chain when the loop reaches it: the models before
  it have been called, in order, and are in the log.
\<close>

definition outcome_at ::
  "responder \<Rightarrow> (string \<Rightarrow> call_args) \<Rightarrow> string list \<Rightarrow> call_log \<Rightarrow> nat \<Rightarrow> exn + result" where
  "outcome_at env args chain log i =
     fst (try_body env (args (chain ! i)) (log @ map args (take i chain)))"

text \<open>The strings of \<open>errors_local\<close> when every model of the chain has failed.\<close>

definition chain_errors ::
  "responder \<Rightarrow> nat \<Rightarrow> (string \<Rightarrow> call_args) \<Rightarrow> string list \<Rightarrow> call_log \<Rightarrow> string list" where
  "chain_errors env limit args chain log =
     map (\<lambda>i. format_error limit (chain ! i) (projl (outcome_at env args chain log i)))
       [0 ..< length chain]"

text \<open>The object \<open>_mock_analysis_response\<close> returns, as a model's output.\<close>

definition mock_analysis_response :: pydict where
  "mock_analysis_response =
     [(''biomarkers'', JList [
         JDict [(''name'', JStr ''Hemoglobin''), (''value'', JStr ''13.8 g/dL''),
                (''status'', JStr ''Optimal''),
                (''explanation'', JStr ''Hemoglobin is within the expected range.'')],
         JDict [(''name'', JStr ''Vitamin D''), (''value'', JStr ''22 ng/mL''),
                (''status'', JStr ''Low''),
                (''explanation'', JStr ''Vitamin D is below optimal range.'')]]),
      (''recommendations'', JList [
         JDict [(''name'', JStr ''Vitamin D3''),
                (''protocol'', JStr ''2000 IU daily with breakfast for 12 weeks''),
                (''reason'', JStr ''Support low vitamin D level.'')]]),
      (''summary'', JStr ''Key markers were extracted. One marker needs attention.''),
      (''disclaimer'', JStr
         ''DISCLAIMER: This is not medical advice. Consult a healthcare provider before use.'')]"

text \<open>Its normalized form.\<close>

definition mock_result :: result where
  "mock_result = \<lparr>
     biomarkers = [
       \<lparr>b_name = ''Hemoglobin'', b_value = ''13.8 g/dL'', b_status = ''Optimal'',
        b_explanation = ''Hemoglobin is within the expected range.''\<rparr>,
       \<lparr>b_name = ''Vitamin D'', b_value = ''22 ng/mL'', b_status = ''Low'',
        b_explanation = ''Vitamin D is below optimal range.''\<rparr>],
     recommendations = [
       \<lparr>r_name = ''Vitamin D3'', r_protocol = ''2000 IU daily with breakfast for 12 weeks'',
        r_reason = ''Support low vitamin D level.''\<rparr>],
     summary = ''Key markers were extracted. One marker needs attention.'',
     disclaimer =
       ''DISCLAIMER: This is not medical advice. Consult a healthcare provider before use.'' \<rparr>"

text \<open>An OpenRouter configuration with a key and the chain \<open>[model-a, model-b, model-c]\<close>.\<close>

definition abc_config :: config where
  "abc_config = default_config\<lparr>
     OPENROUTER_API_KEY := ''sk-test'',
     OPENROUTER_PRIMARY_MODEL := ''model-a'',
     OPENROUTER_FALLBACK_MODEL := ''model-b'',
     OPENROUTER_FALLBACK_MODEL_2 := ''model-c'',
     OPENROUTER_FALLBACK_MODEL_3 := ''''\<rparr>"

text \<open>A provider where \<open>model-a\<close> answers every call with HTTP 503 and every other model
  with the mock response.\<close>

definition env_a_down :: responder where
  "env_a_down log args =
     (if ca_model args = ''model-a'' then Inl (HTTPError 503 (Some ''Service Unavailable''))
      else Inr mock_analysis_response)"

text \<open>A request of one page image and no OCR text.\<close>

definition one_image :: pydict where
  "one_image = [(''images'', JList [JStr ''img1''])]"

section \<open>Deduplication, stated on the groups of equal keys\<close>

text \<open>The first occurrence of every key, in order: what a loop with a \<open>seen\<close> set keeps.\<close>

function keep_first :: "('a \<Rightarrow> 'k) \<Rightarrow> 'a list \<Rightarrow> 'a list" where
  "keep_first key [] = []"
| "keep_first key (x # xs) = x # keep_first key (filter (\<lambda>y. key y \<noteq> key x) xs)"
  by pat_completeness auto
termination
  by (relation "measure (\<lambda>(key, xs). length xs)") (auto simp: less_Suc_eq_le)

text \<open>
  One entry for every key, in the order of the first occurrences: the first entry of the
  key, updated with each later entry of the same key as the \<open>if key in seen_biomarkers\<close>
  branch does.
\<close>

function dedupe_by_groups :: "biomarker list \<Rightarrow> biomarker list" where
  "dedupe_by_groups [] = []"
| "dedupe_by_groups (x # xs) =
     foldl merge_duplicate x (filter (\<lambda>y. biomarker_key y = biomarker_key x) xs) #
     dedupe_by_groups (filter (\<lambda>y. biomarker_key y \<noteq> biomarker_key x) xs)"
  by pat_completeness auto
termination
  by (relation "measure length") (auto simp: less_Suc_eq_le)

text \<open>A status that reads "unknown", whatever the case and the surrounding white space.\<close>

definition is_unknown :: "string \<Rightarrow> bool" where
  "is_unknown s = (lower (strip s) = ''unknown'')"

text \<open>The entries of a list that have the key of \<open>b\<close>.\<close>

definition group_of :: "biomarker \<Rightarrow> biomarker list \<Rightarrow> biomarker list" where
  "group_of b xs = filter (\<lambda>x. biomarker_key x = biomarker_key b) xs"

text \<open>The guarantee of the normalizer on a field: a non-empty string without surrounding
  white space.\<close>

definition clean :: "string \<Rightarrow> bool" where
  "clean s = (s \<noteq> [] \<and> strip s = s)"

definition normalized_biomarker :: "biomarker \<Rightarrow> bool" where
  "normalized_biomarker b =
     (clean (b_name b) \<and> clean (b_value b) \<and> clean (b_status b) \<and> clean (b_explanation b))"

definition normalized_recommendation :: "recommendation \<Rightarrow> bool" where
  "normalized_recommendation r = (clean (r_name r) \<and> clean (r_protocol r) \<and> clean (r_reason r))"

text \<open>A model output with three entries for one biomarker and two for one recommendation,
  differing in case and white space; the result before deduplication, and after.\<close>

definition dup_output :: pydict where
  "dup_output =
     [(''biomarkers'', JList [
         JDict [(''name'', JStr ''Glucose''), (''value'', JStr ''5.4 mmol/L''),
                (''status'', JStr ''Unknown''), (''explanation'', JStr ''Short.'')],
         JDict [(''name'', JStr '' glucose ''), (''value'', JStr ''5.4 MMOL/L''),
                (''status'', JStr ''High''),
                (''explanation'', JStr ''Fasting glucose is above range.'')],
         JDict [(''name'', JStr ''GLUCOSE''), (''value'', JStr ''5.4 mmol/L''),
                (''status'', JStr ''Low''), (''explanation'', JStr ''Other.'')]]),
      (''recommendations'', JList [
         JDict [(''name'', JStr ''Magnesium''), (''protocol'', JStr ''200 mg daily''),
                (''reason'', JStr ''first'')],
         JDict [(''name'', JStr ''magnesium''), (''protocol'', JStr ''200 MG daily''),
                (''reason'', JStr ''second'')]]),
      (''summary'', JStr ''ok'')]"


definition dup_merged :: biomarker where
  "dup_merged = \<lparr>b_name = ''Glucose'', b_value = ''5.4 mmol/L'', b_status = ''High'',
                  b_explanation = ''Fasting glucose is above range.''\<rparr>"

definition dup_result :: result where
  "dup_result = \<lparr>
     biomarkers = [dup_merged],
     recommendations = [
       \<lparr>r_name = ''Magnesium'', r_protocol = ''200 mg daily'', r_reason = ''first''\<rparr>],
     summary = ''ok'',
     disclaimer =
       ''DISCLAIMER: This is not medical advice. Consult a healthcare provider before use.'' \<rparr>"

text \<open>A schema-valid model output whose summary is empty, and its normalized form.\<close>

definition empty_summary_output :: pydict where
  "empty_summary_output =
     [(''biomarkers'', JList []), (''recommendations'', JList []), (''summary'', JStr '''')]"

definition empty_summary_result :: result where
  "empty_summary_result = \<lparr>
     biomarkers = [], recommendations = [], summary = '''',
     disclaimer =
       ''DISCLAIMER: This is not medical advice. Consult a healthcare provider before use.'' \<rparr>"

text \<open>The mock response with a disclaimer of one space.\<close>

definition blank_disclaimer_output :: pydict where
  "blank_disclaimer_output =
     [(''biomarkers'', get mock_analysis_response ''biomarkers''),
      (''recommendations'', get mock_analysis_response ''recommendations''),
      (''summary'', get mock_analysis_response ''summary''),
      (''disclaimer'', JStr '' '')]"

text \<open>A request of two page images, and a provider whose every model answers every call
  with three biomarkers.\<close>

definition two_images :: pydict where
  "two_images = [(''images'', JList [JStr ''img1'', JStr ''img2''])]"

definition three_biomarkers_output :: pydict where
  "three_biomarkers_output =
     [(''biomarkers'', JList [
         JDict [(''name'', JStr ''Hemoglobin''), (''value'', JStr ''13.8 g/dL''),
                (''status'', JStr ''Optimal''), (''explanation'', JStr ''Within range.'')],
         JDict [(''name'', JStr ''Vitamin D''), (''value'', JStr ''22 ng/mL''),
                (''status'', JStr ''Low''), (''explanation'', JStr ''Below range.'')],
         JDict [(''name'', JStr ''Ferritin''), (''value'', JStr ''41 ng/mL''),
                (''status'', JStr ''Optimal''), (''explanation'', JStr ''Within range.'')]]),
      (''recommendations'', JList []),
      (''summary'', JStr ''Three markers were extracted.'')]"

definition three_biomarkers_result :: result where
  "three_biomarkers_result = \<lparr>
     biomarkers = [
       \<lparr>b_name = ''Hemoglobin'', b_value = ''13.8 g/dL'', b_status = ''Optimal'',
        b_explanation = ''Within range.''\<rparr>,
       \<lparr>b_name = ''Vitamin D'', b_value = ''22 ng/mL'', b_status = ''Low'',
        b_explanation = ''Below range.''\<rparr>,
       \<lparr>b_name = ''Ferritin'', b_value = ''41 ng/mL'', b_status = ''Optimal'',
        b_explanation = ''Within range.''\<rparr>],
     recommendations = [],
     summary = ''Three markers were extracted.'',
     disclaimer =
       ''DISCLAIMER: This is not medical advice. Consult a healthcare provider before use.'' \<rparr>"

definition env_three :: responder where
  "env_three log args = Inr three_biomarkers_output"

text \<open>A provider that answers every extraction call with the mock response and every call
  with an overriding prompt (reconciliation, synthesis) with HTTP 500.\<close>

definition env_passes_down :: responder where
  "env_passes_down log args =
     (if ca_prompt_override args = None then Inr mock_analysis_response
      else Inl (HTTPError 500 (Some ''Internal Server Error'')))"

text \<open>
  A provider whose every model answers every call with four biomarkers, the first of
  which, a glucose value, has the status High when the call is for the pages 1 and 2 and
  Low otherwise; the normalized form of its two answers.
\<close>

definition batch_output :: "string \<Rightarrow> pydict" where
  "batch_output glucose_status =
     [(''biomarkers'', JList [
         JDict [(''name'', JStr ''Glucose''), (''value'', JStr ''5.4 mmol/L''),
                (''status'', JStr glucose_status), (''explanation'', JStr ''Fasting glucose.'')],
         JDict [(''name'', JStr ''Hemoglobin''), (''value'', JStr ''13.8 g/dL''),
                (''status'', JStr ''Optimal''), (''explanation'', JStr ''Within range.'')],
         JDict [(''name'', JStr ''Vitamin D''), (''value'', JStr ''22 ng/mL''),
                (''status'', JStr ''Low''), (''explanation'', JStr ''Below range.'')],
         JDict [(''name'', JStr ''Ferritin''), (''value'', JStr ''41 ng/mL''),
                (''status'', JStr ''Optimal''), (''explanation'', JStr ''Within range.'')]]),
      (''recommendations'', JList []),
      (''summary'', JStr ''Batch summary.'')]"

definition batch_result :: "string \<Rightarrow> result" where
  "batch_result glucose_status = \<lparr>
     biomarkers = [
       \<lparr>b_name = ''Glucose'', b_value = ''5.4 mmol/L'', b_status = glucose_status,
        b_explanation = ''Fasting glucose.''\<rparr>,
       \<lparr>b_name = ''Hemoglobin'', b_value = ''13.8 g/dL'', b_status = ''Optimal'',
        b_explanation = ''Within range.''\<rparr>,
       \<lparr>b_name = ''Vitamin D'', b_value = ''22 ng/mL'', b_status = ''Low'',
        b_explanation = ''Below range.''\<rparr>,
       \<lparr>b_name = ''Ferritin'', b_value = ''41 ng/mL'', b_status = ''Optimal'',
        b_explanation = ''Within range.''\<rparr>],
     recommendations = [],
     summary = ''Batch summary.'',
     disclaimer =
       ''DISCLAIMER: This is not medical advice. Consult a healthcare provider before use.'' \<rparr>"

definition env_batch :: responder where
  "env_batch log args =
     Inr (batch_output (if ca_page_numbers args = [1, 2] then ''High'' else ''Low''))"

text \<open>The five images of the request \<open>five_images\<close>.\<close>

definition five :: "json list" where
  "five = [JStr ''img1'', JStr ''img2'', JStr ''img3'', JStr ''img4'', JStr ''img5'']"

text \<open>The same provider, except that every synthesis call is answered with HTTP 500.\<close>

definition env_batch_no_synthesis :: responder where
  "env_batch_no_synthesis log args =
     (case ca_prompt_override args of
        Some (SynthesisPrompt extracted t) \<Rightarrow> Inl (HTTPError 500 (Some ''Internal Server Error''))
      | _ \<Rightarrow> Inr (batch_output (if ca_page_numbers args = [1, 2] then ''High'' else ''Low'')))"

text \<open>What the three batches of the five images merge to.\<close>

definition batch_merged :: result where
  "batch_merged = (batch_result ''High'')\<lparr>
     summary := ''Analyzed report pages in order across 3 batch(es). Batch summary.''\<rparr>"









text \<open>A provider that answers every reconciliation call with the three biomarkers and
  every other call with the mock response; and one that does so for every synthesis call.\<close>

definition env_recon_three :: responder where
  "env_recon_three log args =
     (case ca_prompt_override args of
        Some (ReconciliationPrompt extracted t pages total_pages) \<Rightarrow> Inr three_biomarkers_output
      | _ \<Rightarrow> Inr mock_analysis_response)"

definition env_synthesis_three :: responder where
  "env_synthesis_three log args =
     (case ca_prompt_override args of
        Some (SynthesisPrompt extracted t) \<Rightarrow> Inr three_biomarkers_output
      | _ \<Rightarrow> Inr mock_analysis_response)"

section \<open>Properties of the string functions\<close>

lemma strip_Nil [simp]: "strip [] = []"
  by (simp add: strip_def)

section \<open>The guards of \<open>maybe_generate_with_openrouter\<close>\<close>

text \<open>
  Claim C10. Without an API key for the active provider, \<open>maybe_generate_with_openrouter\<close>
  returns no result and the diagnostic "... disabled (missing ...)"; with a key, in
  OCR-only mode, for a request that has neither a report text nor a valid per-page text,
  it returns no result and the diagnostic that no OCR text was provided. In both cases
  the log of model calls is returned as it was: no model is called.
\<close>

theorem maybe_generate_guards:
  "(active_provider_api_key cfg = [] \<longrightarrow>
      maybe_generate_with_openrouter cfg env payload log =
        (Inr (None, provider_label cfg @ '' disabled (missing '' @
                (if AI_PROVIDER cfg = ''qwen'' then ''QWEN_API_KEY'' else ''OPENROUTER_API_KEY'') @ '')''),
         log)) \<and>
   (active_provider_api_key cfg \<noteq> [] \<and> AI_OCR_ONLY_MODE cfg \<and>
    extract_report_text payload = [] \<and> extract_report_text_by_page payload = [] \<longrightarrow>
      maybe_generate_with_openrouter cfg env payload log =
        (Inr (None, provider_label cfg @ '' OCR-only mode enabled but no OCR text was provided''),
         log))"
  by (simp add: maybe_generate_with_openrouter_def report_text_def)

theorem maybe_generate_guards_witness:
  "active_provider_api_key default_config = [] \<and>
   maybe_generate_with_openrouter default_config env_down five_images [] =
     (Inr (None, ''OpenRouter disabled (missing OPENROUTER_API_KEY)''), []) \<and>
   active_provider_api_key ocr_only_config \<noteq> [] \<and> AI_OCR_ONLY_MODE ocr_only_config \<and>
   extract_report_text five_images = [] \<and> extract_report_text_by_page five_images = [] \<and>
   maybe_generate_with_openrouter ocr_only_config env_down five_images [] =
     (Inr (None, ''OpenRouter OCR-only mode enabled but no OCR text was provided''), [])"
proof -
  have k1: "active_provider_api_key default_config = []"
    by code_simp
  have k2: "active_provider_api_key ocr_only_config \<noteq> [] \<and> AI_OCR_ONLY_MODE ocr_only_config"
    by code_simp
  have t: "extract_report_text five_images = [] \<and> extract_report_text_by_page five_images = []"
    by code_simp
  have l1: "provider_label default_config @ '' disabled (missing '' @
              (if AI_PROVIDER default_config = ''qwen'' then ''QWEN_API_KEY''
               else ''OPENROUTER_API_KEY'') @ '')'' =
            ''OpenRouter disabled (missing OPENROUTER_API_KEY)''"
    by code_simp
  have l2: "provider_label ocr_only_config @ '' OCR-only mode enabled but no OCR text was provided'' =
            ''OpenRouter OCR-only mode enabled but no OCR text was provided''"
    by code_simp
  from k1 l1 maybe_generate_guards [of default_config env_down five_images "[]"]
  have r1: "maybe_generate_with_openrouter default_config env_down five_images [] =
              (Inr (None, ''OpenRouter disabled (missing OPENROUTER_API_KEY)''), [])"
    by simp
  from k2 t l2 maybe_generate_guards [of ocr_only_config env_down five_images "[]"]
  have r2: "maybe_generate_with_openrouter ocr_only_config env_down five_images [] =
              (Inr (None, ''OpenRouter OCR-only mode enabled but no OCR text was provided''), [])"
    by simp
  from k1 k2 t r1 r2 show ?thesis
    by blast
qed

section \<open>The reconciliation chain and the provider\<close>

text \<open>
  Claim C9, at \<open>AI_PROVIDER=qwen\<close>. The extraction chain is made of the Qwen models; the
  reconciliation chain is made of the OpenRouter models, fallbacks before the primary,
  and no model of it is a model of the active provider.
\<close>

theorem recon_models_qwen:
  "active_provider_model_chain qwen_config =
     [''qwen-vl-max-latest'', ''qwen-vl-plus-latest'', ''qwen2.5-vl-72b-instruct''] \<and>
   recon_models qwen_config =
     [''qwen/qwen3-vl-30b-a3b-thinking'', ''qwen/qwen3-vl-235b-a22b-thinking'',
      ''nvidia/nemotron-nano-12b-v2-vl:free'']"
  by code_simp

section \<open>The chain loop\<close>

lemma try_body_log: "snd (try_body env a log) = log @ [a]"
  by (simp add: try_body_def call_openrouter_model_def split: sum.splits)

lemma outcome_at_0: "outcome_at env args (m # ms) log 0 = fst (try_body env (args m) log)"
  by (simp add: outcome_at_def)

lemma outcome_at_Suc:
  "outcome_at env args (m # ms) log (Suc i) = outcome_at env args ms (log @ [args m]) i"
  by (simp add: outcome_at_def)

lemma try_models_success:
  assumes "k < length chain"
    and "\<forall>i<k. isl (outcome_at env args chain log i)"
    and "outcome_at env args chain log k = Inr r"
  shows "try_models env limit args chain errs log =
           (Inr (r, chain ! k), log @ map args (take (Suc k) chain))"
  using assms
proof (induction chain arbitrary: k errs log)
  case Nil
  then show ?case by simp
next
  case (Cons m ms)
  obtain res log' where tb: "try_body env (args m) log = (res, log')"
    by (cases "try_body env (args m) log")
  have log': "log' = log @ [args m]"
    using try_body_log [of env "args m" log] tb by simp
  show ?case
  proof (cases k)
    case 0
    with Cons.prems(3) tb have "res = Inr r"
      by (simp add: outcome_at_0)
    with tb log' 0 show ?thesis by simp
  next
    case (Suc j)
    from Cons.prems(2) Suc have "isl (outcome_at env args (m # ms) log 0)"
      by simp
    with tb obtain e where res: "res = Inl e"
      by (cases res) (simp_all add: outcome_at_0)
    have j: "j < length ms"
      using Cons.prems(1) Suc by simp
    have fails: "\<forall>i<j. isl (outcome_at env args ms (log @ [args m]) i)"
      using Cons.prems(2) Suc by (auto simp: outcome_at_Suc [symmetric])
    have succ: "outcome_at env args ms (log @ [args m]) j = Inr r"
      using Cons.prems(3) Suc by (simp add: outcome_at_Suc)
    from Cons.IH [OF j fails succ]
    show ?thesis
      using tb res log' Suc by simp
  qed
qed

lemma chain_errors_Cons:
  "chain_errors env limit args (m # ms) log =
     format_error limit m (projl (fst (try_body env (args m) log))) #
     chain_errors env limit args ms (log @ [args m])"
proof -
  have "[0 ..< length (m # ms)] = 0 # map Suc [0 ..< length ms]"
    by (simp add: upt_conv_Cons map_Suc_upt del: upt_Suc)
  then show ?thesis
    by (simp add: chain_errors_def outcome_at_0 outcome_at_Suc comp_def del: upt_Suc)
qed

lemma try_models_all_fail:
  assumes "\<forall>i<length chain. isl (outcome_at env args chain log i)"
  shows "try_models env limit args chain errs log =
           (Inl (errs @ chain_errors env limit args chain log), log @ map args chain)"
  using assms
proof (induction chain arbitrary: errs log)
  case Nil
  then show ?case by (simp add: chain_errors_def)
next
  case (Cons m ms)
  obtain res log' where tb: "try_body env (args m) log = (res, log')"
    by (cases "try_body env (args m) log")
  have log': "log' = log @ [args m]"
    using try_body_log [of env "args m" log] tb by simp
  from Cons.prems have "isl (outcome_at env args (m # ms) log 0)"
    by auto
  with tb obtain e where res: "res = Inl e"
    by (cases res) (simp_all add: outcome_at_0)
  have fails: "\<forall>i<length ms. isl (outcome_at env args ms (log @ [args m]) i)"
    using Cons.prems by (auto simp: outcome_at_Suc [symmetric])
  from Cons.IH [OF fails]
  show ?case
    using tb res log' by (simp add: chain_errors_Cons)
qed

section \<open>Fallback Chain Runner: order, first success, exhaustion\<close>

lemma format_error_shape:
  "format_error limit model e = model @ '': '' @
     (case e of
        HTTPError code body \<Rightarrow>
          ''HTTP '' @ str_int code @ '' '' @
            take limit (case body of Some b \<Rightarrow> b | None \<Rightarrow> ''<unreadable>'')
      | _ \<Rightarrow> str_exn e)"
  by (cases e) (simp_all add: format_error_def)

text \<open>
  Claim C1, as the code has it. The models of the extraction chain are called in chain
  order. If the \<open>k\<close>-th model is the first whose output is normalized without an exception,
  the runner returns that normalized result with the identifier of that model, and
  nothing else: the failures of the models before it are dropped; the calls made are
  those of the first \<open>k + 1\<close> models, in order, so no later model is called. If every
  model fails, the runner returns no result and the failures joined by \<open>" | "\<close>, each
  formatted as the model, a colon and the error (for an HTTP error, the status code and
  the first 300 characters of the body).
\<close>

theorem run_model_chain_for_images_order:
  "(k < length (active_provider_model_chain_for_mode cfg) \<and>
    (\<forall>i<k. isl (outcome_at env (extraction_args cfg payload imgs pages total_pages)
                   (active_provider_model_chain_for_mode cfg) log i)) \<and>
    outcome_at env (extraction_args cfg payload imgs pages total_pages)
      (active_provider_model_chain_for_mode cfg) log k = Inr r \<longrightarrow>
      run_model_chain_for_images cfg env payload imgs pages total_pages log =
        ((Some r, active_provider_model_chain_for_mode cfg ! k),
         log @ map (extraction_args cfg payload imgs pages total_pages)
                 (take (Suc k) (active_provider_model_chain_for_mode cfg)))) \<and>
   ((\<forall>i<length (active_provider_model_chain_for_mode cfg).
        isl (outcome_at env (extraction_args cfg payload imgs pages total_pages)
               (active_provider_model_chain_for_mode cfg) log i)) \<longrightarrow>
      run_model_chain_for_images cfg env payload imgs pages total_pages log =
        ((None, join '' | '' (chain_errors env 300 (extraction_args cfg payload imgs pages total_pages)
                               (active_provider_model_chain_for_mode cfg) log)),
         log @ map (extraction_args cfg payload imgs pages total_pages)
                 (active_provider_model_chain_for_mode cfg))) \<and>
   format_error 300 model e = model @ '': '' @
     (case e of
        HTTPError code body \<Rightarrow>
          ''HTTP '' @ str_int code @ '' '' @
            take 300 (case body of Some b \<Rightarrow> b | None \<Rightarrow> ''<unreadable>'')
      | _ \<Rightarrow> str_exn e)"
proof (intro conjI impI)
  assume "k < length (active_provider_model_chain_for_mode cfg) \<and>
    (\<forall>i<k. isl (outcome_at env (extraction_args cfg payload imgs pages total_pages)
                   (active_provider_model_chain_for_mode cfg) log i)) \<and>
    outcome_at env (extraction_args cfg payload imgs pages total_pages)
      (active_provider_model_chain_for_mode cfg) log k = Inr r"
  then show "run_model_chain_for_images cfg env payload imgs pages total_pages log =
        ((Some r, active_provider_model_chain_for_mode cfg ! k),
         log @ map (extraction_args cfg payload imgs pages total_pages)
                 (take (Suc k) (active_provider_model_chain_for_mode cfg)))"
    using try_models_success [of k "active_provider_model_chain_for_mode cfg" env
        "extraction_args cfg payload imgs pages total_pages" log r 300 "[]"]
    by (simp add: run_model_chain_for_images_def del: take_Suc)
next
  assume "\<forall>i<length (active_provider_model_chain_for_mode cfg).
        isl (outcome_at env (extraction_args cfg payload imgs pages total_pages)
               (active_provider_model_chain_for_mode cfg) log i)"
  then show "run_model_chain_for_images cfg env payload imgs pages total_pages log =
        ((None, join '' | '' (chain_errors env 300 (extraction_args cfg payload imgs pages total_pages)
                               (active_provider_model_chain_for_mode cfg) log)),
         log @ map (extraction_args cfg payload imgs pages total_pages)
                 (active_provider_model_chain_for_mode cfg))"
    by (simp add: run_model_chain_for_images_def try_models_all_fail)
next
  show "format_error 300 model e = model @ '': '' @
     (case e of
        HTTPError code body \<Rightarrow>
          ''HTTP '' @ str_int code @ '' '' @
            take 300 (case body of Some b \<Rightarrow> b | None \<Rightarrow> ''<unreadable>'')
      | _ \<Rightarrow> str_exn e)"
    by (rule format_error_shape)
qed

text \<open>The chain \<open>[model-a, model-b, model-c]\<close>, first with \<open>model-a\<close> down, then with every
  model down.\<close>

theorem run_model_chain_for_images_order_witness:
  "run_model_chain_for_images abc_config env_a_down one_image [JStr ''img1''] [1] 1 [] =
     ((Some mock_result, ''model-b''),
      map (extraction_args abc_config one_image [JStr ''img1''] [1] 1) [''model-a'', ''model-b'']) \<and>
   run_model_chain_for_images abc_config env_down one_image [JStr ''img1''] [1] 1 [] =
     ((None, ''model-a: timed out | model-b: timed out | model-c: timed out''),
      map (extraction_args abc_config one_image [JStr ''img1''] [1] 1)
        [''model-a'', ''model-b'', ''model-c''])"
proof -
  let ?args = "extraction_args abc_config one_image [JStr ''img1''] [1] 1"
  have chain: "active_provider_model_chain_for_mode abc_config = [''model-a'', ''model-b'', ''model-c'']"
    by code_simp
  have o0: "isl (outcome_at env_a_down ?args [''model-a'', ''model-b'', ''model-c''] [] 0)"
    by code_simp
  have o1: "outcome_at env_a_down ?args [''model-a'', ''model-b'', ''model-c''] [] 1 = Inr mock_result"
    by code_simp
  have d: "\<forall>i<3. isl (outcome_at env_down ?args [''model-a'', ''model-b'', ''model-c''] [] i)"
    by (simp add: outcome_at_def try_body_def call_openrouter_model_def env_down_def)
  have e: "join '' | '' (chain_errors env_down 300 ?args [''model-a'', ''model-b'', ''model-c''] []) =
             ''model-a: timed out | model-b: timed out | model-c: timed out''"
    by code_simp
  from run_model_chain_for_images_order
         [of 1 abc_config env_a_down one_image "[JStr ''img1'']" "[1]" 1 "[]" mock_result]
       chain o0 o1
  have a: "run_model_chain_for_images abc_config env_a_down one_image [JStr ''img1''] [1] 1 [] =
     ((Some mock_result, ''model-b''), map ?args [''model-a'', ''model-b''])"
    by simp
  from run_model_chain_for_images_order
         [of _ abc_config env_down one_image "[JStr ''img1'']" "[1]" 1 "[]"]
       chain d e
  have b: "run_model_chain_for_images abc_config env_down one_image [JStr ''img1''] [1] 1 [] =
     ((None, ''model-a: timed out | model-b: timed out | model-c: timed out''),
      map ?args [''model-a'', ''model-b'', ''model-c''])"
    by simp
  from a b show ?thesis by simp
qed

text \<open>
  With \<open>model-a\<close> answering HTTP 503 and \<open>model-b\<close> succeeding, the trace the runner
  returns is \<open>model-b\<close>: it mentions neither \<open>model-a\<close> nor its failure, and neither does
  the diagnostic of the whole request.
\<close>

theorem chain_trace_counterexample:
  "fst (run_model_chain_for_images abc_config env_a_down one_image [JStr ''img1''] [1] 1 []) =
     (Some mock_result, ''model-b'') \<and>
   \<not> contains ''model-b'' ''model-a'' \<and>
   \<not> contains ''model-b'' ''503'' \<and>
   fst (maybe_generate_with_openrouter abc_config env_a_down one_image []) =
     Inr (Some mock_result,
          ''OpenRouter success via model-b | reconciliation:model-b | summary/reco:model-b'')"
  by code_simp

section \<open>The deduplication loops\<close>

subsection \<open>Loops with a seen set\<close>

lemma keep_first_keys_subset: "set (keep_first key xs) \<subseteq> set xs"
  by (induction key xs rule: keep_first.induct) auto

lemma key_set_keep_first: "key ` set (keep_first key xs) = key ` set xs"
proof (induction key xs rule: keep_first.induct)
  case (1 key)
  then show ?case by simp
next
  case (2 key x xs)
  have "key ` set (x # xs) = insert (key x) (key ` set (filter (\<lambda>y. key y \<noteq> key x) xs))"
    by auto
  with 2 show ?case by simp
qed

lemma distinct_keep_first: "distinct (map key (keep_first key xs))"
proof (induction key xs rule: keep_first.induct)
  case (1 key)
  then show ?case by simp
next
  case (2 key x xs)
  have "key x \<notin> key ` set (keep_first key (filter (\<lambda>y. key y \<noteq> key x) xs))"
    by (auto simp: key_set_keep_first)
  with 2 show ?case by simp
qed

lemma keep_first_distinct_id: "distinct (map key xs) \<Longrightarrow> keep_first key xs = xs"
proof (induction xs)
  case Nil
  then show ?case by simp
next
  case (Cons x xs)
  then have "key x \<notin> key ` set xs"
    by simp
  then have "\<forall>y\<in>set xs. key y \<noteq> key x"
    by (metis imageI)
  then have "filter (\<lambda>y. key y \<noteq> key x) xs = xs"
    by (simp add: filter_id_conv)
  with Cons show ?case by simp
qed

lemma dedupe_recommendations_loop_keep_first:
  "dedupe_recommendations_loop items seen acc =
     acc @ keep_first recommendation_key (filter (\<lambda>x. recommendation_key x \<notin> seen) items)"
proof (induction items arbitrary: seen acc)
  case Nil
  then show ?case by simp
next
  case (Cons item items)
  have "filter (\<lambda>y. recommendation_key y \<noteq> recommendation_key item)
          (filter (\<lambda>x. recommendation_key x \<notin> seen) items) =
        filter (\<lambda>x. recommendation_key x \<notin> insert (recommendation_key item) seen) items"
    by (auto intro: filter_cong)
  with Cons show ?case by simp
qed


subsection \<open>The biomarker loop\<close>

lemma merge_duplicate_name [simp]: "b_name (merge_duplicate a b) = b_name a"
  by (simp add: merge_duplicate_def Let_def)

lemma merge_duplicate_value [simp]: "b_value (merge_duplicate a b) = b_value a"
  by (simp add: merge_duplicate_def Let_def)

lemma merge_duplicate_key [simp]: "biomarker_key (merge_duplicate a b) = biomarker_key a"
  by (simp add: biomarker_key_def)

lemma foldl_merge_name [simp]: "b_name (foldl merge_duplicate a ys) = b_name a"
  by (induction ys arbitrary: a) simp_all

lemma foldl_merge_value [simp]: "b_value (foldl merge_duplicate a ys) = b_value a"
  by (induction ys arbitrary: a) simp_all

lemma foldl_merge_key [simp]: "biomarker_key (foldl merge_duplicate a ys) = biomarker_key a"
  by (simp add: biomarker_key_def)

lemma key_set_dedupe_by_groups:
  "biomarker_key ` set (dedupe_by_groups xs) = biomarker_key ` set xs"
proof (induction xs rule: dedupe_by_groups.induct)
  case 1
  then show ?case by simp
next
  case (2 x xs)
  have "biomarker_key ` set (x # xs) =
        insert (biomarker_key x)
          (biomarker_key ` set (filter (\<lambda>y. biomarker_key y \<noteq> biomarker_key x) xs))"
    by auto
  with 2 show ?case by simp
qed

lemma distinct_dedupe_by_groups: "distinct (map biomarker_key (dedupe_by_groups xs))"
proof (induction xs rule: dedupe_by_groups.induct)
  case 1
  then show ?case by simp
next
  case (2 x xs)
  have "biomarker_key x \<notin>
        biomarker_key ` set (dedupe_by_groups (filter (\<lambda>y. biomarker_key y \<noteq> biomarker_key x) xs))"
    by (auto simp: key_set_dedupe_by_groups)
  with 2 show ?case by simp
qed

lemma dedupe_by_groups_distinct_id:
  "distinct (map biomarker_key xs) \<Longrightarrow> dedupe_by_groups xs = xs"
proof (induction xs)
  case Nil
  then show ?case by simp
next
  case (Cons x xs)
  then have "biomarker_key x \<notin> biomarker_key ` set xs"
    by simp
  then have ne: "\<forall>y\<in>set xs. biomarker_key y \<noteq> biomarker_key x"
    by (metis imageI)
  then have a: "filter (\<lambda>y. biomarker_key y \<noteq> biomarker_key x) xs = xs"
    by (simp add: filter_id_conv)
  from ne have b: "filter (\<lambda>y. biomarker_key y = biomarker_key x) xs = []"
    by (simp add: filter_empty_conv)
  from Cons a b show ?case by simp
qed

lemma dedupe_by_groups_merge_at:
  assumes "distinct (map biomarker_key acc)"
    and "i < length acc"
    and "biomarker_key (acc ! i) = biomarker_key item"
  shows "dedupe_by_groups (acc @ item # rest) =
         dedupe_by_groups (acc[i := merge_duplicate (acc ! i) item] @ rest)"
  using assms
proof (induction acc arbitrary: i rest)
  case Nil
  then show ?case by simp
next
  case (Cons a as)
  from Cons.prems(1) have "biomarker_key a \<notin> biomarker_key ` set as"
    by simp
  then have nea: "\<forall>y\<in>set as. biomarker_key y \<noteq> biomarker_key a"
    by (metis imageI)
  from nea have none: "filter (\<lambda>y. biomarker_key y = biomarker_key a) as = []"
    by (simp add: filter_empty_conv)
  from nea have all: "filter (\<lambda>y. biomarker_key y \<noteq> biomarker_key a) as = as"
    by (simp add: filter_id_conv)
  show ?case
  proof (cases i)
    case 0
    with Cons.prems(3) have k: "biomarker_key a = biomarker_key item" by simp
    from 0 k none all show ?thesis by simp
  next
    case (Suc j)
    with Cons.prems have j: "j < length as" and kj: "biomarker_key (as ! j) = biomarker_key item"
      by simp_all
    from j have "as ! j \<in> set as"
      by simp
    with nea kj have ne: "biomarker_key item \<noteq> biomarker_key a"
      by metis
    let ?as' = "as[j := merge_duplicate (as ! j) item]"
    have nea': "\<forall>y\<in>set ?as'. biomarker_key y \<noteq> biomarker_key a"
    proof
      fix y
      assume "y \<in> set ?as'"
      then have "y = merge_duplicate (as ! j) item \<or> y \<in> set as"
        using set_update_subset_insert [of as j "merge_duplicate (as ! j) item"] by auto
      with nea ne kj show "biomarker_key y \<noteq> biomarker_key a"
        by auto
    qed
    from nea' have none': "filter (\<lambda>y. biomarker_key y = biomarker_key a) ?as' = []"
      by (simp add: filter_empty_conv)
    from nea' have all': "filter (\<lambda>y. biomarker_key y \<noteq> biomarker_key a) ?as' = ?as'"
      by (simp add: filter_id_conv)
    have d: "distinct (map biomarker_key as)"
      using Cons.prems(1) by simp
    from Cons.IH [OF d j kj, of "filter (\<lambda>y. biomarker_key y \<noteq> biomarker_key a) rest"]
    show ?thesis
      using Suc ne none all none' all' by simp
  qed
qed

text \<open>The invariant of the loop: \<open>seen_biomarkers\<close> maps the key of every entry of
  \<open>deduped_biomarkers\<close> to its index, and nothing else.\<close>

lemma dedupe_biomarkers_loop_groups:
  assumes "\<forall>i<length acc. seen (biomarker_key (acc ! i)) = Some i"
    and "\<forall>k i. seen k = Some i \<longrightarrow> i < length acc \<and> biomarker_key (acc ! i) = k"
  shows "dedupe_biomarkers_loop items seen acc = dedupe_by_groups (acc @ items)"
  using assms
proof (induction items arbitrary: seen acc)
  case Nil
  have "distinct (map biomarker_key acc)"
    unfolding distinct_conv_nth
  proof (intro allI impI)
    fix i j
    assume "i < length (map biomarker_key acc)" "j < length (map biomarker_key acc)" "i \<noteq> j"
    with Nil.prems(1) show "map biomarker_key acc ! i \<noteq> map biomarker_key acc ! j"
      by (metis length_map nth_map option.inject)
  qed
  then show ?case by (simp add: dedupe_by_groups_distinct_id)
next
  case (Cons item items)
  have dist: "distinct (map biomarker_key acc)"
    unfolding distinct_conv_nth
  proof (intro allI impI)
    fix i j
    assume "i < length (map biomarker_key acc)" "j < length (map biomarker_key acc)" "i \<noteq> j"
    with Cons.prems(1) show "map biomarker_key acc ! i \<noteq> map biomarker_key acc ! j"
      by (metis length_map nth_map option.inject)
  qed
  show ?case
  proof (cases "seen (biomarker_key item)")
    case None
    let ?seen = "seen(biomarker_key item \<mapsto> length acc)"
    let ?acc = "acc @ [item]"
    have fresh: "\<forall>i<length acc. biomarker_key (acc ! i) \<noteq> biomarker_key item"
      using Cons.prems(1) None by (metis option.distinct(1))
    have p1: "\<forall>i<length ?acc. ?seen (biomarker_key (?acc ! i)) = Some i"
      using Cons.prems(1) fresh by (auto simp: nth_append less_Suc_eq)
    have p2: "\<forall>k i. ?seen k = Some i \<longrightarrow> i < length ?acc \<and> biomarker_key (?acc ! i) = k"
      using Cons.prems(2) by (auto simp: nth_append less_Suc_eq split: if_splits)
    from Cons.IH [OF p1 p2] None show ?thesis by (simp add: fun_upd_def)
  next
    case (Some i)
    with Cons.prems(2) have "i < length acc \<and> biomarker_key (acc ! i) = biomarker_key item"
      by blast
    then have i: "i < length acc" and ki: "biomarker_key (acc ! i) = biomarker_key item"
      by simp_all
    let ?acc = "acc[i := merge_duplicate (acc ! i) item]"
    have same: "\<forall>j<length acc. biomarker_key (?acc ! j) = biomarker_key (acc ! j)"
      using i by (auto simp: nth_list_update)
    have p1: "\<forall>j<length ?acc. seen (biomarker_key (?acc ! j)) = Some j"
      using Cons.prems(1) same by simp
    have p2: "\<forall>k j. seen k = Some j \<longrightarrow> j < length ?acc \<and> biomarker_key (?acc ! j) = k"
      using Cons.prems(2) same by simp
    from Cons.IH [OF p1 p2] Some dedupe_by_groups_merge_at [OF dist i ki, of items]
    show ?thesis by simp
  qed
qed

lemma dedupe_biomarkers_loop_eq:
  "dedupe_biomarkers_loop items Map.empty [] = dedupe_by_groups items"
  using dedupe_biomarkers_loop_groups [of "[]" Map.empty items] by simp

section \<open>Normalized fields and merged entries\<close>

subsection \<open>\<open>strip\<close>\<close>

lemma dropWhile_id: "xs = [] \<or> \<not> P (hd xs) \<Longrightarrow> dropWhile P xs = xs"
  by (cases xs) auto

lemma last_dropWhile: "dropWhile P xs \<noteq> [] \<Longrightarrow> last (dropWhile P xs) = last xs"
  by (induction xs) (auto split: if_splits)

lemma strip_strip [simp]: "strip (strip s) = strip s"
proof -
  let ?t = "dropWhile is_space s"
  let ?u = "dropWhile is_space (rev ?t)"
  have s: "strip s = rev ?u"
    by (simp add: strip_def)
  show ?thesis
  proof (cases "?u = []")
    case True
    with s show ?thesis by simp
  next
    case False
    have t: "?t \<noteq> []"
    proof
      assume "?t = []"
      then have "?u = []"
        by (simp only: rev.simps dropWhile.simps)
      with False show False
        by simp
    qed
    from False have "last ?u = last (rev ?t)"
      by (rule last_dropWhile)
    with t have "last ?u = hd ?t"
      by (simp add: last_rev)
    moreover from t have "\<not> is_space (hd ?t)"
      by (rule hd_dropWhile)
    ultimately have "\<not> is_space (hd (rev ?u))"
      using False by (simp add: hd_rev)
    then have a: "dropWhile is_space (rev ?u) = rev ?u"
      by (simp add: dropWhile_id)
    from False have "\<not> is_space (hd ?u)"
      by (rule hd_dropWhile)
    then have b: "dropWhile is_space ?u = ?u"
      by (simp add: dropWhile_id)
    have "strip (rev ?u) = rev (dropWhile is_space (rev (dropWhile is_space (rev ?u))))"
      by (simp only: strip_def)
    also have "\<dots> = rev ?u"
      using a b by simp
    finally show ?thesis
      using s by simp
  qed
qed

lemma clean_str_or: "clean d \<Longrightarrow> clean (str_or (strip s) d)"
  by (simp add: clean_def str_or_def)

lemma clean_defaults:
  "clean ''Unknown''" "clean ''N/A''" "clean ''No explanation provided.''"
  "clean ''Recommendation''" "clean ''No protocol provided.''" "clean ''No reason provided.''"
  by code_simp+

lemma normalized_normalize_biomarker: "normalized_biomarker (normalize_biomarker item)"
  by (simp add: normalized_biomarker_def normalize_biomarker_def clean_str_or clean_defaults)

lemma normalized_normalize_recommendation:
  "normalized_recommendation (normalize_recommendation item)"
  by (simp add: normalized_recommendation_def normalize_recommendation_def clean_str_or
      clean_defaults)

subsection \<open>What the merged entry of a group is\<close>

lemma merge_duplicate_explanation:
  "b_explanation (merge_duplicate a b) =
     (if length (b_explanation b) > length (b_explanation a) then b_explanation b
      else b_explanation a)"
  by (simp add: merge_duplicate_def Let_def)

lemma merge_duplicate_status:
  "b_status (merge_duplicate a b) =
     (if is_unknown (b_status a) \<and> strip (b_status b) \<noteq> [] then b_status b else b_status a)"
  by (simp add: merge_duplicate_def Let_def is_unknown_def)

lemma foldl_merge_explanation_mem:
  "b_explanation (foldl merge_duplicate a ys) \<in> b_explanation ` set (a # ys)"
proof (induction ys arbitrary: a)
  case Nil
  then show ?case by simp
next
  case (Cons y ys)
  from Cons [of "merge_duplicate a y"] show ?case
    by (auto simp: merge_duplicate_explanation split: if_splits)
qed



lemma foldl_merge_status_mem:
  "b_status (foldl merge_duplicate a ys) \<in> b_status ` set (a # ys)"
proof (induction ys arbitrary: a)
  case Nil
  then show ?case by simp
next
  case (Cons y ys)
  from Cons [of "merge_duplicate a y"] show ?case
    by (auto simp: merge_duplicate_status split: if_splits)
qed



lemma dedupe_by_groups_entry:
  "b \<in> set (dedupe_by_groups xs) \<Longrightarrow>
     \<exists>x ys. group_of b xs = x # ys \<and> b = foldl merge_duplicate x ys"
proof (induction xs rule: dedupe_by_groups.induct)
  case 1
  then show ?case by simp
next
  case (2 x xs)
  let ?same = "filter (\<lambda>y. biomarker_key y = biomarker_key x) xs"
  let ?rest = "filter (\<lambda>y. biomarker_key y \<noteq> biomarker_key x) xs"
  from "2.prems" consider "b = foldl merge_duplicate x ?same" | "b \<in> set (dedupe_by_groups ?rest)"
    by auto
  then show ?case
  proof cases
    case 1
    then have "biomarker_key b = biomarker_key x"
      by simp
    then have "group_of b (x # xs) = x # ?same"
      by (simp add: group_of_def)
    with 1 show ?thesis
      by blast
  next
    case 2
    then have "biomarker_key b \<in> biomarker_key ` set ?rest"
      using key_set_dedupe_by_groups [of ?rest] by blast
    then have ne: "biomarker_key b \<noteq> biomarker_key x"
      by auto
    have "filter (\<lambda>y. biomarker_key y = biomarker_key b) ?rest =
          filter (\<lambda>y. biomarker_key y = biomarker_key b) xs"
      using ne by (auto intro: filter_cong)
    with ne have "group_of b (x # xs) = group_of b ?rest"
      by (auto simp: group_of_def)
    with "2.IH" [OF 2] show ?thesis
      by simp
  qed
qed

section \<open>The deduplication invariant\<close>

lemma dedupe_normalized_output_eq:
  "dedupe_normalized_output n =
     n\<lparr>biomarkers := dedupe_by_groups (biomarkers n),
       recommendations := keep_first recommendation_key (recommendations n)\<rparr>"
  by (simp add: dedupe_normalized_output_def dedupe_biomarkers_loop_eq
      dedupe_recommendations_loop_keep_first)

lemma group_of_subset: "set (group_of b xs) \<subseteq> set xs"
  by (auto simp: group_of_def)

lemma dedupe_by_groups_normalized:
  assumes "\<forall>x\<in>set xs. normalized_biomarker x" and "b \<in> set (dedupe_by_groups xs)"
  shows "normalized_biomarker b"
proof -
  from dedupe_by_groups_entry [OF assms(2)] obtain x ys
    where g: "group_of b xs = x # ys" and b: "b = foldl merge_duplicate x ys"
    by blast
  from g group_of_subset [of b xs] have sub: "set (x # ys) \<subseteq> set xs"
    by simp
  with assms(1) have all: "\<forall>y\<in>set (x # ys). normalized_biomarker y"
    by blast
  from foldl_merge_explanation_mem [of x ys] b obtain y1
    where "y1 \<in> set (x # ys)" "b_explanation b = b_explanation y1"
    by auto
  with all have e: "clean (b_explanation b)"
    by (auto simp: normalized_biomarker_def)
  from foldl_merge_status_mem [of x ys] b obtain y2
    where "y2 \<in> set (x # ys)" "b_status b = b_status y2"
    by auto
  with all have s: "clean (b_status b)"
    by (auto simp: normalized_biomarker_def)
  from all b have "clean (b_name b)" "clean (b_value b)"
    by (simp_all add: normalized_biomarker_def)
  with e s show ?thesis
    by (simp add: normalized_biomarker_def)
qed

lemma normalize_ai_output_Inr:
  assumes "normalize_ai_output raw = Inr r"
  shows "\<exists>bs rs s. get raw ''biomarkers'' = JList bs \<and> get raw ''recommendations'' = JList rs \<and>
           get raw ''summary'' = JStr s \<and>
           r = dedupe_normalized_output \<lparr>
                 biomarkers = map normalize_biomarker (dict_items bs),
                 recommendations = map normalize_recommendation (dict_items rs),
                 summary = strip s,
                 disclaimer = strip (py_str (py_or (get raw ''disclaimer'')
                                                   (JStr DEFAULT_DISCLAIMER))) \<rparr>"
  using assms by (auto simp: normalize_ai_output_def split: json.splits)

lemma normalize_ai_output_biomarkers_normalized:
  assumes "normalize_ai_output raw = Inr r" and "b \<in> set (biomarkers r)"
  shows "normalized_biomarker b"
proof -
  from normalize_ai_output_Inr [OF assms(1)] obtain bs
    where "biomarkers r = dedupe_by_groups (map normalize_biomarker (dict_items bs))"
    by (auto simp: dedupe_normalized_output_eq)
  with assms(2) show ?thesis
    using dedupe_by_groups_normalized [of "map normalize_biomarker (dict_items bs)" b]
    by (simp add: normalized_normalize_biomarker)
qed

lemma normalize_ai_output_distinct:
  assumes "normalize_ai_output raw = Inr r"
  shows "distinct (map biomarker_key (biomarkers r))"
proof -
  from normalize_ai_output_Inr [OF assms] obtain bs
    where "biomarkers r = dedupe_by_groups (map normalize_biomarker (dict_items bs))"
    by (auto simp: dedupe_normalized_output_eq)
  then show ?thesis
    by (simp add: distinct_dedupe_by_groups)
qed

section \<open>The fields of a normalized result\<close>

lemma strip_DEFAULT_DISCLAIMER: "strip DEFAULT_DISCLAIMER = DEFAULT_DISCLAIMER"
  by code_simp

lemma DEFAULT_DISCLAIMER_nonempty: "DEFAULT_DISCLAIMER \<noteq> []"
  by (simp add: DEFAULT_DISCLAIMER_def)

lemma normalize_ai_output_recommendations_normalized:
  assumes "normalize_ai_output raw = Inr r" and "x \<in> set (recommendations r)"
  shows "normalized_recommendation x"
proof -
  from normalize_ai_output_Inr [OF assms(1)] obtain rs
    where "recommendations r =
             keep_first recommendation_key (map normalize_recommendation (dict_items rs))"
    by (auto simp: dedupe_normalized_output_eq)
  with assms(2) keep_first_keys_subset
  have "x \<in> set (map normalize_recommendation (dict_items rs))"
    by fastforce
  then show ?thesis
    by (auto simp: normalized_normalize_recommendation)
qed

lemma normalize_ai_output_recommendations_distinct:
  assumes "normalize_ai_output raw = Inr r"
  shows "distinct (map recommendation_key (recommendations r))"
proof -
  from normalize_ai_output_Inr [OF assms] obtain rs
    where "recommendations r =
             keep_first recommendation_key (map normalize_recommendation (dict_items rs))"
    by (auto simp: dedupe_normalized_output_eq)
  then show ?thesis
    by (simp add: distinct_keep_first)
qed

lemma normalize_ai_output_summary:
  assumes "normalize_ai_output raw = Inr r"
  shows "\<exists>s. get raw ''summary'' = JStr s \<and> summary r = strip s"
  using normalize_ai_output_Inr [OF assms] by (auto simp: dedupe_normalized_output_eq)

lemma normalize_ai_output_disclaimer:
  assumes "normalize_ai_output raw = Inr r"
  shows "disclaimer r = strip (py_str (py_or (get raw ''disclaimer'') (JStr DEFAULT_DISCLAIMER)))"
  using normalize_ai_output_Inr [OF assms] by (auto simp: dedupe_normalized_output_eq)

text \<open>
  Claim C8, as the code has it. In the result of the normalizer every field of every
  biomarker and of every recommendation is a non-empty string (an entry is a record of
  strings: none is null). The summary is the given summary without its surrounding white
  space, and is empty when the given summary is empty or blank: no default is substituted
  for it. The disclaimer is the fixed medical disclaimer when none is given (absent, null
  or otherwise false), and the given one as a stripped string, non-empty, when that is
  not blank.
\<close>

theorem normalize_ai_output_fields:
  "normalize_ai_output raw = Inr r \<longrightarrow>
     (\<forall>b\<in>set (biomarkers r).
        b_name b \<noteq> [] \<and> b_value b \<noteq> [] \<and> b_status b \<noteq> [] \<and> b_explanation b \<noteq> []) \<and>
     (\<forall>x\<in>set (recommendations r). r_name x \<noteq> [] \<and> r_protocol x \<noteq> [] \<and> r_reason x \<noteq> []) \<and>
     (\<exists>s. get raw ''summary'' = JStr s \<and> summary r = strip s) \<and>
     (\<not> py_truthy (get raw ''disclaimer'') \<longrightarrow>
        disclaimer r = DEFAULT_DISCLAIMER \<and> disclaimer r \<noteq> []) \<and>
     (py_truthy (get raw ''disclaimer'') \<and> strip (py_str (get raw ''disclaimer'')) \<noteq> [] \<longrightarrow>
        disclaimer r = strip (py_str (get raw ''disclaimer'')) \<and> disclaimer r \<noteq> [])"
proof
  assume n: "normalize_ai_output raw = Inr r"
  have b: "\<forall>b\<in>set (biomarkers r).
        b_name b \<noteq> [] \<and> b_value b \<noteq> [] \<and> b_status b \<noteq> [] \<and> b_explanation b \<noteq> []"
    using normalize_ai_output_biomarkers_normalized [OF n]
    by (auto simp: normalized_biomarker_def clean_def)
  have x: "\<forall>x\<in>set (recommendations r). r_name x \<noteq> [] \<and> r_protocol x \<noteq> [] \<and> r_reason x \<noteq> []"
    using normalize_ai_output_recommendations_normalized [OF n]
    by (auto simp: normalized_recommendation_def clean_def)
  have d1: "\<not> py_truthy (get raw ''disclaimer'') \<longrightarrow>
        disclaimer r = DEFAULT_DISCLAIMER \<and> disclaimer r \<noteq> []"
    using normalize_ai_output_disclaimer [OF n]
    by (simp add: py_or_def strip_DEFAULT_DISCLAIMER DEFAULT_DISCLAIMER_nonempty)
  have d2: "py_truthy (get raw ''disclaimer'') \<and> strip (py_str (get raw ''disclaimer'')) \<noteq> [] \<longrightarrow>
        disclaimer r = strip (py_str (get raw ''disclaimer'')) \<and> disclaimer r \<noteq> []"
    using normalize_ai_output_disclaimer [OF n]
    by (simp add: py_or_def)
  from b x normalize_ai_output_summary [OF n] d1 d2
  show "(\<forall>b\<in>set (biomarkers r).
        b_name b \<noteq> [] \<and> b_value b \<noteq> [] \<and> b_status b \<noteq> [] \<and> b_explanation b \<noteq> []) \<and>
     (\<forall>x\<in>set (recommendations r). r_name x \<noteq> [] \<and> r_protocol x \<noteq> [] \<and> r_reason x \<noteq> []) \<and>
     (\<exists>s. get raw ''summary'' = JStr s \<and> summary r = strip s) \<and>
     (\<not> py_truthy (get raw ''disclaimer'') \<longrightarrow>
        disclaimer r = DEFAULT_DISCLAIMER \<and> disclaimer r \<noteq> []) \<and>
     (py_truthy (get raw ''disclaimer'') \<and> strip (py_str (get raw ''disclaimer'')) \<noteq> [] \<longrightarrow>
        disclaimer r = strip (py_str (get raw ''disclaimer'')) \<and> disclaimer r \<noteq> [])"
    by blast
qed

text \<open>An output without a disclaimer, and the mock response, which has one.\<close>

theorem normalize_ai_output_fields_witness:
  "normalize_ai_output dup_output = Inr dup_result \<and>
   \<not> py_truthy (get dup_output ''disclaimer'') \<and>
   normalize_ai_output mock_analysis_response = Inr mock_result \<and>
   py_truthy (get mock_analysis_response ''disclaimer'') \<and>
   strip (py_str (get mock_analysis_response ''disclaimer'')) \<noteq> [] \<and>
   list_all (\<lambda>b. b_name b \<noteq> [] \<and> b_value b \<noteq> [] \<and> b_status b \<noteq> [] \<and> b_explanation b \<noteq> [])
     (biomarkers dup_result) \<and>
   list_all (\<lambda>x. r_name x \<noteq> [] \<and> r_protocol x \<noteq> [] \<and> r_reason x \<noteq> [])
     (recommendations dup_result) \<and>
   disclaimer dup_result = DEFAULT_DISCLAIMER \<and>
   disclaimer mock_result = strip (py_str (get mock_analysis_response ''disclaimer'')) \<and>
   disclaimer mock_result \<noteq> []"
proof -
  have n1: "normalize_ai_output dup_output = Inr dup_result"
    by code_simp
  have t1: "\<not> py_truthy (get dup_output ''disclaimer'')"
    by code_simp
  have n2: "normalize_ai_output mock_analysis_response = Inr mock_result"
    by code_simp
  have t2: "py_truthy (get mock_analysis_response ''disclaimer'') \<and>
            strip (py_str (get mock_analysis_response ''disclaimer'')) \<noteq> []"
    by code_simp
  from normalize_ai_output_fields [of dup_output dup_result] n1 t1
  have a: "(\<forall>b\<in>set (biomarkers dup_result).
      b_name b \<noteq> [] \<and> b_value b \<noteq> [] \<and> b_status b \<noteq> [] \<and> b_explanation b \<noteq> []) \<and>
   (\<forall>x\<in>set (recommendations dup_result). r_name x \<noteq> [] \<and> r_protocol x \<noteq> [] \<and> r_reason x \<noteq> []) \<and>
   disclaimer dup_result = DEFAULT_DISCLAIMER"
    by blast
  from normalize_ai_output_fields [of mock_analysis_response mock_result] n2 t2
  have b: "disclaimer mock_result = strip (py_str (get mock_analysis_response ''disclaimer'')) \<and>
           disclaimer mock_result \<noteq> []"
    by blast
  from n1 t1 n2 t2 a b show ?thesis
    by (simp add: list_all_iff)
qed

text \<open>A schema-valid output with the summary \<open>""\<close> is normalized to a result whose summary
  is empty.\<close>

theorem empty_summary_counterexample:
  "normalize_ai_output empty_summary_output = Inr empty_summary_result \<and>
   summary empty_summary_result = []"
  by code_simp

subsection \<open>A second pass of the normalizer\<close>

lemma normalize_biomarker_json:
  "normalized_biomarker b \<Longrightarrow>
     normalize_biomarker
       [(''name'', JStr (b_name b)), (''value'', JStr (b_value b)),
        (''status'', JStr (b_status b)), (''explanation'', JStr (b_explanation b))] = b"
  by (simp add: normalize_biomarker_def normalized_biomarker_def clean_def get_or_def str_or_def)

lemma normalize_recommendation_json:
  "normalized_recommendation x \<Longrightarrow>
     normalize_recommendation
       [(''name'', JStr (r_name x)), (''protocol'', JStr (r_protocol x)),
        (''reason'', JStr (r_reason x))] = x"
  by (simp add: normalize_recommendation_def normalized_recommendation_def clean_def get_or_def
      str_or_def)

lemma dict_items_biomarker_json:
  "map normalize_biomarker (dict_items (map biomarker_json bs)) =
     map (\<lambda>b. normalize_biomarker
                [(''name'', JStr (b_name b)), (''value'', JStr (b_value b)),
                 (''status'', JStr (b_status b)), (''explanation'', JStr (b_explanation b))]) bs"
  by (induction bs) (simp_all add: biomarker_json_def)

lemma dict_items_recommendation_json:
  "map normalize_recommendation (dict_items (map recommendation_json xs)) =
     map (\<lambda>x. normalize_recommendation
                [(''name'', JStr (r_name x)), (''protocol'', JStr (r_protocol x)),
                 (''reason'', JStr (r_reason x))]) xs"
  by (induction xs) (simp_all add: recommendation_json_def)

lemma normalize_result_json:
  assumes "\<forall>b\<in>set (biomarkers r). normalized_biomarker b"
    and "\<forall>x\<in>set (recommendations r). normalized_recommendation x"
    and "distinct (map biomarker_key (biomarkers r))"
    and "distinct (map recommendation_key (recommendations r))"
    and "strip (summary r) = summary r"
    and "strip (disclaimer r) = disclaimer r"
  shows "normalize_ai_output (result_json r) =
           Inr (r\<lparr>disclaimer := (if disclaimer r = [] then DEFAULT_DISCLAIMER else disclaimer r)\<rparr>)"
proof -
  have bs: "map normalize_biomarker (dict_items (map biomarker_json (biomarkers r))) = biomarkers r"
    using assms(1) by (simp add: dict_items_biomarker_json normalize_biomarker_json map_idI)
  have xs: "map normalize_recommendation (dict_items (map recommendation_json (recommendations r))) =
              recommendations r"
    using assms(2) by (simp add: dict_items_recommendation_json normalize_recommendation_json map_idI)
  have g: "get (result_json r) ''biomarkers'' = JList (map biomarker_json (biomarkers r))"
          "get (result_json r) ''recommendations'' =
             JList (map recommendation_json (recommendations r))"
          "get (result_json r) ''summary'' = JStr (summary r)"
          "get (result_json r) ''disclaimer'' = JStr (disclaimer r)"
    by (simp_all add: get_def get_or_def result_json_def)
  have d: "strip (py_str (py_or (JStr (disclaimer r)) (JStr DEFAULT_DISCLAIMER))) =
             (if disclaimer r = [] then DEFAULT_DISCLAIMER else disclaimer r)"
    using assms(6) by (simp add: py_or_def strip_DEFAULT_DISCLAIMER)
  show ?thesis
    using assms(3,4,5) bs xs d
    by (simp add: normalize_ai_output_def g dedupe_normalized_output_eq
        dedupe_by_groups_distinct_id keep_first_distinct_id)
qed

lemma normalize_ai_output_twice:
  assumes "normalize_ai_output raw = Inr r"
  shows "normalize_ai_output (result_json r) =
           Inr (r\<lparr>disclaimer := (if disclaimer r = [] then DEFAULT_DISCLAIMER else disclaimer r)\<rparr>)"
proof (rule normalize_result_json)
  show "\<forall>b\<in>set (biomarkers r). normalized_biomarker b"
    using normalize_ai_output_biomarkers_normalized [OF assms] by blast
  show "\<forall>x\<in>set (recommendations r). normalized_recommendation x"
    using normalize_ai_output_recommendations_normalized [OF assms] by blast
  show "distinct (map biomarker_key (biomarkers r))"
    by (rule normalize_ai_output_distinct [OF assms])
  show "distinct (map recommendation_key (recommendations r))"
    by (rule normalize_ai_output_recommendations_distinct [OF assms])
  show "strip (summary r) = summary r"
    using normalize_ai_output_summary [OF assms] by auto
  show "strip (disclaimer r) = disclaimer r"
    using normalize_ai_output_disclaimer [OF assms] by simp
qed

text \<open>
  Claim C7, at the mock response with the disclaimer \<open>" "\<close>. The first pass strips the
  disclaimer to the empty string, after the test for a missing one; the second pass finds
  it empty and substitutes the fixed disclaimer: normalizing the normalized result gives
  another result. By \<open>normalize_ai_output_twice\<close> this is the only way a second pass
  changes anything.
\<close>

theorem normalize_twice_blank_disclaimer:
  "normalize_ai_output blank_disclaimer_output = Inr (mock_result\<lparr>disclaimer := ''''\<rparr>) \<and>
   normalize_ai_output (result_json (mock_result\<lparr>disclaimer := ''''\<rparr>)) = Inr mock_result \<and>
   mock_result\<lparr>disclaimer := ''''\<rparr> \<noteq> mock_result"
  by code_simp

section \<open>Chains and the call log\<close>

subsection \<open>Every chain ends in one of two ways\<close>

lemma try_models_cases:
  obtains (all_fail) "\<forall>i<length chain. isl (outcome_at env args chain log i)"
  | (success) k r where "k < length chain"
      "\<forall>i<k. isl (outcome_at env args chain log i)"
      "outcome_at env args chain log k = Inr r"
proof (cases "\<forall>i<length chain. isl (outcome_at env args chain log i)")
  case True
  then show ?thesis by (rule all_fail)
next
  case False
  define P where "P i \<longleftrightarrow> i < length chain \<and> \<not> isl (outcome_at env args chain log i)" for i
  from False have ex: "\<exists>i. P i"
    by (auto simp: P_def)
  define k where "k = (LEAST i. P i)"
  from ex have Pk: "P k"
    unfolding k_def by (auto intro: LeastI)
  have least: "\<forall>i<k. \<not> P i"
    unfolding k_def by (auto dest: not_less_Least)
  from Pk obtain r where r: "outcome_at env args chain log k = Inr r"
    by (cases "outcome_at env args chain log k") (auto simp: P_def)
  from Pk have lt: "k < length chain"
    by (simp add: P_def)
  from least lt have fails: "\<forall>i<k. isl (outcome_at env args chain log i)"
    by (auto simp: P_def)
  from lt fails r show ?thesis
    by (rule success)
qed

lemma try_models_log:
  "\<exists>k\<le>length chain. (chain \<noteq> [] \<longrightarrow> 0 < k) \<and>
     snd (try_models env limit args chain errs log) = log @ map args (take k chain)"
proof (cases rule: try_models_cases [of chain env args log])
  case all_fail
  from try_models_all_fail [OF this, of limit errs] show ?thesis
    by (intro exI [of _ "length chain"]) simp
next
  case (success k r)
  from try_models_success [OF this, of limit errs] success(1) show ?thesis
    by (intro exI [of _ "Suc k"]) (simp del: take_Suc)
qed

lemma try_models_Inr_nonempty:
  "fst (try_models env limit args chain errs log) = Inr x \<Longrightarrow> chain \<noteq> []"
  by (cases chain) auto

lemma try_models_Inr_normalized:
  "fst (try_models env limit args chain errs log) = Inr (r, m) \<Longrightarrow>
     \<exists>raw. normalize_ai_output raw = Inr r"
proof (induction chain arbitrary: errs log)
  case Nil
  then show ?case by simp
next
  case (Cons model models)
  then show ?case
    by (auto simp: try_body_def call_openrouter_model_def split: prod.splits sum.splits)
qed

lemma outcome_at_normalized:
  "outcome_at env args chain log k = Inr r \<Longrightarrow> \<exists>raw. normalize_ai_output raw = Inr r"
  by (auto simp: outcome_at_def try_body_def call_openrouter_model_def split: sum.splits)

subsection \<open>The calls of each component extend the log\<close>

lemma run_model_chain_for_images_log:
  "\<exists>k\<le>length (active_provider_model_chain_for_mode cfg).
     (active_provider_model_chain_for_mode cfg \<noteq> [] \<longrightarrow> 0 < k) \<and>
     snd (run_model_chain_for_images cfg env payload imgs pages total_pages log) =
       log @ map (extraction_args cfg payload imgs pages total_pages)
               (take k (active_provider_model_chain_for_mode cfg))"
proof -
  from try_models_log [of "active_provider_model_chain_for_mode cfg" env 300
         "extraction_args cfg payload imgs pages total_pages" "[]" log]
  obtain k where k: "k \<le> length (active_provider_model_chain_for_mode cfg)"
      "active_provider_model_chain_for_mode cfg \<noteq> [] \<longrightarrow> 0 < k"
      "snd (try_models env 300 (extraction_args cfg payload imgs pages total_pages)
             (active_provider_model_chain_for_mode cfg) [] log) =
         log @ map (extraction_args cfg payload imgs pages total_pages)
                 (take k (active_provider_model_chain_for_mode cfg))"
    by blast
  have "snd (run_model_chain_for_images cfg env payload imgs pages total_pages log) =
        snd (try_models env 300 (extraction_args cfg payload imgs pages total_pages)
               (active_provider_model_chain_for_mode cfg) [] log)"
    by (simp add: run_model_chain_for_images_def split: prod.splits sum.splits)
  with k show ?thesis
    by auto
qed

lemma run_model_chain_for_images_Some:
  assumes "run_model_chain_for_images cfg env payload imgs pages total_pages log =
             ((Some normalized, m), log1)"
  shows "active_provider_model_chain_for_mode cfg \<noteq> []"
    and "\<exists>raw. normalize_ai_output raw = Inr normalized"
proof -
  from assms have "fst (try_models env 300 (extraction_args cfg payload imgs pages total_pages)
                     (active_provider_model_chain_for_mode cfg) [] log) = Inr (normalized, m)"
    by (auto simp: run_model_chain_for_images_def split: prod.splits sum.splits)
  then show "active_provider_model_chain_for_mode cfg \<noteq> []"
    and "\<exists>raw. normalize_ai_output raw = Inr normalized"
    by (auto dest: try_models_Inr_nonempty try_models_Inr_normalized)
qed

lemma run_reconciliation_chain_for_images_log:
  "\<exists>k\<le>length (recon_models cfg).
     snd (run_reconciliation_chain_for_images cfg env payload imgs pages total_pages extracted log) =
       log @ map (reconciliation_args cfg payload imgs pages total_pages extracted)
               (take k (recon_models cfg))"
proof (cases "AI_VISUAL_ONLY_MODE cfg \<or> \<not> OPENROUTER_ENABLE_RECONCILIATION cfg")
  case True
  then show ?thesis
    by (intro exI [of _ 0]) (simp add: run_reconciliation_chain_for_images_def)
next
  case False
  from try_models_log [of "recon_models cfg" env 300
         "reconciliation_args cfg payload imgs pages total_pages extracted" "[]" log]
  obtain k where k: "k \<le> length (recon_models cfg)"
      "snd (try_models env 300 (reconciliation_args cfg payload imgs pages total_pages extracted)
             (recon_models cfg) [] log) =
         log @ map (reconciliation_args cfg payload imgs pages total_pages extracted)
                 (take k (recon_models cfg))"
    by blast
  have "snd (run_reconciliation_chain_for_images cfg env payload imgs pages total_pages extracted log) =
        snd (try_models env 300 (reconciliation_args cfg payload imgs pages total_pages extracted)
               (recon_models cfg) [] log)"
    using False
    by (simp add: run_reconciliation_chain_for_images_def split: prod.splits sum.splits)
  with k show ?thesis
    by auto
qed

lemma retry_loop_log:
  "\<exists>ext. snd (retry_loop cfg env payload pages total_pages imgs i chunks models log) = log @ ext"
proof (induction imgs arbitrary: i chunks models log)
  case Nil
  then show ?case by simp
next
  case (Cons img imgs)
  show ?case
  proof (cases "i \<ge> length pages")
    case True
    then show ?thesis by simp
  next
    case False
    obtain res m log' where r:
      "run_model_chain_for_images cfg env payload [img] [pages ! i] total_pages log = ((res, m), log')"
      by (metis prod.exhaust)
    from run_model_chain_for_images_log [of cfg env payload "[img]" "[pages ! i]" total_pages log] r
    obtain e1 where e1: "log' = log @ e1"
      by auto
    show ?thesis
    proof (cases res)
      case None
      with False r e1 show ?thesis by simp
    next
      case (Some n)
      from Cons [of "Suc i" "chunks @ [n]" "models @ [m]" log'] obtain e2
        where "snd (retry_loop cfg env payload pages total_pages imgs (Suc i) (chunks @ [n])
                 (models @ [m]) log') = log' @ e2"
        by blast
      with False r e1 Some show ?thesis by simp
    qed
  qed
qed

section \<open>The trigger of the completeness retry\<close>

lemma retry_loop_first:
  assumes "i < length pages"
  shows "\<exists>ext. snd (retry_loop cfg env payload pages total_pages (img # imgs) i chunks models log) =
           snd (run_model_chain_for_images cfg env payload [img] [pages ! i] total_pages log) @ ext"
proof -
  obtain res m log' where r:
    "run_model_chain_for_images cfg env payload [img] [pages ! i] total_pages log = ((res, m), log')"
    by (metis prod.exhaust)
  show ?thesis
  proof (cases res)
    case None
    with assms r show ?thesis by simp
  next
    case (Some n)
    from retry_loop_log [of cfg env payload pages total_pages imgs "Suc i" "chunks @ [n]"
           "models @ [m]" log']
    obtain e where "snd (retry_loop cfg env payload pages total_pages imgs (Suc i) (chunks @ [n])
                      (models @ [m]) log') = log' @ e"
      by blast
    with assms r Some show ?thesis by simp
  qed
qed

text \<open>Without a retry, the batch is the reconciliation of the extraction.\<close>

lemma run_with_completeness_retry_direct:
  assumes "run_model_chain_for_images cfg env payload imgs pages total_pages log =
             ((Some normalized, m), log1)"
    and "\<not> (length imgs \<ge> 2 \<and>
            length (biomarkers normalized) <
              OPENROUTER_MIN_BIOMARKERS_PER_IMAGE_HINT cfg * length imgs)"
  shows "run_with_completeness_retry cfg env payload imgs pages total_pages log =
           (case run_reconciliation_chain_for_images cfg env payload imgs pages total_pages
                   normalized log1 of
              ((reconciled, recon_meta), log2) \<Rightarrow>
                (Inr (Some reconciled, with_reconciliation m recon_meta), log2))"
  using assms
  by (auto simp: run_with_completeness_retry_def is_suspiciously_incomplete_def)

text \<open>With a retry, the log goes on with the calls of the loop.\<close>

lemma run_with_completeness_retry_retried:
  assumes "run_model_chain_for_images cfg env payload imgs pages total_pages log =
             ((Some normalized, m), log1)"
    and "length imgs \<ge> 2"
    and "length (biomarkers normalized) <
           OPENROUTER_MIN_BIOMARKERS_PER_IMAGE_HINT cfg * length imgs"
  shows "\<exists>ext. snd (run_with_completeness_retry cfg env payload imgs pages total_pages log) =
           snd (retry_loop cfg env payload pages total_pages imgs 0 [] [] log1) @ ext"
proof -
  obtain res log2 where l: "retry_loop cfg env payload pages total_pages imgs 0 [] [] log1 = (res, log2)"
    by (cases "retry_loop cfg env payload pages total_pages imgs 0 [] [] log1")
  have unfold: "run_with_completeness_retry cfg env payload imgs pages total_pages log =
     (case res of
        Inl e \<Rightarrow> (Inl e, log2)
      | Inr None \<Rightarrow>
          (case run_reconciliation_chain_for_images cfg env payload imgs pages total_pages
                  normalized log2 of
             ((reconciled, recon_meta), log3) \<Rightarrow>
               (Inr (Some reconciled, with_reconciliation m recon_meta), log3))
      | Inr (Some (retry_chunks, retry_models)) \<Rightarrow>
          (case merge_normalized_outputs retry_chunks of
             Inl e \<Rightarrow> (Inl e, log2)
           | Inr merged_retry \<Rightarrow>
               (case run_reconciliation_chain_for_images cfg env payload imgs pages total_pages
                       merged_retry log2 of
                  ((reconciled, recon_meta), log3) \<Rightarrow>
                    (Inr (Some reconciled,
                          with_reconciliation
                            (m @ '' (completeness-retry via '' @ join '' -> '' retry_models @ '')'')
                            recon_meta), log3))))"
    using assms l
    by (simp add: run_with_completeness_retry_def is_suspiciously_incomplete_def
        split: sum.splits option.splits prod.splits)
  have recon: "\<exists>ext. snd (run_reconciliation_chain_for_images cfg env payload imgs pages total_pages
                          x log2) = log2 @ ext" for x
    using run_reconciliation_chain_for_images_log [of cfg env payload imgs pages total_pages x log2]
    by blast
  show ?thesis
  proof (cases res)
    case (Inl e)
    with unfold l show ?thesis by simp
  next
    case (Inr o1)
    show ?thesis
    proof (cases o1)
      case None
      from recon [of normalized] obtain ext where
        "snd (run_reconciliation_chain_for_images cfg env payload imgs pages total_pages
                normalized log2) = log2 @ ext"
        by blast
      with unfold l Inr None show ?thesis
        by (auto split: prod.splits)
    next
      case (Some cm)
      obtain retry_chunks retry_models where cm: "cm = (retry_chunks, retry_models)"
        by (cases cm)
      show ?thesis
      proof (cases "merge_normalized_outputs retry_chunks")
        case (Inl e)
        with unfold l Inr Some cm show ?thesis by simp
      next
        case (Inr merged_retry)
        from recon [of merged_retry] obtain ext where
          "snd (run_reconciliation_chain_for_images cfg env payload imgs pages total_pages
                  merged_retry log2) = log2 @ ext"
          by blast
        with unfold l \<open>res = Inr o1\<close> Some cm Inr show ?thesis
          by (auto split: prod.splits)
      qed
    qed
  qed
qed

text \<open>
  Claim C5. For a batch whose extraction chain has returned a result, the result is
  judged suspiciously incomplete exactly when the batch has two or more images and fewer
  biomarkers than \<open>OPENROUTER_MIN_BIOMARKERS_PER_IMAGE_HINT\<close> times the number of images;
  and exactly then the single-image retry is triggered: the call that follows the calls
  of the batch extraction is the extraction call for the first image alone, with its own
  page number. (Otherwise the calls that follow, if any, are reconciliation calls.)
\<close>

theorem completeness_retry_trigger:
  "run_model_chain_for_images cfg env payload imgs pages total_pages log =
     ((Some normalized, m), log1) \<and> length pages = length imgs \<longrightarrow>
   (is_suspiciously_incomplete cfg normalized (length imgs) \<longleftrightarrow>
      length imgs \<ge> 2 \<and>
      length (biomarkers normalized) <
        OPENROUTER_MIN_BIOMARKERS_PER_IMAGE_HINT cfg * length imgs) \<and>
   ((\<exists>ext. snd (run_with_completeness_retry cfg env payload imgs pages total_pages log) =
        log1 @ extraction_args cfg payload [hd imgs] [hd pages] total_pages
                 (hd (active_provider_model_chain_for_mode cfg)) # ext) \<longleftrightarrow>
      length imgs \<ge> 2 \<and>
      length (biomarkers normalized) <
        OPENROUTER_MIN_BIOMARKERS_PER_IMAGE_HINT cfg * length imgs)"
proof (intro impI conjI)
  show "is_suspiciously_incomplete cfg normalized (length imgs) \<longleftrightarrow>
      length imgs \<ge> 2 \<and>
      length (biomarkers normalized) <
        OPENROUTER_MIN_BIOMARKERS_PER_IMAGE_HINT cfg * length imgs"
    by (simp add: is_suspiciously_incomplete_def)
next
  assume a: "run_model_chain_for_images cfg env payload imgs pages total_pages log =
     ((Some normalized, m), log1) \<and> length pages = length imgs"
  then have run: "run_model_chain_for_images cfg env payload imgs pages total_pages log =
     ((Some normalized, m), log1)" and len: "length pages = length imgs"
    by simp_all
  let ?cond = "length imgs \<ge> 2 \<and>
      length (biomarkers normalized) <
        OPENROUTER_MIN_BIOMARKERS_PER_IMAGE_HINT cfg * length imgs"
  let ?chain = "active_provider_model_chain_for_mode cfg"
  let ?first = "extraction_args cfg payload [hd imgs] [hd pages] total_pages (hd ?chain)"
  let ?final = "snd (run_with_completeness_retry cfg env payload imgs pages total_pages log)"
  show "(\<exists>ext. ?final = log1 @ ?first # ext) \<longleftrightarrow> ?cond"
  proof
    assume "\<exists>ext. ?final = log1 @ ?first # ext"
    then obtain ext where ext: "?final = log1 @ ?first # ext"
      by blast
    show ?cond
    proof (rule ccontr)
      assume n: "\<not> ?cond"
      from run_reconciliation_chain_for_images_log
             [of cfg env payload imgs pages total_pages normalized log1]
      obtain k where
        "snd (run_reconciliation_chain_for_images cfg env payload imgs pages total_pages
                normalized log1) =
           log1 @ map (reconciliation_args cfg payload imgs pages total_pages normalized)
                    (take k (recon_models cfg))"
        by blast
      with run_with_completeness_retry_direct [OF run n]
      have "?final = log1 @ map (reconciliation_args cfg payload imgs pages total_pages normalized)
                             (take k (recon_models cfg))"
        by (auto split: prod.splits)
      with ext have "?first \<in> set (map (reconciliation_args cfg payload imgs pages total_pages
                                          normalized) (take k (recon_models cfg)))"
        by (metis append_eq_append_conv list.set_intros(1))
      then obtain model where
        "?first = reconciliation_args cfg payload imgs pages total_pages normalized model"
        by auto
      then have "ca_prompt_override ?first =
                 ca_prompt_override
                   (reconciliation_args cfg payload imgs pages total_pages normalized model)"
        by simp
      then show False
        by (simp add: extraction_args_def reconciliation_args_def Let_def)
    qed
  next
    assume c: ?cond
    then have c1: "length imgs \<ge> 2" and c2: "length (biomarkers normalized) <
        OPENROUTER_MIN_BIOMARKERS_PER_IMAGE_HINT cfg * length imgs"
      by simp_all
    from c1 obtain img rest where imgs: "imgs = img # rest"
      by (cases imgs) auto
    from c1 len have p0: "0 < length pages"
      by linarith
    then have hdp: "pages ! 0 = hd pages"
      by (simp add: hd_conv_nth)
    from run_model_chain_for_images_Some(1) [OF run] have ne: "?chain \<noteq> []" .
    from run_model_chain_for_images_log [of cfg env payload "[img]" "[pages ! 0]" total_pages log1]
    obtain k where k: "0 < k"
      "snd (run_model_chain_for_images cfg env payload [img] [pages ! 0] total_pages log1) =
         log1 @ map (extraction_args cfg payload [img] [pages ! 0] total_pages) (take k ?chain)"
      using ne by blast
    from k(1) ne have "take k ?chain = hd ?chain # take (k - 1) (tl ?chain)"
      by (cases ?chain; cases k) auto
    with k(2) hdp imgs have first:
      "snd (run_model_chain_for_images cfg env payload [img] [pages ! 0] total_pages log1) =
         log1 @ ?first # map (extraction_args cfg payload [img] [pages ! 0] total_pages)
                            (take (k - 1) (tl ?chain))"
      by simp
    from retry_loop_first [OF p0, of cfg env payload total_pages img rest "[]" "[]" log1]
    obtain e1 where e1:
      "snd (retry_loop cfg env payload pages total_pages imgs 0 [] [] log1) =
         snd (run_model_chain_for_images cfg env payload [img] [pages ! 0] total_pages log1) @ e1"
      using imgs by blast
    from run_with_completeness_retry_retried [OF run c1 c2]
    obtain e2 where
      "?final = snd (retry_loop cfg env payload pages total_pages imgs 0 [] [] log1) @ e2"
      by blast
    with e1 first show "\<exists>ext. ?final = log1 @ ?first # ext"
      by simp
  qed
qed

text \<open>A floor of 2 and a batch of two images for which the extraction returns exactly three
  biomarkers: 3 < 2 * 2, and the retry is triggered.\<close>

theorem completeness_retry_trigger_witness:
  "run_model_chain_for_images abc_config env_three two_images [JStr ''img1'', JStr ''img2''] [1, 2] 2 [] =
     ((Some three_biomarkers_result, ''model-a''),
      [extraction_args abc_config two_images [JStr ''img1'', JStr ''img2''] [1, 2] 2 ''model-a'']) \<and>
   OPENROUTER_MIN_BIOMARKERS_PER_IMAGE_HINT abc_config = 2 \<and>
   length (biomarkers three_biomarkers_result) = 3 \<and>
   is_suspiciously_incomplete abc_config three_biomarkers_result 2 \<and>
   (\<exists>ext. snd (run_with_completeness_retry abc_config env_three two_images
                 [JStr ''img1'', JStr ''img2''] [1, 2] 2 []) =
      [extraction_args abc_config two_images [JStr ''img1'', JStr ''img2''] [1, 2] 2 ''model-a''] @
      extraction_args abc_config two_images [JStr ''img1''] [1] 2 ''model-a'' # ext)"
proof -
  let ?log1 = "[extraction_args abc_config two_images [JStr ''img1'', JStr ''img2''] [1, 2] 2 ''model-a'']"
  have n: "normalize_ai_output three_biomarkers_output = Inr three_biomarkers_result"
    by code_simp
  have chain: "active_provider_model_chain_for_mode abc_config = [''model-a'', ''model-b'', ''model-c'']"
    by code_simp
  have run: "run_model_chain_for_images abc_config env_three two_images
               [JStr ''img1'', JStr ''img2''] [1, 2] 2 [] =
             ((Some three_biomarkers_result, ''model-a''), ?log1)"
    by (simp add: run_model_chain_for_images_def chain try_body_def call_openrouter_model_def
        env_three_def n)
  have h: "OPENROUTER_MIN_BIOMARKERS_PER_IMAGE_HINT abc_config = 2"
    by code_simp
  have l: "length (biomarkers three_biomarkers_result) = 3"
    by (simp add: three_biomarkers_result_def)
  from completeness_retry_trigger [of abc_config env_three two_images
         "[JStr ''img1'', JStr ''img2'']" "[1, 2]" 2 "[]" three_biomarkers_result "''model-a''" ?log1]
       run h l chain
  have "is_suspiciously_incomplete abc_config three_biomarkers_result 2 \<and>
        (\<exists>ext. snd (run_with_completeness_retry abc_config env_three two_images
                 [JStr ''img1'', JStr ''img2''] [1, 2] 2 []) =
           ?log1 @ extraction_args abc_config two_images [JStr ''img1''] [1] 2 ''model-a'' # ext)"
    by (simp add: numeral_2_eq_2)
  with run h l show ?thesis
    by blast
qed

section \<open>Reconciliation never fails a batch\<close>

subsection \<open>Evaluated configurations\<close>

lemma chain_errors_Nil: "chain_errors env limit args [] log = []"
  by (simp add: chain_errors_def)

lemma normalize_mock: "normalize_ai_output mock_analysis_response = Inr mock_result"
  by code_simp

lemma recon_models_abc: "recon_models abc_config = [''model-b'', ''model-c'', ''model-a'']"
  by code_simp

lemma chain_abc: "active_provider_model_chain_for_mode abc_config = [''model-a'', ''model-b'', ''model-c'']"
  by code_simp

lemma abc_flags: "\<not> AI_VISUAL_ONLY_MODE abc_config" "OPENROUTER_ENABLE_RECONCILIATION abc_config"
  by code_simp+

subsection \<open>The strings of a failed chain\<close>

lemma join_nonempty: "xs \<noteq> [] \<Longrightarrow> hd xs \<noteq> [] \<Longrightarrow> join sep xs \<noteq> []"
proof (cases xs)
  case Nil
  then show "xs \<noteq> [] \<Longrightarrow> join sep xs \<noteq> []"
    by simp
next
  case (Cons x ys)
  then show "hd xs \<noteq> [] \<Longrightarrow> join sep xs \<noteq> []"
    by (cases ys) simp_all
qed

lemma format_error_nonempty: "format_error limit model e \<noteq> []"
  by (simp add: format_error_shape)

lemma chain_errors_nonempty:
  "chain \<noteq> [] \<Longrightarrow> join sep (chain_errors env limit args chain log) \<noteq> []"
proof -
  assume "chain \<noteq> []"
  then obtain m ms where "chain = m # ms"
    by (cases chain) auto
  then show ?thesis
    by (simp add: chain_errors_Cons join_nonempty format_error_nonempty)
qed

lemma recon_models_nonempty: "model \<in> set (recon_models cfg) \<Longrightarrow> model \<noteq> []"
  unfolding recon_models_def Let_def set_filter by blast

subsection \<open>The retry loop ends without an exception\<close>

lemma retry_loop_total:
  assumes "i + length imgs \<le> length pages"
  shows "(\<exists>log'. retry_loop cfg env payload pages total_pages imgs i chunks models log =
                   (Inr None, log')) \<or>
         (\<exists>cs ms log'. retry_loop cfg env payload pages total_pages imgs i chunks models log =
                   (Inr (Some (cs, ms)), log') \<and> length cs = length chunks + length imgs)"
  using assms
proof (induction imgs arbitrary: i chunks models log)
  case Nil
  then show ?case by simp
next
  case (Cons img imgs)
  then have i: "i < length pages" and rest: "Suc i + length imgs \<le> length pages"
    by simp_all
  obtain res m log' where r:
    "run_model_chain_for_images cfg env payload [img] [pages ! i] total_pages log = ((res, m), log')"
    by (metis prod.exhaust)
  show ?case
  proof (cases res)
    case None
    with i r show ?thesis by simp
  next
    case (Some n)
    from Cons.IH [OF rest, of "chunks @ [n]" "models @ [m]" log'] i r Some
    show ?thesis by auto
  qed
qed

lemma run_with_completeness_retry_reconciled:
  assumes run: "run_model_chain_for_images cfg env payload imgs pages total_pages log =
                  ((Some normalized, m), log1)"
    and len: "length pages = length imgs"
  shows "\<exists>pre base log2. run_with_completeness_retry cfg env payload imgs pages total_pages log =
           (case run_reconciliation_chain_for_images cfg env payload imgs pages total_pages
                   pre log2 of
              ((reconciled, recon_meta), log3) \<Rightarrow>
                (Inr (Some reconciled, with_reconciliation base recon_meta), log3))"
proof (cases "length imgs \<ge> 2 \<and>
              length (biomarkers normalized) <
                OPENROUTER_MIN_BIOMARKERS_PER_IMAGE_HINT cfg * length imgs")
  case False
  from run_with_completeness_retry_direct [OF run False] show ?thesis
    by blast
next
  case True
  then have inc: "\<not> (length imgs \<le> 1 \<or>
                       \<not> is_suspiciously_incomplete cfg normalized (length imgs))"
    by (simp add: is_suspiciously_incomplete_def)
  from len have "0 + length imgs \<le> length pages"
    by simp
  from retry_loop_total [OF this, of cfg env payload total_pages "[]" "[]" log1]
  consider (single_failed) log2 where
      "retry_loop cfg env payload pages total_pages imgs 0 [] [] log1 = (Inr None, log2)"
    | (merged) cs ms log2 where
      "retry_loop cfg env payload pages total_pages imgs 0 [] [] log1 = (Inr (Some (cs, ms)), log2)"
      "length cs = length imgs"
    by auto
  then show ?thesis
  proof cases
    case single_failed
    with run inc have
      "run_with_completeness_retry cfg env payload imgs pages total_pages log =
         (case run_reconciliation_chain_for_images cfg env payload imgs pages total_pages
                 normalized log2 of
            ((reconciled, recon_meta), log3) \<Rightarrow>
              (Inr (Some reconciled, with_reconciliation m recon_meta), log3))"
      by (simp add: run_with_completeness_retry_def)
    then show ?thesis
      by blast
  next
    case merged
    with True have "cs \<noteq> []"
      by auto
    then obtain merged_retry where mr: "merge_normalized_outputs cs = Inr merged_retry"
      by (simp add: merge_normalized_outputs_def)
    with run inc merged(1) have
      "run_with_completeness_retry cfg env payload imgs pages total_pages log =
         (case run_reconciliation_chain_for_images cfg env payload imgs pages total_pages
                 merged_retry log2 of
            ((reconciled, recon_meta), log3) \<Rightarrow>
              (Inr (Some reconciled,
                    with_reconciliation
                      (m @ '' (completeness-retry via '' @ join '' -> '' ms @ '')'')
                      recon_meta), log3))"
      by (simp add: run_with_completeness_retry_def)
    then show ?thesis
      by blast
  qed
qed

subsection \<open>The reconciliation chain\<close>

lemma run_reconciliation_success:
  assumes "\<not> AI_VISUAL_ONLY_MODE cfg" "OPENROUTER_ENABLE_RECONCILIATION cfg"
    and "k < length (recon_models cfg)"
    and "\<forall>i<k. isl (outcome_at env (reconciliation_args cfg payload imgs pages total_pages extracted)
                      (recon_models cfg) log i)"
    and "outcome_at env (reconciliation_args cfg payload imgs pages total_pages extracted)
           (recon_models cfg) log k = Inr r"
  shows "run_reconciliation_chain_for_images cfg env payload imgs pages total_pages extracted log =
           ((r, Some (recon_models cfg ! k)),
            log @ map (reconciliation_args cfg payload imgs pages total_pages extracted)
                    (take (Suc k) (recon_models cfg)))"
  using assms(1,2) try_models_success [OF assms(3,4,5), of 300 "[]"]
  by (simp add: run_reconciliation_chain_for_images_def del: take_Suc)

lemma run_reconciliation_all_fail:
  assumes "\<not> AI_VISUAL_ONLY_MODE cfg" "OPENROUTER_ENABLE_RECONCILIATION cfg"
    and "recon_models cfg \<noteq> []"
    and "\<forall>i<length (recon_models cfg).
           isl (outcome_at env (reconciliation_args cfg payload imgs pages total_pages extracted)
                  (recon_models cfg) log i)"
  shows "run_reconciliation_chain_for_images cfg env payload imgs pages total_pages extracted log =
           ((extracted,
             Some (join '' | '' (chain_errors env 300
                     (reconciliation_args cfg payload imgs pages total_pages extracted)
                     (recon_models cfg) log))),
            log @ map (reconciliation_args cfg payload imgs pages total_pages extracted)
                    (recon_models cfg))"
proof -
  from assms(3) have "chain_errors env 300
                        (reconciliation_args cfg payload imgs pages total_pages extracted)
                        (recon_models cfg) log \<noteq> []"
    by (simp add: chain_errors_def)
  with assms(1,2) try_models_all_fail [OF assms(4), of 300 "[]"] show ?thesis
    by (simp add: run_reconciliation_chain_for_images_def)
qed

section \<open>The frame of the synthesis pass\<close>

subsection \<open>Every result of the pipeline has distinct biomarker keys\<close>

lemma merge_normalized_outputs_distinct:
  "merge_normalized_outputs chunks = Inr merged \<Longrightarrow>
     distinct (map biomarker_key (biomarkers merged))"
  by (auto simp: merge_normalized_outputs_def dedupe_normalized_output_eq
      distinct_dedupe_by_groups split: if_splits)

lemma run_reconciliation_distinct:
  assumes "distinct (map biomarker_key (biomarkers extracted))"
  shows "distinct (map biomarker_key (biomarkers (fst (fst
           (run_reconciliation_chain_for_images cfg env payload imgs pages total_pages
              extracted log)))))"
proof (cases "AI_VISUAL_ONLY_MODE cfg \<or> \<not> OPENROUTER_ENABLE_RECONCILIATION cfg")
  case True
  with assms show ?thesis
    by (simp add: run_reconciliation_chain_for_images_def)
next
  case False
  obtain res log' where t:
    "try_models env 300 (reconciliation_args cfg payload imgs pages total_pages extracted)
       (recon_models cfg) [] log = (res, log')"
    by (metis prod.exhaust)
  show ?thesis
  proof (cases res)
    case (Inl errs)
    with False t assms show ?thesis
      by (simp add: run_reconciliation_chain_for_images_def)
  next
    case (Inr nm)
    obtain n model where nm: "nm = (n, model)"
      by (cases nm)
    from t Inr nm try_models_Inr_normalized
           [of env 300 "reconciliation_args cfg payload imgs pages total_pages extracted"
              "recon_models cfg" "[]" log n model]
    obtain raw where "normalize_ai_output raw = Inr n"
      by auto
    then have "distinct (map biomarker_key (biomarkers n))"
      by (rule normalize_ai_output_distinct)
    with False t Inr nm show ?thesis
      by (simp add: run_reconciliation_chain_for_images_def)
  qed
qed

lemma run_with_completeness_retry_distinct:
  assumes "run_with_completeness_retry cfg env payload imgs pages total_pages log =
             (Inr (Some n, meta), log')"
  shows "distinct (map biomarker_key (biomarkers n))"
proof -
  obtain res m log1 where run:
    "run_model_chain_for_images cfg env payload imgs pages total_pages log = ((res, m), log1)"
    by (metis prod.exhaust)
  show ?thesis
  proof (cases res)
    case None
    with run assms show ?thesis
      by (simp add: run_with_completeness_retry_def)
  next
    case (Some normalized)
    with run have run': "run_model_chain_for_images cfg env payload imgs pages total_pages log =
                           ((Some normalized, m), log1)"
      by simp
    from run_model_chain_for_images_Some(2) [OF run'] obtain raw
      where "normalize_ai_output raw = Inr normalized"
      by blast
    then have dn: "distinct (map biomarker_key (biomarkers normalized))"
      by (rule normalize_ai_output_distinct)
    have recon: "distinct (map biomarker_key (biomarkers x)) \<Longrightarrow>
                 run_reconciliation_chain_for_images cfg env payload imgs pages total_pages x l =
                   ((y, rm), l') \<Longrightarrow>
                 distinct (map biomarker_key (biomarkers y))" for x y rm l l'
      using run_reconciliation_distinct [of x cfg env payload imgs pages total_pages l]
      by simp
    show ?thesis
    proof (cases "length imgs \<le> 1 \<or> \<not> is_suspiciously_incomplete cfg normalized (length imgs)")
      case True
      with run' assms dn recon show ?thesis
        by (auto simp: run_with_completeness_retry_def split: prod.splits)
    next
      case False
      obtain res2 log2 where l:
        "retry_loop cfg env payload pages total_pages imgs 0 [] [] log1 = (res2, log2)"
        by (metis prod.exhaust)
      show ?thesis
      proof (cases res2)
        case (Inl e)
        with run' False l assms show ?thesis
          by (simp add: run_with_completeness_retry_def)
      next
        case (Inr o1)
        show ?thesis
        proof (cases o1)
          case None
          with run' False l Inr assms dn recon show ?thesis
            by (auto simp: run_with_completeness_retry_def split: prod.splits)
        next
          case (Some cm)
          obtain cs ms where cm: "cm = (cs, ms)"
            by (cases cm)
          show ?thesis
          proof (cases "merge_normalized_outputs cs")
            case (Inl e)
            with run' False l \<open>res2 = Inr o1\<close> Some cm assms show ?thesis
              by (simp add: run_with_completeness_retry_def)
          next
            case (Inr merged_retry)
            then have "distinct (map biomarker_key (biomarkers merged_retry))"
              by (rule merge_normalized_outputs_distinct)
            with run' False l \<open>res2 = Inr o1\<close> Some cm Inr assms recon show ?thesis
              by (auto simp: run_with_completeness_retry_def split: prod.splits)
          qed
        qed
      qed
    qed
  qed
qed

subsection \<open>The synthesis chain\<close>

lemma synthesis_update_deduped:
  assumes "distinct (map biomarker_key (biomarkers extracted))"
    and "normalize_ai_output raw = Inr r"
  shows "dedupe_normalized_output
           (extracted\<lparr>recommendations := recommendations r, summary := summary r,
                      disclaimer := disclaimer r\<rparr>) =
         extracted\<lparr>recommendations := recommendations r, summary := summary r,
                    disclaimer := disclaimer r\<rparr>"
  using assms(1) normalize_ai_output_recommendations_distinct [OF assms(2)]
  by (simp add: dedupe_normalized_output_eq dedupe_by_groups_distinct_id keep_first_distinct_id)

lemma run_synthesis_success:
  assumes "distinct (map biomarker_key (biomarkers extracted))"
    and "k < length (active_provider_model_chain_for_mode cfg)"
    and "\<forall>i<k. isl (outcome_at env (synthesis_args cfg payload extracted)
                      (active_provider_model_chain_for_mode cfg) log i)"
    and "outcome_at env (synthesis_args cfg payload extracted)
           (active_provider_model_chain_for_mode cfg) log k = Inr r"
  shows "run_summary_recommendation_synthesis cfg env payload extracted log =
           ((extracted\<lparr>recommendations := recommendations r, summary := summary r,
                       disclaimer := disclaimer r\<rparr>,
             Some (active_provider_model_chain_for_mode cfg ! k)),
            log @ map (synthesis_args cfg payload extracted)
                    (take (Suc k) (active_provider_model_chain_for_mode cfg)))"
proof -
  from outcome_at_normalized [OF assms(4)] obtain raw where "normalize_ai_output raw = Inr r"
    by blast
  from synthesis_update_deduped [OF assms(1) this] try_models_success [OF assms(2,3,4), of 220 "[]"]
  show ?thesis
    by (simp add: run_summary_recommendation_synthesis_def del: take_Suc)
qed

lemma run_synthesis_all_fail:
  assumes "\<forall>i<length (active_provider_model_chain_for_mode cfg).
             isl (outcome_at env (synthesis_args cfg payload extracted)
                    (active_provider_model_chain_for_mode cfg) log i)"
  shows "run_summary_recommendation_synthesis cfg env payload extracted log =
           ((extracted,
             if active_provider_model_chain_for_mode cfg = [] then None
             else Some (join '' | '' (chain_errors env 220 (synthesis_args cfg payload extracted)
                          (active_provider_model_chain_for_mode cfg) log))),
            log @ map (synthesis_args cfg payload extracted)
                    (active_provider_model_chain_for_mode cfg))"
  using try_models_all_fail [OF assms, of 220 "[]"]
  by (simp add: run_summary_recommendation_synthesis_def chain_errors_def)

lemma run_synthesis_biomarkers:
  assumes "distinct (map biomarker_key (biomarkers extracted))"
  shows "biomarkers (fst (fst (run_summary_recommendation_synthesis cfg env payload extracted log))) =
           biomarkers extracted"
proof (cases rule: try_models_cases [of "active_provider_model_chain_for_mode cfg" env
                     "synthesis_args cfg payload extracted" log])
  case all_fail
  from run_synthesis_all_fail [OF this] show ?thesis
    by simp
next
  case (success k r)
  from run_synthesis_success [OF assms this] show ?thesis
    by simp
qed

lemma run_with_completeness_retry_passes_down:
  "run_with_completeness_retry abc_config env_passes_down one_image [JStr ''img1''] [1] 1 [] =
     (Inr (Some mock_result,
           ''model-a | reconciliation:model-b: HTTP 500 Internal Server Error | model-c: HTTP 500 Internal Server Error | model-a: HTTP 500 Internal Server Error''),
      extraction_args abc_config one_image [JStr ''img1''] [1] 1 ''model-a'' #
      map (reconciliation_args abc_config one_image [JStr ''img1''] [1] 1 mock_result)
        [''model-b'', ''model-c'', ''model-a''])"
proof -
  let ?e = "extraction_args abc_config one_image [JStr ''img1''] [1] 1 ''model-a''"
  let ?args = "reconciliation_args abc_config one_image [JStr ''img1''] [1] 1 mock_result"
  have run: "run_model_chain_for_images abc_config env_passes_down one_image [JStr ''img1''] [1] 1 [] =
     ((Some mock_result, ''model-a''), [?e])"
    by (simp add: run_model_chain_for_images_def chain_abc try_body_def call_openrouter_model_def
        env_passes_down_def extraction_args_def Let_def normalize_mock)
  have small: "\<not> (length [JStr ''img1''] \<ge> 2 \<and>
                   length (biomarkers mock_result) <
                     OPENROUTER_MIN_BIOMARKERS_PER_IMAGE_HINT abc_config * length [JStr ''img1''])"
    by simp
  have d: "\<forall>i<length (recon_models abc_config).
             isl (outcome_at env_passes_down ?args (recon_models abc_config) [?e] i)"
    by (simp add: recon_models_abc outcome_at_def try_body_def call_openrouter_model_def
        env_passes_down_def reconciliation_args_def Let_def)
  have e: "join '' | '' (chain_errors env_passes_down 300 ?args (recon_models abc_config) [?e]) =
             ''model-b: HTTP 500 Internal Server Error | model-c: HTTP 500 Internal Server Error | model-a: HTTP 500 Internal Server Error''"
    by (simp add: recon_models_abc chain_errors_Cons chain_errors_Nil try_body_def
        call_openrouter_model_def env_passes_down_def reconciliation_args_def Let_def
        format_error_def) code_simp
  have ne: "recon_models abc_config \<noteq> []"
    by (simp add: recon_models_abc)
  from run_reconciliation_all_fail [OF abc_flags ne d] e
  have r: "run_reconciliation_chain_for_images abc_config env_passes_down one_image
             [JStr ''img1''] [1] 1 mock_result [?e] =
           ((mock_result,
             Some ''model-b: HTTP 500 Internal Server Error | model-c: HTTP 500 Internal Server Error | model-a: HTTP 500 Internal Server Error''),
            ?e # map ?args [''model-b'', ''model-c'', ''model-a''])"
    by (simp add: recon_models_abc)
  from run_with_completeness_retry_direct [OF run small] r show ?thesis
    by (simp add: with_reconciliation_def)
qed

section \<open>Deduplication of biomarkers and recommendations\<close>










section \<open>A request fails only by a guard or by an extraction chain\<close>

lemma batch_lengths:
  "length (batch_page_numbers cfg images start) = length (batch_subset cfg images start)"
  by (auto simp: batch_page_numbers_def batch_subset_def Let_def min_def)

text \<open>The batch is the reconciliation of the extraction or of the merged single-image
  extractions, after the calls of the extraction chain and of the retry loop.\<close>

lemma run_with_completeness_retry_explicit:
  assumes run: "run_model_chain_for_images cfg env payload imgs pages total_pages log =
                  ((Some normalized, m), log1)"
    and len: "length pages = length imgs"
  shows "\<exists>pre base ext.
           ((length imgs \<le> 1 \<or> \<not> is_suspiciously_incomplete cfg normalized (length imgs)) \<and>
              pre = normalized \<and> base = m \<and> ext = [] \<or>
            \<not> (length imgs \<le> 1 \<or> \<not> is_suspiciously_incomplete cfg normalized (length imgs)) \<and>
              (retry_loop cfg env payload pages total_pages imgs 0 [] [] log1 =
                 (Inr None, log1 @ ext) \<and> pre = normalized \<and> base = m \<or>
               (\<exists>cs ms. retry_loop cfg env payload pages total_pages imgs 0 [] [] log1 =
                    (Inr (Some (cs, ms)), log1 @ ext) \<and>
                  merge_normalized_outputs cs = Inr pre \<and>
                  base = m @ '' (completeness-retry via '' @ join '' -> '' ms @ '')''))) \<and>
           run_with_completeness_retry cfg env payload imgs pages total_pages log =
             (case run_reconciliation_chain_for_images cfg env payload imgs pages total_pages
                     pre (log1 @ ext) of
                ((reconciled, recon_meta), log3) \<Rightarrow>
                  (Inr (Some reconciled, with_reconciliation base recon_meta), log3))"
proof (cases "length imgs \<le> 1 \<or> \<not> is_suspiciously_incomplete cfg normalized (length imgs)")
  case True
  with run
  have "run_with_completeness_retry cfg env payload imgs pages total_pages log =
           (case run_reconciliation_chain_for_images cfg env payload imgs pages total_pages
                   normalized (log1 @ []) of
              ((reconciled, recon_meta), log2) \<Rightarrow>
                (Inr (Some reconciled, with_reconciliation m recon_meta), log2))"
    by (simp add: run_with_completeness_retry_def)
  with True show ?thesis
    by blast
next
  case inc: False
  then have many: "length imgs \<ge> 2"
    by simp
  from len have "0 + length imgs \<le> length pages"
    by simp
  from retry_loop_total [OF this, of cfg env payload total_pages "[]" "[]" log1]
  consider (single_failed) log2 where
      "retry_loop cfg env payload pages total_pages imgs 0 [] [] log1 = (Inr None, log2)"
    | (merged) cs ms log2 where
      "retry_loop cfg env payload pages total_pages imgs 0 [] [] log1 = (Inr (Some (cs, ms)), log2)"
      "length cs = length imgs"
    by auto
  then show ?thesis
  proof cases
    case single_failed
    from retry_loop_log [of cfg env payload pages total_pages imgs 0 "[]" "[]" log1] single_failed
    obtain ext where ext: "log2 = log1 @ ext"
      by auto
    from single_failed run inc have
      "run_with_completeness_retry cfg env payload imgs pages total_pages log =
         (case run_reconciliation_chain_for_images cfg env payload imgs pages total_pages
                 normalized (log1 @ ext) of
            ((reconciled, recon_meta), log3) \<Rightarrow>
              (Inr (Some reconciled, with_reconciliation m recon_meta), log3))"
      by (simp add: run_with_completeness_retry_def ext)
    with inc single_failed ext show ?thesis
      by blast
  next
    case merged
    from retry_loop_log [of cfg env payload pages total_pages imgs 0 "[]" "[]" log1] merged(1)
    obtain ext where ext: "log2 = log1 @ ext"
      by auto
    from merged many have "cs \<noteq> []"
      by auto
    then obtain merged_retry where mr: "merge_normalized_outputs cs = Inr merged_retry"
      by (simp add: merge_normalized_outputs_def)
    with run inc merged(1) have
      "run_with_completeness_retry cfg env payload imgs pages total_pages log =
         (case run_reconciliation_chain_for_images cfg env payload imgs pages total_pages
                 merged_retry (log1 @ ext) of
            ((reconciled, recon_meta), log3) \<Rightarrow>
              (Inr (Some reconciled,
                    with_reconciliation
                      (m @ '' (completeness-retry via '' @ join '' -> '' ms @ '')'')
                      recon_meta), log3))"
      by (simp add: run_with_completeness_retry_def ext)
    with inc mr merged(1) ext show ?thesis
      by blast
  qed
qed

lemma run_with_completeness_retry_Some:
  assumes run: "run_model_chain_for_images cfg env payload imgs pages total_pages log =
                  ((Some normalized, m), log1)"
    and len: "length pages = length imgs"
  shows "\<exists>r meta log'. run_with_completeness_retry cfg env payload imgs pages total_pages log =
           (Inr (Some r, meta), log')"
proof -
  from run_with_completeness_retry_explicit [OF run len] obtain pre base ext where
    "run_with_completeness_retry cfg env payload imgs pages total_pages log =
       (case run_reconciliation_chain_for_images cfg env payload imgs pages total_pages
               pre (log1 @ ext) of
          ((reconciled, recon_meta), log3) \<Rightarrow>
            (Inr (Some reconciled, with_reconciliation base recon_meta), log3))"
    by blast
  then show ?thesis
    by (simp split: prod.splits)
qed

lemma run_with_completeness_retry_None:
  "run_model_chain_for_images cfg env payload imgs pages total_pages log = ((None, e), log1) \<Longrightarrow>
     run_with_completeness_retry cfg env payload imgs pages total_pages log = (Inr (None, e), log1)"
  by (simp add: run_with_completeness_retry_def)

lemma run_with_completeness_retry_cases:
  assumes len: "length pages = length imgs"
  shows "(\<exists>e log1. run_model_chain_for_images cfg env payload imgs pages total_pages log =
                      ((None, e), log1) \<and>
                    run_with_completeness_retry cfg env payload imgs pages total_pages log =
                      (Inr (None, e), log1)) \<or>
         (\<exists>r meta log'. run_with_completeness_retry cfg env payload imgs pages total_pages log =
                      (Inr (Some r, meta), log'))"
proof -
  obtain res m log1 where run:
    "run_model_chain_for_images cfg env payload imgs pages total_pages log = ((res, m), log1)"
    by (metis prod.exhaust)
  show ?thesis
  proof (cases res)
    case None
    with run run_with_completeness_retry_None [of cfg env payload imgs pages total_pages log m log1]
    show ?thesis
      by simp
  next
    case (Some normalized)
    with run run_with_completeness_retry_Some [of cfg env payload imgs pages total_pages log
        normalized m log1, OF _ len]
    show ?thesis
      by simp
  qed
qed

text \<open>The loop over the batches ends with one result for every batch, or with the failure
  of the extraction chain of a batch.\<close>

lemma batch_loop_cases:
  "(\<exists>start e l l'. start \<in> set starts \<and>
      run_model_chain_for_images cfg env payload (batch_subset cfg images start)
        (batch_page_numbers cfg images start) (int (length images)) l = ((None, e), l') \<and>
      batch_loop cfg env payload images starts chunk_results model_hits log =
        (Inr (BatchFailed (provider_label cfg @ '' batch mode failed. '' @
                join '' | '' [''pages '' @
                  py_repr (JList (map JInt (batch_page_numbers cfg images start))) @ '': '' @ e])),
         l')) \<or>
   (\<exists>cs ms log'. batch_loop cfg env payload images starts chunk_results model_hits log =
        (Inr (BatchDone (chunk_results @ cs) (model_hits @ ms)), log') \<and>
      length cs = length starts \<and> length ms = length starts)"
proof (induction starts arbitrary: chunk_results model_hits log)
  case Nil
  then show ?case by simp
next
  case (Cons start starts)
  let ?subset = "batch_subset cfg images start"
  let ?pages = "batch_page_numbers cfg images start"
  from run_with_completeness_retry_cases [where pages = ?pages and imgs = ?subset and cfg = cfg
      and env = env and payload = payload and total_pages = "int (length images)" and log = log,
      OF batch_lengths]
  consider (failed) e log1 where
      "run_model_chain_for_images cfg env payload ?subset ?pages (int (length images)) log =
         ((None, e), log1)"
      "run_with_completeness_retry cfg env payload ?subset ?pages (int (length images)) log =
         (Inr (None, e), log1)"
    | (passed) r meta log1 where
      "run_with_completeness_retry cfg env payload ?subset ?pages (int (length images)) log =
         (Inr (Some r, meta), log1)"
    by blast
  then show ?case
  proof cases
    case failed
    then have "batch_loop cfg env payload images (start # starts) chunk_results model_hits log =
        (Inr (BatchFailed (provider_label cfg @ '' batch mode failed. '' @
                join '' | '' [''pages '' @ py_repr (JList (map JInt ?pages)) @ '': '' @ e])),
         log1)"
      by (simp add: Let_def)
    with failed(1) show ?thesis
      by (intro disjI1 exI [of _ start] exI [of _ e] exI [of _ log] exI [of _ log1]) simp
  next
    case passed
    then have step: "batch_loop cfg env payload images (start # starts) chunk_results model_hits log =
        batch_loop cfg env payload images starts (chunk_results @ [r]) (model_hits @ [meta]) log1"
      by (simp add: Let_def)
    from Cons [of "chunk_results @ [r]" "model_hits @ [meta]" log1]
    show ?thesis
    proof (elim disjE exE conjE)
      fix s e l l'
      assume "s \<in> set starts"
        and "run_model_chain_for_images cfg env payload (batch_subset cfg images s)
               (batch_page_numbers cfg images s) (int (length images)) l = ((None, e), l')"
        and "batch_loop cfg env payload images starts (chunk_results @ [r]) (model_hits @ [meta]) log1 =
          (Inr (BatchFailed (provider_label cfg @ '' batch mode failed. '' @
                join '' | '' [''pages '' @
                  py_repr (JList (map JInt (batch_page_numbers cfg images s))) @ '': '' @ e])),
           l')"
      then show ?thesis
        unfolding step
        by (intro disjI1 exI [of _ s] exI [of _ e] exI [of _ l] exI [of _ l']) simp
    next
      fix cs ms log'
      assume "batch_loop cfg env payload images starts (chunk_results @ [r]) (model_hits @ [meta]) log1 =
          (Inr (BatchDone ((chunk_results @ [r]) @ cs) ((model_hits @ [meta]) @ ms)), log')"
        and "length cs = length starts" and "length ms = length starts"
      then show ?thesis
        unfolding step
        by (intro disjI2 exI [of _ "r # cs"] exI [of _ "meta # ms"] exI [of _ log']) simp
    qed
  qed
qed

lemma py_range_nonempty: "0 < step \<Longrightarrow> start < stop \<Longrightarrow> py_range start stop step \<noteq> []"
  by (subst py_range.simps) simp

lemma batch_size_positive: "0 < OPENROUTER_PAGE_BATCH_SIZE cfg"
  by (simp add: OPENROUTER_PAGE_BATCH_SIZE_def)

text \<open>The two branches of the request after its guards.\<close>

lemma maybe_generate_single:
  assumes "active_provider_api_key cfg \<noteq> []"
    and "\<not> (AI_OCR_ONLY_MODE cfg \<and>
            \<not> (strip (report_text cfg payload) \<noteq> [] \<or> extract_report_text_by_page payload \<noteq> []))"
    and "\<not> (\<not> AI_OCR_ONLY_MODE cfg \<and>
            length (request_images payload) > OPENROUTER_PAGE_BATCH_SIZE cfg)"
  shows "maybe_generate_with_openrouter cfg env payload log =
     (case run_with_completeness_retry cfg env payload (request_images payload)
             (map int [1 ..< length (request_images payload) + 1])
             (int (length (request_images payload))) log of
        (Inl e, log') \<Rightarrow> (Inl e, log')
      | (Inr (Some normalized, model_or_error), log') \<Rightarrow>
          (case run_summary_recommendation_synthesis cfg env payload normalized log' of
             ((normalized', synth_meta), log'') \<Rightarrow>
               (Inr (Some normalized',
                     with_synthesis (provider_label cfg @ '' success via '' @ model_or_error)
                       synth_meta), log''))
      | (Inr (None, model_or_error), log') \<Rightarrow>
          (Inr (None, provider_label cfg @ '' failed. '' @ join '' | '' [model_or_error]),
           log'))"
  by (simp only: maybe_generate_with_openrouter_def Let_def assms if_False)

lemma maybe_generate_batches:
  assumes "active_provider_api_key cfg \<noteq> []"
    and "\<not> AI_OCR_ONLY_MODE cfg"
    and "length (request_images payload) > OPENROUTER_PAGE_BATCH_SIZE cfg"
  shows "maybe_generate_with_openrouter cfg env payload log =
     (case batch_loop cfg env payload (request_images payload)
             (py_range 0 (length (request_images payload)) (OPENROUTER_PAGE_BATCH_SIZE cfg))
             [] [] log of
        (Inl e, log') \<Rightarrow> (Inl e, log')
      | (Inr (BatchFailed msg), log') \<Rightarrow> (Inr (None, msg), log')
      | (Inr (BatchDone chunk_results model_hits), log') \<Rightarrow>
          (case merge_normalized_outputs chunk_results of
             Inl e \<Rightarrow> (Inl e, log')
           | Inr merged \<Rightarrow>
               (case run_summary_recommendation_synthesis cfg env payload merged log' of
                  ((merged', synth_meta), log'') \<Rightarrow>
                    (Inr (Some merged',
                          with_synthesis
                            (provider_label cfg @ '' batch success (ordered pages) via '' @
                               join '' -> '' model_hits)
                            synth_meta), log''))))"
  by (simp only: maybe_generate_with_openrouter_def Let_def assms if_False if_True
      simp_thms)

text \<open>The request returns a result, unless a guard has fired or the extraction chain of the
  request, or of one of its batches, has failed; it raises no exception.\<close>

lemma maybe_generate_cases:
  "(\<exists>r meta log'. maybe_generate_with_openrouter cfg env payload log =
       (Inr (Some r, meta), log')) \<or>
   (\<exists>msg. maybe_generate_with_openrouter cfg env payload log = (Inr (None, msg), log) \<and>
      (active_provider_api_key cfg = [] \<or>
       AI_OCR_ONLY_MODE cfg \<and> strip (report_text cfg payload) = [] \<and>
         extract_report_text_by_page payload = [])) \<or>
   (\<exists>imgs pages l e l' msg.
      run_model_chain_for_images cfg env payload imgs pages
        (int (length (request_images payload))) l = ((None, e), l') \<and>
      maybe_generate_with_openrouter cfg env payload log = (Inr (None, msg), l'))"
proof -
  let ?images = "request_images payload"
  let ?n = "length ?images"
  consider (no_key) "active_provider_api_key cfg = []"
    | (no_text) "active_provider_api_key cfg \<noteq> []" "AI_OCR_ONLY_MODE cfg"
        "strip (report_text cfg payload) = []" "extract_report_text_by_page payload = []"
    | (batches) "active_provider_api_key cfg \<noteq> []" "\<not> AI_OCR_ONLY_MODE cfg"
        "?n > OPENROUTER_PAGE_BATCH_SIZE cfg"
    | (single) "active_provider_api_key cfg \<noteq> []"
        "\<not> (AI_OCR_ONLY_MODE cfg \<and>
            \<not> (strip (report_text cfg payload) \<noteq> [] \<or> extract_report_text_by_page payload \<noteq> []))"
        "\<not> (\<not> AI_OCR_ONLY_MODE cfg \<and> ?n > OPENROUTER_PAGE_BATCH_SIZE cfg)"
    by blast
  then show ?thesis
  proof cases
    case no_key
    then show ?thesis
      by (simp add: maybe_generate_with_openrouter_def)
  next
    case no_text
    then show ?thesis
      by (simp add: maybe_generate_with_openrouter_def Let_def)
  next
    case single
    have len: "length (map int [1 ..< ?n + 1]) = ?n"
      by (simp only: length_map length_upt add_diff_cancel_right')
    from run_with_completeness_retry_cases [where cfg = cfg and env = env and payload = payload
        and total_pages = "int ?n" and log = log, OF len]
    show ?thesis
    proof (elim disjE exE conjE)
      fix e log1
      assume f: "run_model_chain_for_images cfg env payload ?images (map int [1 ..< ?n + 1])
                   (int ?n) log = ((None, e), log1)"
        and "run_with_completeness_retry cfg env payload ?images (map int [1 ..< ?n + 1])
               (int ?n) log = (Inr (None, e), log1)"
      then have "maybe_generate_with_openrouter cfg env payload log =
          (Inr (None, provider_label cfg @ '' failed. '' @ join '' | '' [e]), log1)"
        unfolding maybe_generate_single [OF single] by (simp del: upt_Suc)
      with f show ?thesis
        by blast
    next
      fix r meta log'
      assume "run_with_completeness_retry cfg env payload ?images (map int [1 ..< ?n + 1])
               (int ?n) log = (Inr (Some r, meta), log')"
      then have "maybe_generate_with_openrouter cfg env payload log =
          (case run_summary_recommendation_synthesis cfg env payload r log' of
             ((normalized', synth_meta), log'') \<Rightarrow>
               (Inr (Some normalized',
                     with_synthesis (provider_label cfg @ '' success via '' @ meta) synth_meta),
                log''))"
        unfolding maybe_generate_single [OF single] by (simp del: upt_Suc)
      then show ?thesis
        by (simp split: prod.splits)
    qed
  next
    case batches
    let ?starts = "py_range 0 ?n (OPENROUTER_PAGE_BATCH_SIZE cfg)"
    from batches(3) have "0 < ?n"
      by linarith
    then have ne: "?starts \<noteq> []"
      by (rule py_range_nonempty [OF batch_size_positive])
    note unfold = maybe_generate_batches [OF batches, of env log]
    from batch_loop_cases [of ?starts cfg env payload ?images "[]" "[]" log]
    show ?thesis
    proof (elim disjE exE conjE)
      fix start e l l'
      assume "run_model_chain_for_images cfg env payload (batch_subset cfg ?images start)
                (batch_page_numbers cfg ?images start) (int ?n) l = ((None, e), l')"
        and "batch_loop cfg env payload ?images ?starts [] [] log =
          (Inr (BatchFailed (provider_label cfg @ '' batch mode failed. '' @
                join '' | '' [''pages '' @
                  py_repr (JList (map JInt (batch_page_numbers cfg ?images start))) @ '': '' @ e])),
           l')"
      then show ?thesis
        unfolding unfold by (intro disjI2) (simp, blast)
    next
      fix cs ms log'
      assume b: "batch_loop cfg env payload ?images ?starts [] [] log =
          (Inr (BatchDone ([] @ cs) ([] @ ms)), log')"
        and "length cs = length ?starts"
      with ne have "cs \<noteq> []"
        by auto
      then obtain merged where "merge_normalized_outputs cs = Inr merged"
        by (simp add: merge_normalized_outputs_def)
      with b show ?thesis
        unfolding unfold by (simp split: prod.splits)
    qed
  qed
qed

section \<open>Reconciliation is never fatal\<close>

lemma run_with_completeness_retry_no_retry:
  assumes "run_model_chain_for_images cfg env payload imgs pages total_pages log =
             ((Some normalized, m), log1)"
    and "length imgs \<le> 1 \<or> \<not> is_suspiciously_incomplete cfg normalized (length imgs)"
  shows "run_with_completeness_retry cfg env payload imgs pages total_pages log =
           (case run_reconciliation_chain_for_images cfg env payload imgs pages total_pages
                   normalized log1 of
              ((reconciled, recon_meta), log2) \<Rightarrow>
                (Inr (Some reconciled, with_reconciliation m recon_meta), log2))"
  using assms by (simp add: run_with_completeness_retry_def)

lemma run_with_completeness_retry_recon_all_fail:
  assumes run: "run_model_chain_for_images cfg env payload imgs pages total_pages log =
                  ((Some normalized, m), log1)"
    and direct: "length imgs \<le> 1 \<or> \<not> is_suspiciously_incomplete cfg normalized (length imgs)"
    and flags: "\<not> AI_VISUAL_ONLY_MODE cfg" "OPENROUTER_ENABLE_RECONCILIATION cfg"
    and ne: "recon_models cfg \<noteq> []"
    and fail: "\<forall>i<length (recon_models cfg).
           isl (outcome_at env (reconciliation_args cfg payload imgs pages total_pages normalized)
                  (recon_models cfg) log1 i)"
  shows "run_with_completeness_retry cfg env payload imgs pages total_pages log =
           (Inr (Some normalized,
                 m @ '' | reconciliation:'' @
                   join '' | '' (chain_errors env 300
                     (reconciliation_args cfg payload imgs pages total_pages normalized)
                     (recon_models cfg) log1)),
            log1 @ map (reconciliation_args cfg payload imgs pages total_pages normalized)
                     (recon_models cfg))"
  unfolding run_with_completeness_retry_no_retry [OF run direct]
    run_reconciliation_all_fail [OF flags ne fail]
  using chain_errors_nonempty [OF ne]
  by (simp add: with_reconciliation_def)

lemma run_with_completeness_retry_recon_success:
  assumes run: "run_model_chain_for_images cfg env payload imgs pages total_pages log =
                  ((Some normalized, m), log1)"
    and direct: "length imgs \<le> 1 \<or> \<not> is_suspiciously_incomplete cfg normalized (length imgs)"
    and flags: "\<not> AI_VISUAL_ONLY_MODE cfg" "OPENROUTER_ENABLE_RECONCILIATION cfg"
    and k: "k < length (recon_models cfg)"
    and before: "\<forall>i<k. isl (outcome_at env
                   (reconciliation_args cfg payload imgs pages total_pages normalized)
                   (recon_models cfg) log1 i)"
    and at: "outcome_at env (reconciliation_args cfg payload imgs pages total_pages normalized)
               (recon_models cfg) log1 k = Inr r"
  shows "run_with_completeness_retry cfg env payload imgs pages total_pages log =
           (Inr (Some r, m @ '' | reconciliation:'' @ recon_models cfg ! k),
            log1 @ map (reconciliation_args cfg payload imgs pages total_pages normalized)
                     (take (Suc k) (recon_models cfg)))"
proof -
  from k have "recon_models cfg ! k \<in> set (recon_models cfg)"
    by simp
  then have "recon_models cfg ! k \<noteq> []"
    by (rule recon_models_nonempty)
  then show ?thesis
    unfolding run_with_completeness_retry_no_retry [OF run direct]
      run_reconciliation_success [OF flags k before at]
    by (simp add: with_reconciliation_def del: take_Suc)
qed

text \<open>A request of one batch whose reconciliation models all fail goes on to the synthesis
  pass with the extraction.\<close>

lemma maybe_generate_recon_all_fail:
  assumes guards: "active_provider_api_key cfg \<noteq> []"
      "\<not> (AI_OCR_ONLY_MODE cfg \<and>
          \<not> (strip (report_text cfg payload) \<noteq> [] \<or> extract_report_text_by_page payload \<noteq> []))"
      "\<not> (\<not> AI_OCR_ONLY_MODE cfg \<and>
          length (request_images payload) > OPENROUTER_PAGE_BATCH_SIZE cfg)"
    and imgs: "imgs = request_images payload"
    and pages: "pages = map int [1 ..< length imgs + 1]"
    and total_pages: "total_pages = int (length imgs)"
    and run: "run_model_chain_for_images cfg env payload imgs pages total_pages log =
                  ((Some normalized, m), log1)"
    and direct: "length imgs \<le> 1 \<or> \<not> is_suspiciously_incomplete cfg normalized (length imgs)"
    and flags: "\<not> AI_VISUAL_ONLY_MODE cfg" "OPENROUTER_ENABLE_RECONCILIATION cfg"
    and ne: "recon_models cfg \<noteq> []"
    and fail: "\<forall>i<length (recon_models cfg).
           isl (outcome_at env (reconciliation_args cfg payload imgs pages total_pages normalized)
                  (recon_models cfg) log1 i)"
  shows "maybe_generate_with_openrouter cfg env payload log =
           (case run_summary_recommendation_synthesis cfg env payload normalized
                   (log1 @ map (reconciliation_args cfg payload imgs pages total_pages normalized)
                            (recon_models cfg)) of
              ((final, synth_meta), log3) \<Rightarrow>
                (Inr (Some final,
                      with_synthesis
                        (provider_label cfg @ '' success via '' @ m @ '' | reconciliation:'' @
                           join '' | '' (chain_errors env 300
                             (reconciliation_args cfg payload imgs pages total_pages normalized)
                             (recon_models cfg) log1))
                        synth_meta), log3))"
proof -
  from run_with_completeness_retry_recon_all_fail [OF run direct flags ne fail]
  have "run_with_completeness_retry cfg env payload (request_images payload)
          (map int [1 ..< length (request_images payload) + 1])
          (int (length (request_images payload))) log =
           (Inr (Some normalized,
                 m @ '' | reconciliation:'' @
                   join '' | '' (chain_errors env 300
                     (reconciliation_args cfg payload imgs pages total_pages normalized)
                     (recon_models cfg) log1)),
            log1 @ map (reconciliation_args cfg payload imgs pages total_pages normalized)
                     (recon_models cfg))"
    unfolding imgs pages total_pages .
  then show ?thesis
    unfolding maybe_generate_single [OF guards] by (simp del: upt_Suc)
qed

subsection \<open>The fixtures, evaluated\<close>

lemma abc_sizes:
  "OPENROUTER_MIN_BIOMARKERS_PER_IMAGE_HINT abc_config = 2"
  "OPENROUTER_PAGE_BATCH_SIZE abc_config = 2"
  "active_provider_api_key abc_config \<noteq> []"
  "\<not> AI_OCR_ONLY_MODE abc_config"
  "provider_label abc_config = ''OpenRouter''"
  by code_simp+

lemma request_images_one: "request_images one_image = [JStr ''img1'']"
  by code_simp

lemma normalize_three: "normalize_ai_output three_biomarkers_output = Inr three_biomarkers_result"
  by code_simp

lemma one_image_guards:
  "\<not> (AI_OCR_ONLY_MODE abc_config \<and>
      \<not> (strip (report_text abc_config one_image) \<noteq> [] \<or>
         extract_report_text_by_page one_image \<noteq> []))"
  "\<not> (\<not> AI_OCR_ONLY_MODE abc_config \<and>
      length (request_images one_image) > OPENROUTER_PAGE_BATCH_SIZE abc_config)"
  by (simp_all add: abc_sizes request_images_one)

lemma one_image_pages: "map int [1 ..< length [JStr ''img1''] + 1] = [1]"
  by (simp add: upt_rec)

text \<open>
  Claim C4. With reconciliation enabled: when a model of the reconciliation chain
  succeeds, the first that does, its normalized output is returned in place of the
  extraction, with its identifier, which is appended to the trail after
  \<open>" | reconciliation:"\<close>; when every model of the chain fails, the extraction is returned
  as it was, with the failures joined by \<open>" | "\<close>, which are appended to the trail in the
  same way. For a batch whose extraction chain has returned \<open>normalized\<close> with the trail
  \<open>m\<close> and that needs no completeness retry: the batch returns what the reconciliation
  pass returns for \<open>normalized\<close>, run after the calls of the extraction; so it returns the
  output of the first reconciliation model that succeeds, and \<open>normalized\<close> itself with
  the errors after \<open>m\<close> when all of them fail. With a completeness retry the same holds
  for \<open>normalized\<close>, when a single-image extraction has failed, and else for the merged
  single-image extractions, after the calls of the retry loop. In every case the batch
  returns a result, never \<open>None\<close> and never an exception. A request of one batch whose
  reconciliation models all fail goes on to the synthesis pass with the extraction
  unchanged, and returns a result whose trail has the reconciliation errors; and any
  request returns a result unless a guard has fired or an extraction chain has failed.
\<close>

theorem reconciliation_non_fatal:
  "(\<not> AI_VISUAL_ONLY_MODE cfg \<and> OPENROUTER_ENABLE_RECONCILIATION cfg \<and>
    k < length (recon_models cfg) \<and>
    (\<forall>i<k. isl (outcome_at env (reconciliation_args cfg payload imgs pages total_pages extracted)
                   (recon_models cfg) log i)) \<and>
    outcome_at env (reconciliation_args cfg payload imgs pages total_pages extracted)
      (recon_models cfg) log k = Inr r \<longrightarrow>
      run_reconciliation_chain_for_images cfg env payload imgs pages total_pages extracted log =
        ((r, Some (recon_models cfg ! k)),
         log @ map (reconciliation_args cfg payload imgs pages total_pages extracted)
                 (take (Suc k) (recon_models cfg))) \<and>
      with_reconciliation meta (Some (recon_models cfg ! k)) =
        meta @ '' | reconciliation:'' @ recon_models cfg ! k) \<and>
   (\<not> AI_VISUAL_ONLY_MODE cfg \<and> OPENROUTER_ENABLE_RECONCILIATION cfg \<and>
    recon_models cfg \<noteq> [] \<and>
    (\<forall>i<length (recon_models cfg).
        isl (outcome_at env (reconciliation_args cfg payload imgs pages total_pages extracted)
               (recon_models cfg) log i)) \<longrightarrow>
      run_reconciliation_chain_for_images cfg env payload imgs pages total_pages extracted log =
        ((extracted,
          Some (join '' | '' (chain_errors env 300
                  (reconciliation_args cfg payload imgs pages total_pages extracted)
                  (recon_models cfg) log))),
         log @ map (reconciliation_args cfg payload imgs pages total_pages extracted)
                 (recon_models cfg)) \<and>
      with_reconciliation meta
        (Some (join '' | '' (chain_errors env 300
                 (reconciliation_args cfg payload imgs pages total_pages extracted)
                 (recon_models cfg) log))) =
        meta @ '' | reconciliation:'' @
          join '' | '' (chain_errors env 300
            (reconciliation_args cfg payload imgs pages total_pages extracted)
            (recon_models cfg) log)) \<and>
   (run_model_chain_for_images cfg env payload imgs pages total_pages log0 =
      ((Some normalized, m), log1) \<and>
    (length imgs \<le> 1 \<or> \<not> is_suspiciously_incomplete cfg normalized (length imgs)) \<longrightarrow>
      run_with_completeness_retry cfg env payload imgs pages total_pages log0 =
        (case run_reconciliation_chain_for_images cfg env payload imgs pages total_pages
                normalized log1 of
           ((reconciled, recon_meta), log2) \<Rightarrow>
             (Inr (Some reconciled, with_reconciliation m recon_meta), log2))) \<and>
   (run_model_chain_for_images cfg env payload imgs pages total_pages log0 =
      ((Some normalized, m), log1) \<and>
    (length imgs \<le> 1 \<or> \<not> is_suspiciously_incomplete cfg normalized (length imgs)) \<and>
    \<not> AI_VISUAL_ONLY_MODE cfg \<and> OPENROUTER_ENABLE_RECONCILIATION cfg \<and>
    k < length (recon_models cfg) \<and>
    (\<forall>i<k. isl (outcome_at env (reconciliation_args cfg payload imgs pages total_pages normalized)
                   (recon_models cfg) log1 i)) \<and>
    outcome_at env (reconciliation_args cfg payload imgs pages total_pages normalized)
      (recon_models cfg) log1 k = Inr r \<longrightarrow>
      run_with_completeness_retry cfg env payload imgs pages total_pages log0 =
        (Inr (Some r, m @ '' | reconciliation:'' @ recon_models cfg ! k),
         log1 @ map (reconciliation_args cfg payload imgs pages total_pages normalized)
                  (take (Suc k) (recon_models cfg)))) \<and>
   (run_model_chain_for_images cfg env payload imgs pages total_pages log0 =
      ((Some normalized, m), log1) \<and>
    (length imgs \<le> 1 \<or> \<not> is_suspiciously_incomplete cfg normalized (length imgs)) \<and>
    \<not> AI_VISUAL_ONLY_MODE cfg \<and> OPENROUTER_ENABLE_RECONCILIATION cfg \<and>
    recon_models cfg \<noteq> [] \<and>
    (\<forall>i<length (recon_models cfg).
        isl (outcome_at env (reconciliation_args cfg payload imgs pages total_pages normalized)
               (recon_models cfg) log1 i)) \<longrightarrow>
      run_with_completeness_retry cfg env payload imgs pages total_pages log0 =
        (Inr (Some normalized,
              m @ '' | reconciliation:'' @
                join '' | '' (chain_errors env 300
                  (reconciliation_args cfg payload imgs pages total_pages normalized)
                  (recon_models cfg) log1)),
         log1 @ map (reconciliation_args cfg payload imgs pages total_pages normalized)
                  (recon_models cfg))) \<and>
   (run_model_chain_for_images cfg env payload imgs pages total_pages log0 =
      ((Some normalized, m), log1) \<and> length pages = length imgs \<longrightarrow>
      (\<exists>pre base ext.
         ((length imgs \<le> 1 \<or> \<not> is_suspiciously_incomplete cfg normalized (length imgs)) \<and>
            pre = normalized \<and> base = m \<and> ext = [] \<or>
          \<not> (length imgs \<le> 1 \<or> \<not> is_suspiciously_incomplete cfg normalized (length imgs)) \<and>
            (retry_loop cfg env payload pages total_pages imgs 0 [] [] log1 =
               (Inr None, log1 @ ext) \<and> pre = normalized \<and> base = m \<or>
             (\<exists>cs ms. retry_loop cfg env payload pages total_pages imgs 0 [] [] log1 =
                  (Inr (Some (cs, ms)), log1 @ ext) \<and>
                merge_normalized_outputs cs = Inr pre \<and>
                base = m @ '' (completeness-retry via '' @ join '' -> '' ms @ '')''))) \<and>
         run_with_completeness_retry cfg env payload imgs pages total_pages log0 =
           (case run_reconciliation_chain_for_images cfg env payload imgs pages total_pages
                   pre (log1 @ ext) of
              ((reconciled, recon_meta), log3) \<Rightarrow>
                (Inr (Some reconciled, with_reconciliation base recon_meta), log3))) \<and>
      (\<exists>res trail log3. run_with_completeness_retry cfg env payload imgs pages total_pages log0 =
         (Inr (Some res, trail), log3))) \<and>
   (active_provider_api_key cfg \<noteq> [] \<and>
    \<not> (AI_OCR_ONLY_MODE cfg \<and>
       \<not> (strip (report_text cfg payload) \<noteq> [] \<or> extract_report_text_by_page payload \<noteq> [])) \<and>
    \<not> (\<not> AI_OCR_ONLY_MODE cfg \<and>
       length (request_images payload) > OPENROUTER_PAGE_BATCH_SIZE cfg) \<and>
    imgs = request_images payload \<and> pages = map int [1 ..< length imgs + 1] \<and>
    total_pages = int (length imgs) \<and>
    run_model_chain_for_images cfg env payload imgs pages total_pages log0 =
      ((Some normalized, m), log1) \<and>
    (length imgs \<le> 1 \<or> \<not> is_suspiciously_incomplete cfg normalized (length imgs)) \<and>
    \<not> AI_VISUAL_ONLY_MODE cfg \<and> OPENROUTER_ENABLE_RECONCILIATION cfg \<and>
    recon_models cfg \<noteq> [] \<and>
    (\<forall>i<length (recon_models cfg).
        isl (outcome_at env (reconciliation_args cfg payload imgs pages total_pages normalized)
               (recon_models cfg) log1 i)) \<longrightarrow>
      maybe_generate_with_openrouter cfg env payload log0 =
        (case run_summary_recommendation_synthesis cfg env payload normalized
                (log1 @ map (reconciliation_args cfg payload imgs pages total_pages normalized)
                         (recon_models cfg)) of
           ((final, synth_meta), log3) \<Rightarrow>
             (Inr (Some final,
                   with_synthesis
                     (provider_label cfg @ '' success via '' @ m @ '' | reconciliation:'' @
                        join '' | '' (chain_errors env 300
                          (reconciliation_args cfg payload imgs pages total_pages normalized)
                          (recon_models cfg) log1))
                     synth_meta), log3))) \<and>
   ((\<exists>res trail log3. maybe_generate_with_openrouter cfg env payload log0 =
       (Inr (Some res, trail), log3)) \<or>
    (\<exists>msg. maybe_generate_with_openrouter cfg env payload log0 = (Inr (None, msg), log0) \<and>
       (active_provider_api_key cfg = [] \<or>
        AI_OCR_ONLY_MODE cfg \<and> strip (report_text cfg payload) = [] \<and>
          extract_report_text_by_page payload = [])) \<or>
    (\<exists>subset numbers l e l' msg.
       run_model_chain_for_images cfg env payload subset numbers
         (int (length (request_images payload))) l = ((None, e), l') \<and>
       maybe_generate_with_openrouter cfg env payload log0 = (Inr (None, msg), l')))"
proof (intro conjI impI)
  assume a: "\<not> AI_VISUAL_ONLY_MODE cfg \<and> OPENROUTER_ENABLE_RECONCILIATION cfg \<and>
    k < length (recon_models cfg) \<and>
    (\<forall>i<k. isl (outcome_at env (reconciliation_args cfg payload imgs pages total_pages extracted)
                   (recon_models cfg) log i)) \<and>
    outcome_at env (reconciliation_args cfg payload imgs pages total_pages extracted)
      (recon_models cfg) log k = Inr r"
  then show "run_reconciliation_chain_for_images cfg env payload imgs pages total_pages extracted log =
        ((r, Some (recon_models cfg ! k)),
         log @ map (reconciliation_args cfg payload imgs pages total_pages extracted)
                 (take (Suc k) (recon_models cfg)))"
    using run_reconciliation_success [of cfg k env payload imgs pages total_pages extracted log r]
    by blast
  from a have "recon_models cfg ! k \<in> set (recon_models cfg)"
    by simp
  then have "recon_models cfg ! k \<noteq> []"
    by (rule recon_models_nonempty)
  then show "with_reconciliation meta (Some (recon_models cfg ! k)) =
        meta @ '' | reconciliation:'' @ recon_models cfg ! k"
    by (simp add: with_reconciliation_def)
next
  assume a: "\<not> AI_VISUAL_ONLY_MODE cfg \<and> OPENROUTER_ENABLE_RECONCILIATION cfg \<and>
    recon_models cfg \<noteq> [] \<and>
    (\<forall>i<length (recon_models cfg).
        isl (outcome_at env (reconciliation_args cfg payload imgs pages total_pages extracted)
               (recon_models cfg) log i))"
  then show "run_reconciliation_chain_for_images cfg env payload imgs pages total_pages extracted log =
        ((extracted,
          Some (join '' | '' (chain_errors env 300
                  (reconciliation_args cfg payload imgs pages total_pages extracted)
                  (recon_models cfg) log))),
         log @ map (reconciliation_args cfg payload imgs pages total_pages extracted)
                 (recon_models cfg))"
    using run_reconciliation_all_fail [of cfg env payload imgs pages total_pages extracted log]
    by blast
  from a show "with_reconciliation meta
        (Some (join '' | '' (chain_errors env 300
                 (reconciliation_args cfg payload imgs pages total_pages extracted)
                 (recon_models cfg) log))) =
        meta @ '' | reconciliation:'' @
          join '' | '' (chain_errors env 300
            (reconciliation_args cfg payload imgs pages total_pages extracted)
            (recon_models cfg) log)"
    by (simp add: with_reconciliation_def chain_errors_nonempty)
next
  assume "run_model_chain_for_images cfg env payload imgs pages total_pages log0 =
      ((Some normalized, m), log1) \<and>
    (length imgs \<le> 1 \<or> \<not> is_suspiciously_incomplete cfg normalized (length imgs))"
  then show "run_with_completeness_retry cfg env payload imgs pages total_pages log0 =
        (case run_reconciliation_chain_for_images cfg env payload imgs pages total_pages
                normalized log1 of
           ((reconciled, recon_meta), log2) \<Rightarrow>
             (Inr (Some reconciled, with_reconciliation m recon_meta), log2))"
    using run_with_completeness_retry_no_retry by blast
next
  assume "run_model_chain_for_images cfg env payload imgs pages total_pages log0 =
      ((Some normalized, m), log1) \<and>
    (length imgs \<le> 1 \<or> \<not> is_suspiciously_incomplete cfg normalized (length imgs)) \<and>
    \<not> AI_VISUAL_ONLY_MODE cfg \<and> OPENROUTER_ENABLE_RECONCILIATION cfg \<and>
    k < length (recon_models cfg) \<and>
    (\<forall>i<k. isl (outcome_at env (reconciliation_args cfg payload imgs pages total_pages normalized)
                   (recon_models cfg) log1 i)) \<and>
    outcome_at env (reconciliation_args cfg payload imgs pages total_pages normalized)
      (recon_models cfg) log1 k = Inr r"
  then show "run_with_completeness_retry cfg env payload imgs pages total_pages log0 =
        (Inr (Some r, m @ '' | reconciliation:'' @ recon_models cfg ! k),
         log1 @ map (reconciliation_args cfg payload imgs pages total_pages normalized)
                  (take (Suc k) (recon_models cfg)))"
    using run_with_completeness_retry_recon_success
            [of cfg env payload imgs pages total_pages log0 normalized m log1 k r]
    by blast
next
  assume "run_model_chain_for_images cfg env payload imgs pages total_pages log0 =
      ((Some normalized, m), log1) \<and>
    (length imgs \<le> 1 \<or> \<not> is_suspiciously_incomplete cfg normalized (length imgs)) \<and>
    \<not> AI_VISUAL_ONLY_MODE cfg \<and> OPENROUTER_ENABLE_RECONCILIATION cfg \<and>
    recon_models cfg \<noteq> [] \<and>
    (\<forall>i<length (recon_models cfg).
        isl (outcome_at env (reconciliation_args cfg payload imgs pages total_pages normalized)
               (recon_models cfg) log1 i))"
  then show "run_with_completeness_retry cfg env payload imgs pages total_pages log0 =
        (Inr (Some normalized,
              m @ '' | reconciliation:'' @
                join '' | '' (chain_errors env 300
                  (reconciliation_args cfg payload imgs pages total_pages normalized)
                  (recon_models cfg) log1)),
         log1 @ map (reconciliation_args cfg payload imgs pages total_pages normalized)
                  (recon_models cfg))"
    using run_with_completeness_retry_recon_all_fail
            [of cfg env payload imgs pages total_pages log0 normalized m log1]
    by blast
next
  assume a: "run_model_chain_for_images cfg env payload imgs pages total_pages log0 =
      ((Some normalized, m), log1) \<and> length pages = length imgs"
  then show "\<exists>pre base ext.
         ((length imgs \<le> 1 \<or> \<not> is_suspiciously_incomplete cfg normalized (length imgs)) \<and>
            pre = normalized \<and> base = m \<and> ext = [] \<or>
          \<not> (length imgs \<le> 1 \<or> \<not> is_suspiciously_incomplete cfg normalized (length imgs)) \<and>
            (retry_loop cfg env payload pages total_pages imgs 0 [] [] log1 =
               (Inr None, log1 @ ext) \<and> pre = normalized \<and> base = m \<or>
             (\<exists>cs ms. retry_loop cfg env payload pages total_pages imgs 0 [] [] log1 =
                  (Inr (Some (cs, ms)), log1 @ ext) \<and>
                merge_normalized_outputs cs = Inr pre \<and>
                base = m @ '' (completeness-retry via '' @ join '' -> '' ms @ '')''))) \<and>
         run_with_completeness_retry cfg env payload imgs pages total_pages log0 =
           (case run_reconciliation_chain_for_images cfg env payload imgs pages total_pages
                   pre (log1 @ ext) of
              ((reconciled, recon_meta), log3) \<Rightarrow>
                (Inr (Some reconciled, with_reconciliation base recon_meta), log3))"
    using run_with_completeness_retry_explicit
            [of cfg env payload imgs pages total_pages log0 normalized m log1]
    by blast
  from a show "\<exists>res trail log3.
         run_with_completeness_retry cfg env payload imgs pages total_pages log0 =
           (Inr (Some res, trail), log3)"
    using run_with_completeness_retry_Some
            [of cfg env payload imgs pages total_pages log0 normalized m log1]
    by blast
next
  assume "active_provider_api_key cfg \<noteq> [] \<and>
    \<not> (AI_OCR_ONLY_MODE cfg \<and>
       \<not> (strip (report_text cfg payload) \<noteq> [] \<or> extract_report_text_by_page payload \<noteq> [])) \<and>
    \<not> (\<not> AI_OCR_ONLY_MODE cfg \<and>
       length (request_images payload) > OPENROUTER_PAGE_BATCH_SIZE cfg) \<and>
    imgs = request_images payload \<and> pages = map int [1 ..< length imgs + 1] \<and>
    total_pages = int (length imgs) \<and>
    run_model_chain_for_images cfg env payload imgs pages total_pages log0 =
      ((Some normalized, m), log1) \<and>
    (length imgs \<le> 1 \<or> \<not> is_suspiciously_incomplete cfg normalized (length imgs)) \<and>
    \<not> AI_VISUAL_ONLY_MODE cfg \<and> OPENROUTER_ENABLE_RECONCILIATION cfg \<and>
    recon_models cfg \<noteq> [] \<and>
    (\<forall>i<length (recon_models cfg).
        isl (outcome_at env (reconciliation_args cfg payload imgs pages total_pages normalized)
               (recon_models cfg) log1 i))"
  then show "maybe_generate_with_openrouter cfg env payload log0 =
        (case run_summary_recommendation_synthesis cfg env payload normalized
                (log1 @ map (reconciliation_args cfg payload imgs pages total_pages normalized)
                         (recon_models cfg)) of
           ((final, synth_meta), log3) \<Rightarrow>
             (Inr (Some final,
                   with_synthesis
                     (provider_label cfg @ '' success via '' @ m @ '' | reconciliation:'' @
                        join '' | '' (chain_errors env 300
                          (reconciliation_args cfg payload imgs pages total_pages normalized)
                          (recon_models cfg) log1))
                     synth_meta), log3))"
    using maybe_generate_recon_all_fail
            [of cfg payload imgs pages total_pages env log0 normalized m log1]
    by blast
next
  show "(\<exists>res trail log3. maybe_generate_with_openrouter cfg env payload log0 =
       (Inr (Some res, trail), log3)) \<or>
    (\<exists>msg. maybe_generate_with_openrouter cfg env payload log0 = (Inr (None, msg), log0) \<and>
       (active_provider_api_key cfg = [] \<or>
        AI_OCR_ONLY_MODE cfg \<and> strip (report_text cfg payload) = [] \<and>
          extract_report_text_by_page payload = [])) \<or>
    (\<exists>subset numbers l e l' msg.
       run_model_chain_for_images cfg env payload subset numbers
         (int (length (request_images payload))) l = ((None, e), l') \<and>
       maybe_generate_with_openrouter cfg env payload log0 = (Inr (None, msg), l'))"
    by (rule maybe_generate_cases)
qed

text \<open>The reconciliation chain \<open>[model-b, model-c, model-a]\<close>. The pass alone, with
  \<open>model-b\<close> up and with every model down. A request of one image, with the extraction
  answered by \<open>model-a\<close>: when every reconciliation and synthesis call fails, the batch
  and the request return the extraction with the errors in the trail; when the
  reconciliation calls are answered with three biomarkers, the batch returns these. A
  batch of two images that is retried returns a result.\<close>

theorem reconciliation_non_fatal_witness:
  "run_reconciliation_chain_for_images abc_config env_a_down one_image [JStr ''img1''] [1] 1
     three_biomarkers_result [] =
     ((mock_result, Some ''model-b''),
      [reconciliation_args abc_config one_image [JStr ''img1''] [1] 1 three_biomarkers_result
         ''model-b'']) \<and>
   run_reconciliation_chain_for_images abc_config env_down one_image [JStr ''img1''] [1] 1
     three_biomarkers_result [] =
     ((three_biomarkers_result,
       Some ''model-b: timed out | model-c: timed out | model-a: timed out''),
      map (reconciliation_args abc_config one_image [JStr ''img1''] [1] 1 three_biomarkers_result)
        [''model-b'', ''model-c'', ''model-a'']) \<and>
   with_reconciliation ''model-a''
     (Some ''model-b: timed out | model-c: timed out | model-a: timed out'') =
     ''model-a | reconciliation:model-b: timed out | model-c: timed out | model-a: timed out'' \<and>
   run_model_chain_for_images abc_config env_passes_down one_image [JStr ''img1''] [1] 1 [] =
     ((Some mock_result, ''model-a''),
      [extraction_args abc_config one_image [JStr ''img1''] [1] 1 ''model-a'']) \<and>
   run_with_completeness_retry abc_config env_passes_down one_image [JStr ''img1''] [1] 1 [] =
     (Inr (Some mock_result,
           ''model-a | reconciliation:model-b: HTTP 500 Internal Server Error | model-c: HTTP 500 Internal Server Error | model-a: HTTP 500 Internal Server Error''),
      [extraction_args abc_config one_image [JStr ''img1''] [1] 1 ''model-a''] @
      map (reconciliation_args abc_config one_image [JStr ''img1''] [1] 1 mock_result)
        [''model-b'', ''model-c'', ''model-a'']) \<and>
   run_model_chain_for_images abc_config env_recon_three one_image [JStr ''img1''] [1] 1 [] =
     ((Some mock_result, ''model-a''),
      [extraction_args abc_config one_image [JStr ''img1''] [1] 1 ''model-a'']) \<and>
   run_with_completeness_retry abc_config env_recon_three one_image [JStr ''img1''] [1] 1 [] =
     (Inr (Some three_biomarkers_result, ''model-a | reconciliation:model-b''),
      [extraction_args abc_config one_image [JStr ''img1''] [1] 1 ''model-a'',
       reconciliation_args abc_config one_image [JStr ''img1''] [1] 1 mock_result ''model-b'']) \<and>
   maybe_generate_with_openrouter abc_config env_passes_down one_image [] =
     (Inr (Some mock_result,
           ''OpenRouter success via model-a | reconciliation:model-b: HTTP 500 Internal Server Error | model-c: HTTP 500 Internal Server Error | model-a: HTTP 500 Internal Server Error | summary/reco:model-a: HTTP 500 Internal Server Error | model-b: HTTP 500 Internal Server Error | model-c: HTTP 500 Internal Server Error''),
      ([extraction_args abc_config one_image [JStr ''img1''] [1] 1 ''model-a''] @
       map (reconciliation_args abc_config one_image [JStr ''img1''] [1] 1 mock_result)
         [''model-b'', ''model-c'', ''model-a'']) @
      map (synthesis_args abc_config one_image mock_result) [''model-a'', ''model-b'', ''model-c'']) \<and>
   run_model_chain_for_images abc_config env_three two_images [JStr ''img1'', JStr ''img2''] [1, 2] 2 [] =
     ((Some three_biomarkers_result, ''model-a''),
      [extraction_args abc_config two_images [JStr ''img1'', JStr ''img2''] [1, 2] 2 ''model-a'']) \<and>
   is_suspiciously_incomplete abc_config three_biomarkers_result 2 \<and>
   (\<exists>res trail log3.
      run_with_completeness_retry abc_config env_three two_images [JStr ''img1'', JStr ''img2'']
        [1, 2] 2 [] = (Inr (Some res, trail), log3))"
proof -
  let ?I = "[JStr ''img1'']"
  let ?args = "reconciliation_args abc_config one_image ?I [1] 1 three_biomarkers_result"
  let ?e = "extraction_args abc_config one_image ?I [1] 1 ''model-a''"
  let ?argsm = "reconciliation_args abc_config one_image ?I [1] 1 mock_result"
  let ?log2 = "[?e] @ map ?argsm [''model-b'', ''model-c'', ''model-a'']"
  let ?sargs = "synthesis_args abc_config one_image mock_result"
  have o: "outcome_at env_a_down ?args [''model-b'', ''model-c'', ''model-a''] [] 0 = Inr mock_result"
    by (simp add: outcome_at_def try_body_def call_openrouter_model_def env_a_down_def
        reconciliation_args_def Let_def normalize_mock)
  have d: "\<forall>i<3. isl (outcome_at env_down ?args [''model-b'', ''model-c'', ''model-a''] [] i)"
    by (simp add: outcome_at_def try_body_def call_openrouter_model_def env_down_def)
  have e: "join '' | '' (chain_errors env_down 300 ?args [''model-b'', ''model-c'', ''model-a''] []) =
             ''model-b: timed out | model-c: timed out | model-a: timed out''"
    by (simp add: chain_errors_Cons chain_errors_Nil try_body_def call_openrouter_model_def
        env_down_def format_error_def)
  from reconciliation_non_fatal [of abc_config 0 env_a_down one_image ?I "[1]" 1
         three_biomarkers_result "[]" mock_result "''model-a''" "[]" mock_result "''model-a''" "[]",
         THEN conjunct1]
       abc_flags recon_models_abc o
  have a: "run_reconciliation_chain_for_images abc_config env_a_down one_image ?I [1] 1
             three_biomarkers_result [] = ((mock_result, Some ''model-b''), [?args ''model-b''])"
    by simp
  from reconciliation_non_fatal [of abc_config 0 env_down one_image ?I "[1]" 1
         three_biomarkers_result "[]" mock_result "''model-a''" "[]" mock_result "''model-a''" "[]",
         THEN conjunct2, THEN conjunct1]
       abc_flags recon_models_abc d e
  have b: "run_reconciliation_chain_for_images abc_config env_down one_image ?I [1] 1
             three_biomarkers_result [] =
           ((three_biomarkers_result,
             Some ''model-b: timed out | model-c: timed out | model-a: timed out''),
            map ?args [''model-b'', ''model-c'', ''model-a'']) \<and>
           with_reconciliation ''model-a''
             (Some ''model-b: timed out | model-c: timed out | model-a: timed out'') =
           ''model-a | reconciliation:model-b: timed out | model-c: timed out | model-a: timed out''"
    by simp
  have run: "run_model_chain_for_images abc_config env_passes_down one_image ?I [1] 1 [] =
     ((Some mock_result, ''model-a''), [?e])"
    by (simp add: run_model_chain_for_images_def chain_abc try_body_def call_openrouter_model_def
        env_passes_down_def extraction_args_def Let_def normalize_mock)
  have direct: "length ?I \<le> 1 \<or> \<not> is_suspiciously_incomplete abc_config mock_result (length ?I)"
    by simp
  have dp: "\<forall>i<3. isl (outcome_at env_passes_down ?argsm [''model-b'', ''model-c'', ''model-a''] [?e] i)"
    by (simp add: outcome_at_def try_body_def call_openrouter_model_def
        env_passes_down_def reconciliation_args_def Let_def)
  have ep: "join '' | '' (chain_errors env_passes_down 300 ?argsm
                            [''model-b'', ''model-c'', ''model-a''] [?e]) =
             ''model-b: HTTP 500 Internal Server Error | model-c: HTTP 500 Internal Server Error | model-a: HTTP 500 Internal Server Error''"
    by (simp add: chain_errors_Cons chain_errors_Nil try_body_def
        call_openrouter_model_def env_passes_down_def reconciliation_args_def Let_def
        format_error_def) code_simp
  from reconciliation_non_fatal [of abc_config 0 env_passes_down one_image ?I "[1]" 1
         mock_result "[]" mock_result "''model-a''" "[]" mock_result "''model-a''" "[?e]",
         THEN conjunct2, THEN conjunct2, THEN conjunct2, THEN conjunct2, THEN conjunct1]
       run direct abc_flags recon_models_abc dp ep
  have c: "run_with_completeness_retry abc_config env_passes_down one_image ?I [1] 1 [] =
     (Inr (Some mock_result,
           ''model-a | reconciliation:model-b: HTTP 500 Internal Server Error | model-c: HTTP 500 Internal Server Error | model-a: HTTP 500 Internal Server Error''),
      ?log2)"
    by simp
  have run3: "run_model_chain_for_images abc_config env_recon_three one_image ?I [1] 1 [] =
     ((Some mock_result, ''model-a''), [?e])"
    by (simp add: run_model_chain_for_images_def chain_abc try_body_def call_openrouter_model_def
        env_recon_three_def extraction_args_def Let_def normalize_mock)
  have o3: "outcome_at env_recon_three ?argsm [''model-b'', ''model-c'', ''model-a''] [?e] 0 =
              Inr three_biomarkers_result"
    by (simp add: outcome_at_def try_body_def call_openrouter_model_def env_recon_three_def
        reconciliation_args_def Let_def normalize_three)
  from reconciliation_non_fatal [of abc_config 0 env_recon_three one_image ?I "[1]" 1
         mock_result "[]" three_biomarkers_result "''model-a''" "[]" mock_result "''model-a''" "[?e]",
         THEN conjunct2, THEN conjunct2, THEN conjunct2, THEN conjunct1]
       run3 direct abc_flags recon_models_abc o3
  have s: "run_with_completeness_retry abc_config env_recon_three one_image ?I [1] 1 [] =
     (Inr (Some three_biomarkers_result, ''model-a | reconciliation:model-b''),
      [?e, ?argsm ''model-b''])"
    by simp
  have ds: "\<forall>i<length (active_provider_model_chain_for_mode abc_config).
              isl (outcome_at env_passes_down ?sargs
                     (active_provider_model_chain_for_mode abc_config) ?log2 i)"
    by (simp add: chain_abc outcome_at_def try_body_def call_openrouter_model_def
        env_passes_down_def synthesis_args_def Let_def)
  have es: "join '' | '' (chain_errors env_passes_down 220 ?sargs
                            [''model-a'', ''model-b'', ''model-c''] ?log2) =
             ''model-a: HTTP 500 Internal Server Error | model-b: HTTP 500 Internal Server Error | model-c: HTTP 500 Internal Server Error''"
    by (simp add: chain_errors_Cons chain_errors_Nil try_body_def call_openrouter_model_def
        env_passes_down_def synthesis_args_def Let_def format_error_def) code_simp
  have synth: "run_summary_recommendation_synthesis abc_config env_passes_down one_image
                 mock_result ?log2 =
               ((mock_result,
                 Some ''model-a: HTTP 500 Internal Server Error | model-b: HTTP 500 Internal Server Error | model-c: HTTP 500 Internal Server Error''),
                ?log2 @ map ?sargs [''model-a'', ''model-b'', ''model-c''])"
    using run_synthesis_all_fail [OF ds] es by (simp add: chain_abc)
  from reconciliation_non_fatal [of abc_config 0 env_passes_down one_image ?I "[1]" 1
         mock_result "[]" mock_result "''model-a''" "[]" mock_result "''model-a''" "[?e]",
         THEN conjunct2, THEN conjunct2, THEN conjunct2, THEN conjunct2, THEN conjunct2, THEN conjunct2, THEN conjunct1]
       abc_sizes(3) one_image_guards request_images_one one_image_pages
       run direct abc_flags recon_models_abc dp
  have "maybe_generate_with_openrouter abc_config env_passes_down one_image [] =
        (case run_summary_recommendation_synthesis abc_config env_passes_down one_image mock_result
                ([?e] @ map ?argsm (recon_models abc_config)) of
           ((final, synth_meta), log3) \<Rightarrow>
             (Inr (Some final,
                   with_synthesis
                     (provider_label abc_config @ '' success via '' @ ''model-a'' @
                        '' | reconciliation:'' @
                        join '' | '' (chain_errors env_passes_down 300 ?argsm
                          (recon_models abc_config) [?e]))
                     synth_meta), log3))"
    by simp
  with synth have f: "maybe_generate_with_openrouter abc_config env_passes_down one_image [] =
     (Inr (Some mock_result,
           ''OpenRouter success via model-a | reconciliation:model-b: HTTP 500 Internal Server Error | model-c: HTTP 500 Internal Server Error | model-a: HTTP 500 Internal Server Error | summary/reco:model-a: HTTP 500 Internal Server Error | model-b: HTTP 500 Internal Server Error | model-c: HTTP 500 Internal Server Error''),
      ?log2 @ map ?sargs [''model-a'', ''model-b'', ''model-c''])"
    by (simp add: recon_models_abc ep abc_sizes with_synthesis_def)
  let ?J = "[JStr ''img1'', JStr ''img2'']"
  have run2: "run_model_chain_for_images abc_config env_three two_images ?J [1, 2] 2 [] =
             ((Some three_biomarkers_result, ''model-a''),
              [extraction_args abc_config two_images ?J [1, 2] 2 ''model-a''])"
    by (simp add: run_model_chain_for_images_def chain_abc try_body_def call_openrouter_model_def
        env_three_def normalize_three)
  have inc: "is_suspiciously_incomplete abc_config three_biomarkers_result 2"
    by (simp add: is_suspiciously_incomplete_def abc_sizes three_biomarkers_result_def)
  from reconciliation_non_fatal [of abc_config 0 env_three two_images ?J "[1, 2]" 2
         mock_result "[]" mock_result "''model-a''" "[]" three_biomarkers_result "''model-a''"
         "[extraction_args abc_config two_images ?J [1, 2] 2 ''model-a'']",
         THEN conjunct2, THEN conjunct2, THEN conjunct2, THEN conjunct2, THEN conjunct2, THEN conjunct1]
       run2
  have g: "\<exists>res trail log3.
      run_with_completeness_retry abc_config env_three two_images ?J [1, 2] 2 [] =
        (Inr (Some res, trail), log3)"
    by simp
  from a b run c run3 s f run2 inc g show ?thesis
    by - (intro conjI; (elim conjE)?; assumption)
qed

section \<open>A request of five images in batches of two\<close>

lemma normalize_batch_output:
  "normalize_ai_output (batch_output ''High'') = Inr (batch_result ''High'')"
  "normalize_ai_output (batch_output ''Low'') = Inr (batch_result ''Low'')"
  by code_simp+

lemma request_images_five: "request_images five_images = five"
  by code_simp

lemma five_length: "length five = 5"
  by (simp add: five_def)

lemma merge_batches:
  "merge_normalized_outputs [batch_result ''High'', batch_result ''Low'', batch_result ''Low''] =
     Inr batch_merged"
  by code_simp


lemma py_range_5_2: "py_range 0 5 2 = [0, 2, 4]"
  by code_simp



text \<open>The loop over the three batches, when each of them returns a result.\<close>

lemma batch_loop_three:
  assumes size: "OPENROUTER_PAGE_BATCH_SIZE cfg = 2"
    and b1: "run_with_completeness_retry cfg env payload [i1, i2] [1, 2] 5 log =
               (Inr (Some c1, m1), log1)"
    and b2: "run_with_completeness_retry cfg env payload [i3, i4] [3, 4] 5 log1 =
               (Inr (Some c2, m2), log2)"
    and b3: "run_with_completeness_retry cfg env payload [i5] [5] 5 log2 =
               (Inr (Some c3, m3), log3)"
  shows "batch_loop cfg env payload [i1, i2, i3, i4, i5]
           (py_range 0 (length [i1, i2, i3, i4, i5]) (OPENROUTER_PAGE_BATCH_SIZE cfg)) [] [] log =
           (Inr (BatchDone [c1, c2, c3] [m1, m2, m3]), log3)"
proof -
  let ?images = "[i1, i2, i3, i4, i5]"
  have len: "length ?images = 5"
    by simp
  have r: "py_range 0 (length ?images) (OPENROUTER_PAGE_BATCH_SIZE cfg) = [0, 2, 4]"
    unfolding len size by (rule py_range_5_2)
  have pn: "batch_page_numbers cfg ?images 0 = [1, 2]" "batch_page_numbers cfg ?images 2 = [3, 4]"
           "batch_page_numbers cfg ?images 4 = [5]"
    by (simp_all add: batch_page_numbers_def size upt_rec)
  have sub: "batch_subset cfg ?images 0 = [i1, i2]" "batch_subset cfg ?images 2 = [i3, i4]"
            "batch_subset cfg ?images 4 = [i5]"
    by (simp_all add: batch_subset_def size)
  have loop: "batch_loop cfg env payload ?images [0, 2, 4] [] [] log =
                (Inr (BatchDone [c1, c2, c3] [m1, m2, m3]), log3)"
    using b1 b2 b3 by (simp add: pn sub)
  show ?thesis
    unfolding r by (rule loop)
qed

text \<open>A batch of at most two images, for a provider that answers the extraction and the
  reconciliation calls as \<open>env_batch\<close> does.\<close>

lemma batch_run:
  assumes env: "\<And>log a. (\<forall>e t. ca_prompt_override a \<noteq> Some (SynthesisPrompt e t)) \<Longrightarrow>
                  env log a =
                    Inr (batch_output (if ca_page_numbers a = [1, 2] then ''High'' else ''Low''))"
    and len: "length imgs \<le> 2"
    and s: "s = (if pages = [1, 2] then ''High'' else ''Low'')"
  shows "run_with_completeness_retry abc_config env payload imgs pages total_pages log =
           (Inr (Some (batch_result s), ''model-a | reconciliation:model-b''),
            log @ [extraction_args abc_config payload imgs pages total_pages ''model-a'',
                   reconciliation_args abc_config payload imgs pages total_pages (batch_result s)
                     ''model-b''])"
proof -
  let ?e = "extraction_args abc_config payload imgs pages total_pages ''model-a''"
  let ?r = "reconciliation_args abc_config payload imgs pages total_pages (batch_result s) ''model-b''"
  have n: "normalize_ai_output (batch_output s) = Inr (batch_result s)"
    using s normalize_batch_output by simp
  have e: "env log ?e = Inr (batch_output s)"
    using env [of ?e log] s by (simp add: extraction_args_def Let_def)
  have r: "env (log @ [?e]) ?r = Inr (batch_output s)"
    using env [of ?r "log @ [?e]"] s by (simp add: reconciliation_args_def Let_def)
  have run: "run_model_chain_for_images abc_config env payload imgs pages total_pages log =
               ((Some (batch_result s), ''model-a''), log @ [?e])"
    by (simp add: run_model_chain_for_images_def chain_abc try_body_def call_openrouter_model_def
        e n)
  have small: "\<not> (length imgs \<ge> 2 \<and>
                   length (biomarkers (batch_result s)) <
                     OPENROUTER_MIN_BIOMARKERS_PER_IMAGE_HINT abc_config * length imgs)"
    using len by (simp add: abc_sizes batch_result_def)
  have recon: "run_reconciliation_chain_for_images abc_config env payload imgs pages total_pages
                 (batch_result s) (log @ [?e]) =
               ((batch_result s, Some ''model-b''), log @ [?e, ?r])"
    using abc_flags
    by (simp add: run_reconciliation_chain_for_images_def recon_models_abc try_body_def
        call_openrouter_model_def r n)
  from run_with_completeness_retry_direct [OF run small] recon show ?thesis
    by (simp add: with_reconciliation_def)
qed

lemma env_batch_answers:
  "(\<forall>e t. ca_prompt_override a \<noteq> Some (SynthesisPrompt e t)) \<Longrightarrow>
     env_batch log a = Inr (batch_output (if ca_page_numbers a = [1, 2] then ''High'' else ''Low''))"
  by (simp add: env_batch_def)

lemma env_batch_no_synthesis_answers:
  "(\<forall>e t. ca_prompt_override a \<noteq> Some (SynthesisPrompt e t)) \<Longrightarrow>
     env_batch_no_synthesis log a =
       Inr (batch_output (if ca_page_numbers a = [1, 2] then ''High'' else ''Low''))"
  by (auto simp: env_batch_no_synthesis_def split: option.splits prompt.splits)

text \<open>The three batches of the five images, for such a provider.\<close>

lemma five_batches:
  assumes env: "\<And>log a. (\<forall>e t. ca_prompt_override a \<noteq> Some (SynthesisPrompt e t)) \<Longrightarrow>
                  env log a =
                    Inr (batch_output (if ca_page_numbers a = [1, 2] then ''High'' else ''Low''))"
  shows "run_with_completeness_retry abc_config env five_images [JStr ''img1'', JStr ''img2'']
           [1, 2] 5 [] =
           (Inr (Some (batch_result ''High''), ''model-a | reconciliation:model-b''),
            [extraction_args abc_config five_images [JStr ''img1'', JStr ''img2''] [1, 2] 5 ''model-a'',
             reconciliation_args abc_config five_images [JStr ''img1'', JStr ''img2''] [1, 2] 5
               (batch_result ''High'') ''model-b''])"
    and "run_with_completeness_retry abc_config env five_images [JStr ''img3'', JStr ''img4'']
           [3, 4] 5 log =
           (Inr (Some (batch_result ''Low''), ''model-a | reconciliation:model-b''),
            log @
            [extraction_args abc_config five_images [JStr ''img3'', JStr ''img4''] [3, 4] 5 ''model-a'',
             reconciliation_args abc_config five_images [JStr ''img3'', JStr ''img4''] [3, 4] 5
               (batch_result ''Low'') ''model-b''])"
    and "run_with_completeness_retry abc_config env five_images [JStr ''img5''] [5] 5 log =
           (Inr (Some (batch_result ''Low''), ''model-a | reconciliation:model-b''),
            log @
            [extraction_args abc_config five_images [JStr ''img5''] [5] 5 ''model-a'',
             reconciliation_args abc_config five_images [JStr ''img5''] [5] 5
               (batch_result ''Low'') ''model-b''])"
proof -
  note run = batch_run [where env = env and payload = five_images and total_pages = 5, OF env]
  show "run_with_completeness_retry abc_config env five_images [JStr ''img1'', JStr ''img2'']
           [1, 2] 5 [] =
           (Inr (Some (batch_result ''High''), ''model-a | reconciliation:model-b''),
            [extraction_args abc_config five_images [JStr ''img1'', JStr ''img2''] [1, 2] 5 ''model-a'',
             reconciliation_args abc_config five_images [JStr ''img1'', JStr ''img2''] [1, 2] 5
               (batch_result ''High'') ''model-b''])"
    using run [of "[JStr ''img1'', JStr ''img2'']" "''High''" "[1, 2]" "[]"] by simp
  show "run_with_completeness_retry abc_config env five_images [JStr ''img3'', JStr ''img4'']
           [3, 4] 5 log =
           (Inr (Some (batch_result ''Low''), ''model-a | reconciliation:model-b''),
            log @
            [extraction_args abc_config five_images [JStr ''img3'', JStr ''img4''] [3, 4] 5 ''model-a'',
             reconciliation_args abc_config five_images [JStr ''img3'', JStr ''img4''] [3, 4] 5
               (batch_result ''Low'') ''model-b''])"
    using run [of "[JStr ''img3'', JStr ''img4'']" "''Low''" "[3, 4]" log] by simp
  show "run_with_completeness_retry abc_config env five_images [JStr ''img5''] [5] 5 log =
           (Inr (Some (batch_result ''Low''), ''model-a | reconciliation:model-b''),
            log @
            [extraction_args abc_config five_images [JStr ''img5''] [5] 5 ''model-a'',
             reconciliation_args abc_config five_images [JStr ''img5''] [5] 5
               (batch_result ''Low'') ''model-b''])"
    using run [of "[JStr ''img5'']" "''Low''" "[5]" log] by simp
qed

lemma five_batch_loop:
  assumes env: "\<And>log a. (\<forall>e t. ca_prompt_override a \<noteq> Some (SynthesisPrompt e t)) \<Longrightarrow>
                  env log a =
                    Inr (batch_output (if ca_page_numbers a = [1, 2] then ''High'' else ''Low''))"
  shows "\<exists>log3. batch_loop abc_config env five_images (request_images five_images)
           (py_range 0 (length (request_images five_images))
              (OPENROUTER_PAGE_BATCH_SIZE abc_config)) [] [] [] =
           (Inr (BatchDone [batch_result ''High'', batch_result ''Low'', batch_result ''Low'']
                   [''model-a | reconciliation:model-b'', ''model-a | reconciliation:model-b'',
                    ''model-a | reconciliation:model-b'']), log3)"
proof -
  note fb = five_batches [where env = env, OF env]
  from batch_loop_three [OF abc_sizes(2) fb(1) fb(2) fb(3)] show ?thesis
    unfolding request_images_five five_def by blast
qed


lemma synthesis_env_batch_no_synthesis:
  "run_summary_recommendation_synthesis abc_config env_batch_no_synthesis five_images batch_merged
     log =
     ((batch_merged,
       Some ''model-a: HTTP 500 Internal Server Error | model-b: HTTP 500 Internal Server Error | model-c: HTTP 500 Internal Server Error''),
      log @ map (synthesis_args abc_config five_images batch_merged)
              [''model-a'', ''model-b'', ''model-c''])"
proof -
  let ?args = "synthesis_args abc_config five_images batch_merged"
  have d: "\<forall>i<length (active_provider_model_chain_for_mode abc_config).
             isl (outcome_at env_batch_no_synthesis ?args
                    (active_provider_model_chain_for_mode abc_config) log i)"
    by (simp add: chain_abc outcome_at_def try_body_def call_openrouter_model_def
        env_batch_no_synthesis_def synthesis_args_def Let_def)
  have e: "join '' | '' (chain_errors env_batch_no_synthesis 220 ?args
                          [''model-a'', ''model-b'', ''model-c''] log) =
             ''model-a: HTTP 500 Internal Server Error | model-b: HTTP 500 Internal Server Error | model-c: HTTP 500 Internal Server Error''"
    by (simp add: chain_errors_Cons chain_errors_Nil try_body_def call_openrouter_model_def
        env_batch_no_synthesis_def synthesis_args_def Let_def format_error_def) code_simp
  from run_synthesis_all_fail [OF d] e show ?thesis
    by (simp add: chain_abc)
qed

section \<open>The synthesis pass within the request\<close>

lemma append_missing_subset:
  "set (append_missing chain text_first) \<subseteq> set chain \<union> set text_first"
proof (induction chain arbitrary: text_first)
  case Nil
  then show ?case by simp
next
  case (Cons model chain)
  from Cons [of "if model \<notin> set text_first then text_first @ [model] else text_first"]
  show ?case
    by (auto split: if_splits)
qed

lemma chain_model_nonempty:
  assumes "model \<in> set (active_provider_model_chain_for_mode cfg)"
  shows "model \<noteq> []"
proof -
  have c: "m \<noteq> []" if "m \<in> set (active_provider_model_chain cfg)" for m
    using that by (auto simp: active_provider_model_chain_def Let_def strip_Nil)
  have "set (active_provider_model_chain_for_mode cfg) \<subseteq> set (active_provider_model_chain cfg)"
    using append_missing_subset [of "active_provider_model_chain cfg"
        "filter (\<lambda>model. contains (lower model) ''gemma'' \<or>
                   (\<not> contains (lower model) ''vl'' \<and> \<not> contains (lower model) ''vision''))
           (active_provider_model_chain cfg)"]
    by (auto simp: active_provider_model_chain_for_mode_def Let_def)
  with assms c show ?thesis
    by blast
qed

text \<open>What the request returns after the synthesis pass, for a result \<open>x\<close> and a trail
  \<open>t\<close> before the pass.\<close>

lemma synthesis_tail_all_fail:
  assumes ne: "active_provider_model_chain_for_mode cfg \<noteq> []"
    and fail: "\<forall>i<length (active_provider_model_chain_for_mode cfg).
                 isl (outcome_at env (synthesis_args cfg payload x)
                        (active_provider_model_chain_for_mode cfg) log i)"
  shows "(case run_summary_recommendation_synthesis cfg env payload x log of
            ((final, synth_meta), log2) \<Rightarrow>
              (Inr (Some final, with_synthesis t synth_meta), log2)) =
         (Inr (Some x,
               t @ '' | summary/reco:'' @
                 join '' | '' (chain_errors env 220 (synthesis_args cfg payload x)
                   (active_provider_model_chain_for_mode cfg) log)),
          log @ map (synthesis_args cfg payload x) (active_provider_model_chain_for_mode cfg))"
  using run_synthesis_all_fail [OF fail] ne chain_errors_nonempty [OF ne]
  by (simp add: with_synthesis_def)

lemma synthesis_tail_success:
  assumes d: "distinct (map biomarker_key (biomarkers x))"
    and k: "k < length (active_provider_model_chain_for_mode cfg)"
    and before: "\<forall>i<k. isl (outcome_at env (synthesis_args cfg payload x)
                   (active_provider_model_chain_for_mode cfg) log i)"
    and at: "outcome_at env (synthesis_args cfg payload x)
               (active_provider_model_chain_for_mode cfg) log k = Inr r"
  shows "(case run_summary_recommendation_synthesis cfg env payload x log of
            ((final, synth_meta), log2) \<Rightarrow>
              (Inr (Some final, with_synthesis t synth_meta), log2)) =
         (Inr (Some (x\<lparr>recommendations := recommendations r, summary := summary r,
                        disclaimer := disclaimer r\<rparr>),
               t @ '' | summary/reco:'' @ active_provider_model_chain_for_mode cfg ! k),
          log @ map (synthesis_args cfg payload x)
                  (take (Suc k) (active_provider_model_chain_for_mode cfg)))"
proof -
  from k have "active_provider_model_chain_for_mode cfg ! k \<noteq> []"
    by (intro chain_model_nonempty [of _ cfg]) simp
  with run_synthesis_success [OF d k before at] show ?thesis
    by (simp add: with_synthesis_def del: take_Suc)
qed

lemma synthesis_tail_biomarkers:
  assumes d: "distinct (map biomarker_key (biomarkers x))"
  shows "\<exists>final trail log2.
           (case run_summary_recommendation_synthesis cfg env payload x log of
              ((final, synth_meta), log2) \<Rightarrow>
                (Inr (Some final, with_synthesis t synth_meta), log2)) =
           (Inr (Some final, trail), log2) \<and>
           biomarkers final = biomarkers x"
proof -
  obtain final sm l2 where
    r: "run_summary_recommendation_synthesis cfg env payload x log = ((final, sm), l2)"
    by (metis prod.exhaust)
  from run_synthesis_biomarkers [OF d, of cfg env payload log] r
  have "biomarkers final = biomarkers x"
    by simp
  with r show ?thesis
    by simp
qed

lemma maybe_generate_single_synthesis:
  assumes guards: "active_provider_api_key cfg \<noteq> []"
      "\<not> (AI_OCR_ONLY_MODE cfg \<and>
          \<not> (strip (report_text cfg payload) \<noteq> [] \<or> extract_report_text_by_page payload \<noteq> []))"
      "\<not> (\<not> AI_OCR_ONLY_MODE cfg \<and>
          length (request_images payload) > OPENROUTER_PAGE_BATCH_SIZE cfg)"
    and imgs: "imgs = request_images payload"
    and pages: "pages = map int [1 ..< length imgs + 1]"
    and total_pages: "total_pages = int (length imgs)"
    and run: "run_with_completeness_retry cfg env payload imgs pages total_pages log =
                (Inr (Some n, meta0), log1)"
  shows "maybe_generate_with_openrouter cfg env payload log =
           (case run_summary_recommendation_synthesis cfg env payload n log1 of
              ((final, synth_meta), log2) \<Rightarrow>
                (Inr (Some final,
                      with_synthesis (provider_label cfg @ '' success via '' @ meta0) synth_meta),
                 log2))"
proof -
  from run have "run_with_completeness_retry cfg env payload (request_images payload)
          (map int [1 ..< length (request_images payload) + 1])
          (int (length (request_images payload))) log = (Inr (Some n, meta0), log1)"
    unfolding imgs pages total_pages .
  then show ?thesis
    unfolding maybe_generate_single [OF guards] by (simp del: upt_Suc)
qed

lemma maybe_generate_batches_synthesis:
  assumes guards: "active_provider_api_key cfg \<noteq> []" "\<not> AI_OCR_ONLY_MODE cfg"
      "length (request_images payload) > OPENROUTER_PAGE_BATCH_SIZE cfg"
    and loop: "batch_loop cfg env payload (request_images payload)
                 (py_range 0 (length (request_images payload)) (OPENROUTER_PAGE_BATCH_SIZE cfg))
                 [] [] log = (Inr (BatchDone chunks hits), log1)"
    and m: "merge_normalized_outputs chunks = Inr merged"
  shows "maybe_generate_with_openrouter cfg env payload log =
           (case run_summary_recommendation_synthesis cfg env payload merged log1 of
              ((final, synth_meta), log2) \<Rightarrow>
                (Inr (Some final,
                      with_synthesis
                        (provider_label cfg @ '' batch success (ordered pages) via '' @
                           join '' -> '' hits)
                        synth_meta), log2))"
  unfolding maybe_generate_batches [OF guards] loop by (simp add: m)

text \<open>
  Claim C3. The synthesis pass leaves the biomarkers of a result as they are, whatever
  the models answer, for a result whose biomarkers have distinct keys; and every result
  the pass is run on has: a merged result has, and so has the result of a batch. When a
  model of the synthesis chain succeeds, the first that does, the pass returns the result
  with its recommendations, summary and disclaimer replaced by those of the model's
  normalized output and nothing else changed, with the model's identifier. When every
  model fails, the pass returns the result unchanged, with the failures joined by
  \<open>" | "\<close>, which go to the trail after \<open>" | summary/reco:"\<close>; the pass returns a result in
  every case. And so does the request, \<open>maybe_generate_with_openrouter\<close>, on both of its
  paths, that of a single batch and that of several merged batches: once the batches have
  returned the result \<open>n\<close> (or the results that merge to \<open>merged\<close>), the request returns
  what the pass returns for it, with the biomarkers of \<open>n\<close> (of \<open>merged\<close>) whatever the
  synthesis models answer; when every synthesis model fails the request returns \<open>n\<close>
  (\<open>merged\<close>) itself, with the failures at the end of its trail; when one succeeds, the
  first that does, the request returns \<open>n\<close> (\<open>merged\<close>) with the three fields replaced and
  the model's identifier at the end of its trail.
\<close>

theorem synthesis_frame:
  "(distinct (map biomarker_key (biomarkers extracted)) \<longrightarrow>
      biomarkers (fst (fst (run_summary_recommendation_synthesis cfg env payload extracted log))) =
        biomarkers extracted) \<and>
   (distinct (map biomarker_key (biomarkers extracted)) \<and>
    k < length (active_provider_model_chain_for_mode cfg) \<and>
    (\<forall>i<k. isl (outcome_at env (synthesis_args cfg payload extracted)
                   (active_provider_model_chain_for_mode cfg) log i)) \<and>
    outcome_at env (synthesis_args cfg payload extracted)
      (active_provider_model_chain_for_mode cfg) log k = Inr r \<longrightarrow>
      run_summary_recommendation_synthesis cfg env payload extracted log =
        ((extracted\<lparr>recommendations := recommendations r, summary := summary r,
                    disclaimer := disclaimer r\<rparr>,
          Some (active_provider_model_chain_for_mode cfg ! k)),
         log @ map (synthesis_args cfg payload extracted)
                 (take (Suc k) (active_provider_model_chain_for_mode cfg)))) \<and>
   (active_provider_model_chain_for_mode cfg \<noteq> [] \<and>
    (\<forall>i<length (active_provider_model_chain_for_mode cfg).
        isl (outcome_at env (synthesis_args cfg payload extracted)
               (active_provider_model_chain_for_mode cfg) log i)) \<longrightarrow>
      run_summary_recommendation_synthesis cfg env payload extracted log =
        ((extracted,
          Some (join '' | '' (chain_errors env 220 (synthesis_args cfg payload extracted)
                  (active_provider_model_chain_for_mode cfg) log))),
         log @ map (synthesis_args cfg payload extracted)
                 (active_provider_model_chain_for_mode cfg)) \<and>
      with_synthesis meta
        (Some (join '' | '' (chain_errors env 220 (synthesis_args cfg payload extracted)
                 (active_provider_model_chain_for_mode cfg) log))) =
        meta @ '' | summary/reco:'' @
          join '' | '' (chain_errors env 220 (synthesis_args cfg payload extracted)
            (active_provider_model_chain_for_mode cfg) log)) \<and>
   (merge_normalized_outputs chunks = Inr merged \<longrightarrow>
      distinct (map biomarker_key (biomarkers merged))) \<and>
   (run_with_completeness_retry cfg env payload imgs pages total_pages log0 =
      (Inr (Some n, meta0), log1) \<longrightarrow>
      distinct (map biomarker_key (biomarkers n))) \<and>
   (active_provider_api_key cfg \<noteq> [] \<and>
    \<not> (AI_OCR_ONLY_MODE cfg \<and>
       \<not> (strip (report_text cfg payload) \<noteq> [] \<or> extract_report_text_by_page payload \<noteq> [])) \<and>
    \<not> (\<not> AI_OCR_ONLY_MODE cfg \<and>
       length (request_images payload) > OPENROUTER_PAGE_BATCH_SIZE cfg) \<and>
    imgs = request_images payload \<and> pages = map int [1 ..< length imgs + 1] \<and>
    total_pages = int (length imgs) \<and>
    run_with_completeness_retry cfg env payload imgs pages total_pages log0 =
      (Inr (Some n, meta0), log1) \<longrightarrow>
      maybe_generate_with_openrouter cfg env payload log0 =
        (case run_summary_recommendation_synthesis cfg env payload n log1 of
           ((final, synth_meta), log2) \<Rightarrow>
             (Inr (Some final, with_synthesis (provider_label cfg @ '' success via '' @ meta0) synth_meta), log2)) \<and>
      (\<exists>final trail log2.
         maybe_generate_with_openrouter cfg env payload log0 = (Inr (Some final, trail), log2) \<and>
         biomarkers final = biomarkers n)) \<and>
   (active_provider_api_key cfg \<noteq> [] \<and>
    \<not> (AI_OCR_ONLY_MODE cfg \<and>
       \<not> (strip (report_text cfg payload) \<noteq> [] \<or> extract_report_text_by_page payload \<noteq> [])) \<and>
    \<not> (\<not> AI_OCR_ONLY_MODE cfg \<and>
       length (request_images payload) > OPENROUTER_PAGE_BATCH_SIZE cfg) \<and>
    imgs = request_images payload \<and> pages = map int [1 ..< length imgs + 1] \<and>
    total_pages = int (length imgs) \<and>
    run_with_completeness_retry cfg env payload imgs pages total_pages log0 =
      (Inr (Some n, meta0), log1) \<and>
    active_provider_model_chain_for_mode cfg \<noteq> [] \<and>
    (\<forall>i<length (active_provider_model_chain_for_mode cfg).
        isl (outcome_at env (synthesis_args cfg payload n)
               (active_provider_model_chain_for_mode cfg) log1 i)) \<longrightarrow>
      maybe_generate_with_openrouter cfg env payload log0 =
        (Inr (Some n,
              provider_label cfg @ '' success via '' @ meta0 @ '' | summary/reco:'' @
                join '' | '' (chain_errors env 220 (synthesis_args cfg payload n)
                  (active_provider_model_chain_for_mode cfg) log1)),
         log1 @ map (synthesis_args cfg payload n) (active_provider_model_chain_for_mode cfg))) \<and>
   (active_provider_api_key cfg \<noteq> [] \<and>
    \<not> (AI_OCR_ONLY_MODE cfg \<and>
       \<not> (strip (report_text cfg payload) \<noteq> [] \<or> extract_report_text_by_page payload \<noteq> [])) \<and>
    \<not> (\<not> AI_OCR_ONLY_MODE cfg \<and>
       length (request_images payload) > OPENROUTER_PAGE_BATCH_SIZE cfg) \<and>
    imgs = request_images payload \<and> pages = map int [1 ..< length imgs + 1] \<and>
    total_pages = int (length imgs) \<and>
    run_with_completeness_retry cfg env payload imgs pages total_pages log0 =
      (Inr (Some n, meta0), log1) \<and>
    k < length (active_provider_model_chain_for_mode cfg) \<and>
    (\<forall>i<k. isl (outcome_at env (synthesis_args cfg payload n)
                   (active_provider_model_chain_for_mode cfg) log1 i)) \<and>
    outcome_at env (synthesis_args cfg payload n)
      (active_provider_model_chain_for_mode cfg) log1 k = Inr r \<longrightarrow>
      maybe_generate_with_openrouter cfg env payload log0 =
        (Inr (Some (n\<lparr>recommendations := recommendations r, summary := summary r,
                       disclaimer := disclaimer r\<rparr>),
              provider_label cfg @ '' success via '' @ meta0 @ '' | summary/reco:'' @ active_provider_model_chain_for_mode cfg ! k),
         log1 @ map (synthesis_args cfg payload n)
                  (take (Suc k) (active_provider_model_chain_for_mode cfg)))) \<and>
   (active_provider_api_key cfg \<noteq> [] \<and> \<not> AI_OCR_ONLY_MODE cfg \<and>
    length (request_images payload) > OPENROUTER_PAGE_BATCH_SIZE cfg \<and>
    batch_loop cfg env payload (request_images payload)
      (py_range 0 (length (request_images payload)) (OPENROUTER_PAGE_BATCH_SIZE cfg))
      [] [] log0 = (Inr (BatchDone chunks hits), log1) \<and>
    merge_normalized_outputs chunks = Inr merged \<longrightarrow>
      maybe_generate_with_openrouter cfg env payload log0 =
        (case run_summary_recommendation_synthesis cfg env payload merged log1 of
           ((final, synth_meta), log2) \<Rightarrow>
             (Inr (Some final, with_synthesis (provider_label cfg @ '' batch success (ordered pages) via '' @ join '' -> '' hits) synth_meta), log2)) \<and>
      (\<exists>final trail log2.
         maybe_generate_with_openrouter cfg env payload log0 = (Inr (Some final, trail), log2) \<and>
         biomarkers final = biomarkers merged)) \<and>
   (active_provider_api_key cfg \<noteq> [] \<and> \<not> AI_OCR_ONLY_MODE cfg \<and>
    length (request_images payload) > OPENROUTER_PAGE_BATCH_SIZE cfg \<and>
    batch_loop cfg env payload (request_images payload)
      (py_range 0 (length (request_images payload)) (OPENROUTER_PAGE_BATCH_SIZE cfg))
      [] [] log0 = (Inr (BatchDone chunks hits), log1) \<and>
    merge_normalized_outputs chunks = Inr merged \<and>
    active_provider_model_chain_for_mode cfg \<noteq> [] \<and>
    (\<forall>i<length (active_provider_model_chain_for_mode cfg).
        isl (outcome_at env (synthesis_args cfg payload merged)
               (active_provider_model_chain_for_mode cfg) log1 i)) \<longrightarrow>
      maybe_generate_with_openrouter cfg env payload log0 =
        (Inr (Some merged,
              provider_label cfg @ '' batch success (ordered pages) via '' @ join '' -> '' hits @ '' | summary/reco:'' @
                join '' | '' (chain_errors env 220 (synthesis_args cfg payload merged)
                  (active_provider_model_chain_for_mode cfg) log1)),
         log1 @ map (synthesis_args cfg payload merged) (active_provider_model_chain_for_mode cfg))) \<and>
   (active_provider_api_key cfg \<noteq> [] \<and> \<not> AI_OCR_ONLY_MODE cfg \<and>
    length (request_images payload) > OPENROUTER_PAGE_BATCH_SIZE cfg \<and>
    batch_loop cfg env payload (request_images payload)
      (py_range 0 (length (request_images payload)) (OPENROUTER_PAGE_BATCH_SIZE cfg))
      [] [] log0 = (Inr (BatchDone chunks hits), log1) \<and>
    merge_normalized_outputs chunks = Inr merged \<and>
    k < length (active_provider_model_chain_for_mode cfg) \<and>
    (\<forall>i<k. isl (outcome_at env (synthesis_args cfg payload merged)
                   (active_provider_model_chain_for_mode cfg) log1 i)) \<and>
    outcome_at env (synthesis_args cfg payload merged)
      (active_provider_model_chain_for_mode cfg) log1 k = Inr r \<longrightarrow>
      maybe_generate_with_openrouter cfg env payload log0 =
        (Inr (Some (merged\<lparr>recommendations := recommendations r, summary := summary r,
                       disclaimer := disclaimer r\<rparr>),
              provider_label cfg @ '' batch success (ordered pages) via '' @ join '' -> '' hits @ '' | summary/reco:'' @ active_provider_model_chain_for_mode cfg ! k),
         log1 @ map (synthesis_args cfg payload merged)
                  (take (Suc k) (active_provider_model_chain_for_mode cfg))))"
proof (intro conjI impI)
  assume "distinct (map biomarker_key (biomarkers extracted))"
  then show "biomarkers (fst (fst (run_summary_recommendation_synthesis cfg env payload extracted log))) =
        biomarkers extracted"
    by (rule run_synthesis_biomarkers)
next
  assume "distinct (map biomarker_key (biomarkers extracted)) \<and>
    k < length (active_provider_model_chain_for_mode cfg) \<and>
    (\<forall>i<k. isl (outcome_at env (synthesis_args cfg payload extracted)
                   (active_provider_model_chain_for_mode cfg) log i)) \<and>
    outcome_at env (synthesis_args cfg payload extracted)
      (active_provider_model_chain_for_mode cfg) log k = Inr r"
  then show "run_summary_recommendation_synthesis cfg env payload extracted log =
        ((extracted\<lparr>recommendations := recommendations r, summary := summary r,
                    disclaimer := disclaimer r\<rparr>,
          Some (active_provider_model_chain_for_mode cfg ! k)),
         log @ map (synthesis_args cfg payload extracted)
                 (take (Suc k) (active_provider_model_chain_for_mode cfg)))"
    using run_synthesis_success [of extracted k cfg env payload log r] by blast
next
  assume a: "active_provider_model_chain_for_mode cfg \<noteq> [] \<and>
    (\<forall>i<length (active_provider_model_chain_for_mode cfg).
        isl (outcome_at env (synthesis_args cfg payload extracted)
               (active_provider_model_chain_for_mode cfg) log i))"
  then show "run_summary_recommendation_synthesis cfg env payload extracted log =
        ((extracted,
          Some (join '' | '' (chain_errors env 220 (synthesis_args cfg payload extracted)
                  (active_provider_model_chain_for_mode cfg) log))),
         log @ map (synthesis_args cfg payload extracted)
                 (active_provider_model_chain_for_mode cfg))"
    using run_synthesis_all_fail [of cfg env payload extracted log] by simp
  from a show "with_synthesis meta
        (Some (join '' | '' (chain_errors env 220 (synthesis_args cfg payload extracted)
                 (active_provider_model_chain_for_mode cfg) log))) =
        meta @ '' | summary/reco:'' @
          join '' | '' (chain_errors env 220 (synthesis_args cfg payload extracted)
            (active_provider_model_chain_for_mode cfg) log)"
    by (simp add: with_synthesis_def chain_errors_nonempty)
next
  assume "merge_normalized_outputs chunks = Inr merged"
  then show "distinct (map biomarker_key (biomarkers merged))"
    by (rule merge_normalized_outputs_distinct)
next
  assume "run_with_completeness_retry cfg env payload imgs pages total_pages log0 =
      (Inr (Some n, meta0), log1)"
  then show "distinct (map biomarker_key (biomarkers n))"
    by (rule run_with_completeness_retry_distinct)
next
  assume a: "active_provider_api_key cfg \<noteq> [] \<and>
    \<not> (AI_OCR_ONLY_MODE cfg \<and>
       \<not> (strip (report_text cfg payload) \<noteq> [] \<or> extract_report_text_by_page payload \<noteq> [])) \<and>
    \<not> (\<not> AI_OCR_ONLY_MODE cfg \<and>
       length (request_images payload) > OPENROUTER_PAGE_BATCH_SIZE cfg) \<and>
    imgs = request_images payload \<and> pages = map int [1 ..< length imgs + 1] \<and>
    total_pages = int (length imgs) \<and>
    run_with_completeness_retry cfg env payload imgs pages total_pages log0 =
      (Inr (Some n, meta0), log1)"
  then have t: "maybe_generate_with_openrouter cfg env payload log0 =
        (case run_summary_recommendation_synthesis cfg env payload n log1 of
           ((final, synth_meta), log2) \<Rightarrow>
             (Inr (Some final, with_synthesis (provider_label cfg @ '' success via '' @ meta0) synth_meta), log2))"
    using maybe_generate_single_synthesis [of cfg payload imgs pages total_pages env log0 n meta0 log1] by blast
  from a have d: "distinct (map biomarker_key (biomarkers n))"
    using run_with_completeness_retry_distinct [of cfg env payload imgs pages total_pages log0 n meta0 log1] by blast
  from t show "maybe_generate_with_openrouter cfg env payload log0 =
        (case run_summary_recommendation_synthesis cfg env payload n log1 of
           ((final, synth_meta), log2) \<Rightarrow>
             (Inr (Some final, with_synthesis (provider_label cfg @ '' success via '' @ meta0) synth_meta), log2))" .
  from synthesis_tail_biomarkers [OF d, where cfg = cfg and env = env and payload = payload and
         log = log1 and t = "provider_label cfg @ '' success via '' @ meta0"]
  show "(\<exists>final trail log2.
         maybe_generate_with_openrouter cfg env payload log0 = (Inr (Some final, trail), log2) \<and>
         biomarkers final = biomarkers n)"
    unfolding t .
next
  assume a: "active_provider_api_key cfg \<noteq> [] \<and>
    \<not> (AI_OCR_ONLY_MODE cfg \<and>
       \<not> (strip (report_text cfg payload) \<noteq> [] \<or> extract_report_text_by_page payload \<noteq> [])) \<and>
    \<not> (\<not> AI_OCR_ONLY_MODE cfg \<and>
       length (request_images payload) > OPENROUTER_PAGE_BATCH_SIZE cfg) \<and>
    imgs = request_images payload \<and> pages = map int [1 ..< length imgs + 1] \<and>
    total_pages = int (length imgs) \<and>
    run_with_completeness_retry cfg env payload imgs pages total_pages log0 =
      (Inr (Some n, meta0), log1) \<and>
    active_provider_model_chain_for_mode cfg \<noteq> [] \<and>
    (\<forall>i<length (active_provider_model_chain_for_mode cfg).
        isl (outcome_at env (synthesis_args cfg payload n)
               (active_provider_model_chain_for_mode cfg) log1 i))"
  then have t: "maybe_generate_with_openrouter cfg env payload log0 =
        (case run_summary_recommendation_synthesis cfg env payload n log1 of
           ((final, synth_meta), log2) \<Rightarrow>
             (Inr (Some final, with_synthesis (provider_label cfg @ '' success via '' @ meta0) synth_meta), log2))"
    using maybe_generate_single_synthesis [of cfg payload imgs pages total_pages env log0 n meta0 log1] by blast
  from a have ne: "active_provider_model_chain_for_mode cfg \<noteq> []"
    by blast
  from a have f: "\<forall>i<length (active_provider_model_chain_for_mode cfg).
        isl (outcome_at env (synthesis_args cfg payload n)
               (active_provider_model_chain_for_mode cfg) log1 i)"
    by blast
  show "maybe_generate_with_openrouter cfg env payload log0 =
        (Inr (Some n,
              provider_label cfg @ '' success via '' @ meta0 @ '' | summary/reco:'' @
                join '' | '' (chain_errors env 220 (synthesis_args cfg payload n)
                  (active_provider_model_chain_for_mode cfg) log1)),
         log1 @ map (synthesis_args cfg payload n) (active_provider_model_chain_for_mode cfg))"
    unfolding t synthesis_tail_all_fail [OF ne f] by simp
next
  assume a: "active_provider_api_key cfg \<noteq> [] \<and>
    \<not> (AI_OCR_ONLY_MODE cfg \<and>
       \<not> (strip (report_text cfg payload) \<noteq> [] \<or> extract_report_text_by_page payload \<noteq> [])) \<and>
    \<not> (\<not> AI_OCR_ONLY_MODE cfg \<and>
       length (request_images payload) > OPENROUTER_PAGE_BATCH_SIZE cfg) \<and>
    imgs = request_images payload \<and> pages = map int [1 ..< length imgs + 1] \<and>
    total_pages = int (length imgs) \<and>
    run_with_completeness_retry cfg env payload imgs pages total_pages log0 =
      (Inr (Some n, meta0), log1) \<and>
    k < length (active_provider_model_chain_for_mode cfg) \<and>
    (\<forall>i<k. isl (outcome_at env (synthesis_args cfg payload n)
                   (active_provider_model_chain_for_mode cfg) log1 i)) \<and>
    outcome_at env (synthesis_args cfg payload n)
      (active_provider_model_chain_for_mode cfg) log1 k = Inr r"
  then have t: "maybe_generate_with_openrouter cfg env payload log0 =
        (case run_summary_recommendation_synthesis cfg env payload n log1 of
           ((final, synth_meta), log2) \<Rightarrow>
             (Inr (Some final, with_synthesis (provider_label cfg @ '' success via '' @ meta0) synth_meta), log2))"
    using maybe_generate_single_synthesis [of cfg payload imgs pages total_pages env log0 n meta0 log1] by blast
  from a have d: "distinct (map biomarker_key (biomarkers n))"
    using run_with_completeness_retry_distinct [of cfg env payload imgs pages total_pages log0 n meta0 log1] by blast
  from a have k: "k < length (active_provider_model_chain_for_mode cfg)"
    by blast
  from a have b: "\<forall>i<k. isl (outcome_at env (synthesis_args cfg payload n)
                   (active_provider_model_chain_for_mode cfg) log1 i)"
    by blast
  from a have r: "outcome_at env (synthesis_args cfg payload n)
      (active_provider_model_chain_for_mode cfg) log1 k = Inr r"
    by blast
  show "maybe_generate_with_openrouter cfg env payload log0 =
        (Inr (Some (n\<lparr>recommendations := recommendations r, summary := summary r,
                       disclaimer := disclaimer r\<rparr>),
              provider_label cfg @ '' success via '' @ meta0 @ '' | summary/reco:'' @ active_provider_model_chain_for_mode cfg ! k),
         log1 @ map (synthesis_args cfg payload n)
                  (take (Suc k) (active_provider_model_chain_for_mode cfg)))"
    unfolding t synthesis_tail_success [OF d k b r] by simp
next
  assume a: "active_provider_api_key cfg \<noteq> [] \<and> \<not> AI_OCR_ONLY_MODE cfg \<and>
    length (request_images payload) > OPENROUTER_PAGE_BATCH_SIZE cfg \<and>
    batch_loop cfg env payload (request_images payload)
      (py_range 0 (length (request_images payload)) (OPENROUTER_PAGE_BATCH_SIZE cfg))
      [] [] log0 = (Inr (BatchDone chunks hits), log1) \<and>
    merge_normalized_outputs chunks = Inr merged"
  then have t: "maybe_generate_with_openrouter cfg env payload log0 =
        (case run_summary_recommendation_synthesis cfg env payload merged log1 of
           ((final, synth_meta), log2) \<Rightarrow>
             (Inr (Some final, with_synthesis (provider_label cfg @ '' batch success (ordered pages) via '' @ join '' -> '' hits) synth_meta), log2))"
    using maybe_generate_batches_synthesis [of cfg payload env log0 chunks hits log1 merged] by blast
  from a have d: "distinct (map biomarker_key (biomarkers merged))"
    using merge_normalized_outputs_distinct [of chunks merged] by blast
  from t show "maybe_generate_with_openrouter cfg env payload log0 =
        (case run_summary_recommendation_synthesis cfg env payload merged log1 of
           ((final, synth_meta), log2) \<Rightarrow>
             (Inr (Some final, with_synthesis (provider_label cfg @ '' batch success (ordered pages) via '' @ join '' -> '' hits) synth_meta), log2))" .
  from synthesis_tail_biomarkers [OF d, where cfg = cfg and env = env and payload = payload and
         log = log1 and t = "provider_label cfg @ '' batch success (ordered pages) via '' @ join '' -> '' hits"]
  show "(\<exists>final trail log2.
         maybe_generate_with_openrouter cfg env payload log0 = (Inr (Some final, trail), log2) \<and>
         biomarkers final = biomarkers merged)"
    unfolding t .
next
  assume a: "active_provider_api_key cfg \<noteq> [] \<and> \<not> AI_OCR_ONLY_MODE cfg \<and>
    length (request_images payload) > OPENROUTER_PAGE_BATCH_SIZE cfg \<and>
    batch_loop cfg env payload (request_images payload)
      (py_range 0 (length (request_images payload)) (OPENROUTER_PAGE_BATCH_SIZE cfg))
      [] [] log0 = (Inr (BatchDone chunks hits), log1) \<and>
    merge_normalized_outputs chunks = Inr merged \<and>
    active_provider_model_chain_for_mode cfg \<noteq> [] \<and>
    (\<forall>i<length (active_provider_model_chain_for_mode cfg).
        isl (outcome_at env (synthesis_args cfg payload merged)
               (active_provider_model_chain_for_mode cfg) log1 i))"
  then have t: "maybe_generate_with_openrouter cfg env payload log0 =
        (case run_summary_recommendation_synthesis cfg env payload merged log1 of
           ((final, synth_meta), log2) \<Rightarrow>
             (Inr (Some final, with_synthesis (provider_label cfg @ '' batch success (ordered pages) via '' @ join '' -> '' hits) synth_meta), log2))"
    using maybe_generate_batches_synthesis [of cfg payload env log0 chunks hits log1 merged] by blast
  from a have ne: "active_provider_model_chain_for_mode cfg \<noteq> []"
    by blast
  from a have f: "\<forall>i<length (active_provider_model_chain_for_mode cfg).
        isl (outcome_at env (synthesis_args cfg payload merged)
               (active_provider_model_chain_for_mode cfg) log1 i)"
    by blast
  show "maybe_generate_with_openrouter cfg env payload log0 =
        (Inr (Some merged,
              provider_label cfg @ '' batch success (ordered pages) via '' @ join '' -> '' hits @ '' | summary/reco:'' @
                join '' | '' (chain_errors env 220 (synthesis_args cfg payload merged)
                  (active_provider_model_chain_for_mode cfg) log1)),
         log1 @ map (synthesis_args cfg payload merged) (active_provider_model_chain_for_mode cfg))"
    unfolding t synthesis_tail_all_fail [OF ne f] by simp
next
  assume a: "active_provider_api_key cfg \<noteq> [] \<and> \<not> AI_OCR_ONLY_MODE cfg \<and>
    length (request_images payload) > OPENROUTER_PAGE_BATCH_SIZE cfg \<and>
    batch_loop cfg env payload (request_images payload)
      (py_range 0 (length (request_images payload)) (OPENROUTER_PAGE_BATCH_SIZE cfg))
      [] [] log0 = (Inr (BatchDone chunks hits), log1) \<and>
    merge_normalized_outputs chunks = Inr merged \<and>
    k < length (active_provider_model_chain_for_mode cfg) \<and>
    (\<forall>i<k. isl (outcome_at env (synthesis_args cfg payload merged)
                   (active_provider_model_chain_for_mode cfg) log1 i)) \<and>
    outcome_at env (synthesis_args cfg payload merged)
      (active_provider_model_chain_for_mode cfg) log1 k = Inr r"
  then have t: "maybe_generate_with_openrouter cfg env payload log0 =
        (case run_summary_recommendation_synthesis cfg env payload merged log1 of
           ((final, synth_meta), log2) \<Rightarrow>
             (Inr (Some final, with_synthesis (provider_label cfg @ '' batch success (ordered pages) via '' @ join '' -> '' hits) synth_meta), log2))"
    using maybe_generate_batches_synthesis [of cfg payload env log0 chunks hits log1 merged] by blast
  from a have d: "distinct (map biomarker_key (biomarkers merged))"
    using merge_normalized_outputs_distinct [of chunks merged] by blast
  from a have k: "k < length (active_provider_model_chain_for_mode cfg)"
    by blast
  from a have b: "\<forall>i<k. isl (outcome_at env (synthesis_args cfg payload merged)
                   (active_provider_model_chain_for_mode cfg) log1 i)"
    by blast
  from a have r: "outcome_at env (synthesis_args cfg payload merged)
      (active_provider_model_chain_for_mode cfg) log1 k = Inr r"
    by blast
  show "maybe_generate_with_openrouter cfg env payload log0 =
        (Inr (Some (merged\<lparr>recommendations := recommendations r, summary := summary r,
                       disclaimer := disclaimer r\<rparr>),
              provider_label cfg @ '' batch success (ordered pages) via '' @ join '' -> '' hits @ '' | summary/reco:'' @ active_provider_model_chain_for_mode cfg ! k),
         log1 @ map (synthesis_args cfg payload merged)
                  (take (Suc k) (active_provider_model_chain_for_mode cfg)))"
    unfolding t synthesis_tail_success [OF d k b r] by simp
qed

text \<open>The synthesis chain \<open>[model-a, model-b, model-c]\<close>. The pass alone, on a result of
  three biomarkers: with \<open>model-a\<close> down and \<open>model-b\<close> up, and with every synthesis call
  failing. A request of one image whose extraction has two biomarkers: when every
  synthesis call fails the request returns the extraction, and when the synthesis is
  answered with three biomarkers, no recommendation and another summary, the request
  returns the two biomarkers of the extraction with the recommendations and the summary
  of the answer. A request of five images in three batches: the merged result when every
  synthesis call fails, and the merged biomarkers with the summary of the answer when
  the synthesis succeeds.\<close>

theorem synthesis_frame_witness:
  "distinct (map biomarker_key (biomarkers three_biomarkers_result)) \<and>
   biomarkers (fst (fst (run_summary_recommendation_synthesis abc_config env_a_down one_image
                           three_biomarkers_result []))) =
     biomarkers three_biomarkers_result \<and>
   run_summary_recommendation_synthesis abc_config env_a_down one_image three_biomarkers_result [] =
     ((three_biomarkers_result\<lparr>recommendations := recommendations mock_result,
                                summary := summary mock_result,
                                disclaimer := disclaimer mock_result\<rparr>,
       Some ''model-b''),
      map (synthesis_args abc_config one_image three_biomarkers_result) [''model-a'', ''model-b'']) \<and>
   run_summary_recommendation_synthesis abc_config env_passes_down one_image
     three_biomarkers_result [] =
     ((three_biomarkers_result,
       Some ''model-a: HTTP 500 Internal Server Error | model-b: HTTP 500 Internal Server Error | model-c: HTTP 500 Internal Server Error''),
      map (synthesis_args abc_config one_image three_biomarkers_result)
        [''model-a'', ''model-b'', ''model-c'']) \<and>
   merge_normalized_outputs [mock_result, three_biomarkers_result] =
     Inr (projr (merge_normalized_outputs [mock_result, three_biomarkers_result])) \<and>
   distinct (map biomarker_key
     (biomarkers (projr (merge_normalized_outputs [mock_result, three_biomarkers_result])))) \<and>
   distinct (map biomarker_key (biomarkers mock_result)) \<and>
   run_with_completeness_retry abc_config env_passes_down one_image [JStr ''img1''] [1] 1 [] =
     (Inr (Some mock_result,
           ''model-a | reconciliation:model-b: HTTP 500 Internal Server Error | model-c: HTTP 500 Internal Server Error | model-a: HTTP 500 Internal Server Error''),
      extraction_args abc_config one_image [JStr ''img1''] [1] 1 ''model-a'' #
      map (reconciliation_args abc_config one_image [JStr ''img1''] [1] 1 mock_result)
        [''model-b'', ''model-c'', ''model-a'']) \<and>
   maybe_generate_with_openrouter abc_config env_passes_down one_image [] =
     (Inr (Some mock_result,
           ''OpenRouter success via model-a | reconciliation:model-b: HTTP 500 Internal Server Error | model-c: HTTP 500 Internal Server Error | model-a: HTTP 500 Internal Server Error | summary/reco:model-a: HTTP 500 Internal Server Error | model-b: HTTP 500 Internal Server Error | model-c: HTTP 500 Internal Server Error''),
      (extraction_args abc_config one_image [JStr ''img1''] [1] 1 ''model-a'' #
       map (reconciliation_args abc_config one_image [JStr ''img1''] [1] 1 mock_result)
         [''model-b'', ''model-c'', ''model-a'']) @
      map (synthesis_args abc_config one_image mock_result) [''model-a'', ''model-b'', ''model-c'']) \<and>
   run_with_completeness_retry abc_config env_synthesis_three one_image [JStr ''img1''] [1] 1 [] =
     (Inr (Some mock_result, ''model-a | reconciliation:model-b''),
      [extraction_args abc_config one_image [JStr ''img1''] [1] 1 ''model-a'',
       reconciliation_args abc_config one_image [JStr ''img1''] [1] 1 mock_result ''model-b'']) \<and>
   maybe_generate_with_openrouter abc_config env_synthesis_three one_image [] =
     (Inr (Some (mock_result\<lparr>recommendations := [],
                              summary := ''Three markers were extracted.''\<rparr>),
           ''OpenRouter success via model-a | reconciliation:model-b | summary/reco:model-a''),
      [extraction_args abc_config one_image [JStr ''img1''] [1] 1 ''model-a'',
       reconciliation_args abc_config one_image [JStr ''img1''] [1] 1 mock_result ''model-b'',
       synthesis_args abc_config one_image mock_result ''model-a'']) \<and>
   (\<exists>final trail log2.
      maybe_generate_with_openrouter abc_config env_synthesis_three one_image [] =
        (Inr (Some final, trail), log2) \<and>
      biomarkers final = biomarkers mock_result) \<and>
   length (biomarkers mock_result) = 2 \<and>
   length (biomarkers three_biomarkers_result) = 3 \<and>
   fst (maybe_generate_with_openrouter abc_config env_batch_no_synthesis five_images []) =
     Inr (Some batch_merged,
          ''OpenRouter batch success (ordered pages) via model-a | reconciliation:model-b -> model-a | reconciliation:model-b -> model-a | reconciliation:model-b | summary/reco:model-a: HTTP 500 Internal Server Error | model-b: HTTP 500 Internal Server Error | model-c: HTTP 500 Internal Server Error'') \<and>
   fst (maybe_generate_with_openrouter abc_config env_batch five_images []) =
     Inr (Some (batch_merged\<lparr>summary := ''Batch summary.''\<rparr>),
          ''OpenRouter batch success (ordered pages) via model-a | reconciliation:model-b -> model-a | reconciliation:model-b -> model-a | reconciliation:model-b | summary/reco:model-a'') \<and>
   summary batch_merged = ''Analyzed report pages in order across 3 batch(es). Batch summary.''"
proof -
  let ?E = three_biomarkers_result
  let ?M = mock_result
  let ?I = "[JStr ''img1'']"
  let ?args = "synthesis_args abc_config one_image ?E"
  let ?e = "extraction_args abc_config one_image ?I [1] 1 ''model-a''"
  let ?argsm = "reconciliation_args abc_config one_image ?I [1] 1 ?M"
  let ?sargs = "synthesis_args abc_config one_image ?M"
  let ?mp = "''model-a | reconciliation:model-b: HTTP 500 Internal Server Error | model-c: HTTP 500 Internal Server Error | model-a: HTTP 500 Internal Server Error''"
  let ?ok = "''model-a | reconciliation:model-b''"
  let ?log2 = "?e # map ?argsm [''model-b'', ''model-c'', ''model-a'']"
  let ?chunks = "[batch_result ''High'', batch_result ''Low'', batch_result ''Low'']"
  have h: "distinct (map biomarker_key (biomarkers ?E))"
    by code_simp
  have o0: "isl (outcome_at env_a_down ?args [''model-a'', ''model-b'', ''model-c''] [] 0)"
    by (simp add: outcome_at_def try_body_def call_openrouter_model_def env_a_down_def
        synthesis_args_def Let_def)
  have o1: "outcome_at env_a_down ?args [''model-a'', ''model-b'', ''model-c''] [] 1 = Inr mock_result"
    by (simp add: outcome_at_def try_body_def call_openrouter_model_def env_a_down_def
        synthesis_args_def Let_def normalize_mock)
  have d: "\<forall>i<3. isl (outcome_at env_passes_down ?args [''model-a'', ''model-b'', ''model-c''] [] i)"
    by (simp add: outcome_at_def try_body_def call_openrouter_model_def env_passes_down_def
        synthesis_args_def Let_def)
  have e: "join '' | '' (chain_errors env_passes_down 220 ?args
                          [''model-a'', ''model-b'', ''model-c''] []) =
             ''model-a: HTTP 500 Internal Server Error | model-b: HTTP 500 Internal Server Error | model-c: HTTP 500 Internal Server Error''"
    by (simp add: chain_errors_Cons chain_errors_Nil try_body_def call_openrouter_model_def
        env_passes_down_def synthesis_args_def Let_def format_error_def) code_simp
  have m: "merge_normalized_outputs [?M, ?E] = Inr (projr (merge_normalized_outputs [?M, ?E]))"
    by (simp add: merge_normalized_outputs_def)
  note pd = run_with_completeness_retry_passes_down
  from synthesis_frame [of ?E abc_config env_a_down one_image "[]" 1 ?M "[]" "[?M, ?E]"
         "projr (merge_normalized_outputs [?M, ?E])" ?I "[1]" 1 "[]" ?M ?mp ?log2 "[]",
         THEN conjunct1] h
  have a: "biomarkers (fst (fst (run_summary_recommendation_synthesis abc_config env_a_down
                                   one_image ?E []))) = biomarkers ?E"
    by blast
  from synthesis_frame [of ?E abc_config env_a_down one_image "[]" 1 ?M "[]" "[?M, ?E]"
         "projr (merge_normalized_outputs [?M, ?E])" ?I "[1]" 1 "[]" ?M ?mp ?log2 "[]",
         THEN conjunct2, THEN conjunct1] h chain_abc o0 o1
  have b: "run_summary_recommendation_synthesis abc_config env_a_down one_image ?E [] =
     ((?E\<lparr>recommendations := recommendations mock_result, summary := summary mock_result,
            disclaimer := disclaimer mock_result\<rparr>, Some ''model-b''),
      map ?args [''model-a'', ''model-b''])"
    by simp
  from synthesis_frame [of ?E abc_config env_passes_down one_image "[]" 1 ?M "[]" "[?M, ?E]"
         "projr (merge_normalized_outputs [?M, ?E])" ?I "[1]" 1 "[]" ?M ?mp ?log2 "[]",
         THEN conjunct2, THEN conjunct2, THEN conjunct1] chain_abc d e
  have c: "run_summary_recommendation_synthesis abc_config env_passes_down one_image ?E [] =
     ((?E, Some ''model-a: HTTP 500 Internal Server Error | model-b: HTTP 500 Internal Server Error | model-c: HTTP 500 Internal Server Error''),
      map ?args [''model-a'', ''model-b'', ''model-c''])"
    by simp
  from synthesis_frame [of ?E abc_config env_passes_down one_image "[]" 1 ?M "[]" "[?M, ?E]"
         "projr (merge_normalized_outputs [?M, ?E])" ?I "[1]" 1 "[]" ?M ?mp ?log2 "[]",
         THEN conjunct2, THEN conjunct2, THEN conjunct2, THEN conjunct1] m
  have f: "distinct (map biomarker_key
             (biomarkers (projr (merge_normalized_outputs [?M, ?E]))))"
    by blast
  from synthesis_frame [of ?E abc_config env_passes_down one_image "[]" 1 ?M "[]" "[?M, ?E]"
         "projr (merge_normalized_outputs [?M, ?E])" ?I "[1]" 1 "[]" ?M ?mp ?log2 "[]",
         THEN conjunct2, THEN conjunct2, THEN conjunct2, THEN conjunct2, THEN conjunct1] pd
  have g: "distinct (map biomarker_key (biomarkers mock_result))"
    by blast
  have ds: "\<forall>i<3. isl (outcome_at env_passes_down ?sargs [''model-a'', ''model-b'', ''model-c'']
                         ?log2 i)"
    by (simp add: outcome_at_def try_body_def call_openrouter_model_def
        env_passes_down_def synthesis_args_def Let_def)
  have es: "join '' | '' (chain_errors env_passes_down 220 ?sargs
                            [''model-a'', ''model-b'', ''model-c''] ?log2) =
             ''model-a: HTTP 500 Internal Server Error | model-b: HTTP 500 Internal Server Error | model-c: HTTP 500 Internal Server Error''"
    by (simp add: chain_errors_Cons chain_errors_Nil try_body_def call_openrouter_model_def
        env_passes_down_def synthesis_args_def Let_def format_error_def) code_simp
  from synthesis_frame [of ?E abc_config env_passes_down one_image "[]" 1 ?M "[]" "[?M, ?E]"
         "projr (merge_normalized_outputs [?M, ?E])" ?I "[1]" 1 "[]" ?M ?mp ?log2 "[]",
         THEN conjunct2, THEN conjunct2, THEN conjunct2, THEN conjunct2, THEN conjunct2,
         THEN conjunct2, THEN conjunct1]
       abc_sizes(3) one_image_guards request_images_one one_image_pages pd chain_abc ds es
  have sf: "maybe_generate_with_openrouter abc_config env_passes_down one_image [] =
     (Inr (Some mock_result,
           ''OpenRouter success via model-a | reconciliation:model-b: HTTP 500 Internal Server Error | model-c: HTTP 500 Internal Server Error | model-a: HTTP 500 Internal Server Error | summary/reco:model-a: HTTP 500 Internal Server Error | model-b: HTTP 500 Internal Server Error | model-c: HTTP 500 Internal Server Error''),
      ?log2 @ map ?sargs [''model-a'', ''model-b'', ''model-c''])"
    by (simp add: abc_sizes)
  have run3: "run_model_chain_for_images abc_config env_synthesis_three one_image ?I [1] 1 [] =
     ((Some mock_result, ''model-a''), [?e])"
    by (simp add: run_model_chain_for_images_def chain_abc try_body_def call_openrouter_model_def
        env_synthesis_three_def extraction_args_def Let_def normalize_mock)
  have direct: "length ?I \<le> 1 \<or> \<not> is_suspiciously_incomplete abc_config mock_result (length ?I)"
    by simp
  have k0: "0 < length (recon_models abc_config)"
    by (simp add: recon_models_abc)
  have b0: "\<forall>i<0. isl (outcome_at env_synthesis_three ?argsm (recon_models abc_config) [?e] i)"
    by simp
  have o3: "outcome_at env_synthesis_three ?argsm (recon_models abc_config) [?e] 0 = Inr mock_result"
    by (simp add: recon_models_abc outcome_at_def try_body_def call_openrouter_model_def
        env_synthesis_three_def reconciliation_args_def Let_def normalize_mock)
  from run_with_completeness_retry_recon_success [OF run3 direct abc_flags k0 b0 o3]
  have rs: "run_with_completeness_retry abc_config env_synthesis_three one_image ?I [1] 1 [] =
     (Inr (Some mock_result, ?ok), [?e, ?argsm ''model-b''])"
    by (simp add: recon_models_abc)
  have os: "outcome_at env_synthesis_three ?sargs [''model-a'', ''model-b'', ''model-c'']
              [?e, ?argsm ''model-b''] 0 = Inr ?E"
    by (simp add: outcome_at_def try_body_def call_openrouter_model_def
        env_synthesis_three_def synthesis_args_def Let_def normalize_three)
  have u: "mock_result\<lparr>recommendations := recommendations ?E, summary := summary ?E,
                        disclaimer := disclaimer ?E\<rparr> =
           mock_result\<lparr>recommendations := [], summary := ''Three markers were extracted.''\<rparr>"
    by (simp add: mock_result_def three_biomarkers_result_def)
  from synthesis_frame [of ?E abc_config env_synthesis_three one_image "[]" 0 ?E "[]" "[?M, ?E]"
         "projr (merge_normalized_outputs [?M, ?E])" ?I "[1]" 1 "[]" ?M ?ok
         "[?e, ?argsm ''model-b'']" "[]",
         THEN conjunct2, THEN conjunct2, THEN conjunct2, THEN conjunct2, THEN conjunct2,
         THEN conjunct2, THEN conjunct2, THEN conjunct1]
       abc_sizes(3) one_image_guards request_images_one one_image_pages rs chain_abc os u
  have ss: "maybe_generate_with_openrouter abc_config env_synthesis_three one_image [] =
     (Inr (Some (mock_result\<lparr>recommendations := [],
                              summary := ''Three markers were extracted.''\<rparr>),
           ''OpenRouter success via model-a | reconciliation:model-b | summary/reco:model-a''),
      [?e, ?argsm ''model-b'', ?sargs ''model-a''])"
    by (simp add: abc_sizes)
  have tp: "1 = int (length ?I)"
    by simp
  from synthesis_frame [of ?E abc_config env_synthesis_three one_image "[]" 0 ?E "[]" "[?M, ?E]"
         "projr (merge_normalized_outputs [?M, ?E])" ?I "[1]" 1 "[]" ?M ?ok
         "[?e, ?argsm ''model-b'']" "[]",
         THEN conjunct2, THEN conjunct2, THEN conjunct2, THEN conjunct2, THEN conjunct2,
         THEN conjunct1]
       abc_sizes(3) one_image_guards request_images_one [symmetric] one_image_pages [symmetric]
       tp rs
  have sb: "\<exists>final trail log2.
      maybe_generate_with_openrouter abc_config env_synthesis_three one_image [] =
        (Inr (Some final, trail), log2) \<and>
      biomarkers final = biomarkers mock_result"
    by blast
  have l2: "length (biomarkers mock_result) = 2"
    by (simp add: mock_result_def)
  have l3: "length (biomarkers ?E) = 3"
    by (simp add: three_biomarkers_result_def)
  have many: "length (request_images five_images) > OPENROUTER_PAGE_BATCH_SIZE abc_config"
    by (simp add: request_images_five five_length abc_sizes)
  from five_batch_loop [of env_batch_no_synthesis, OF env_batch_no_synthesis_answers]
  obtain logn where ln: "batch_loop abc_config env_batch_no_synthesis five_images
           (request_images five_images)
           (py_range 0 (length (request_images five_images))
              (OPENROUTER_PAGE_BATCH_SIZE abc_config)) [] [] [] =
           (Inr (BatchDone ?chunks [?ok, ?ok, ?ok]), logn)"
    by blast
  let ?bargs = "synthesis_args abc_config five_images batch_merged"
  have dn: "\<forall>i<3. isl (outcome_at env_batch_no_synthesis ?bargs
                         [''model-a'', ''model-b'', ''model-c''] logn i)"
    by (simp add: outcome_at_def try_body_def call_openrouter_model_def
        env_batch_no_synthesis_def synthesis_args_def Let_def)
  have en: "join '' | '' (chain_errors env_batch_no_synthesis 220 ?bargs
                            [''model-a'', ''model-b'', ''model-c''] logn) =
             ''model-a: HTTP 500 Internal Server Error | model-b: HTTP 500 Internal Server Error | model-c: HTTP 500 Internal Server Error''"
    by (simp add: chain_errors_Cons chain_errors_Nil try_body_def call_openrouter_model_def
        env_batch_no_synthesis_def synthesis_args_def Let_def format_error_def) code_simp
  from synthesis_frame [of ?E abc_config env_batch_no_synthesis five_images "[]" 0 ?E "[]" ?chunks
         batch_merged ?I "[1]" 1 "[]" ?M ?ok logn "[?ok, ?ok, ?ok]",
         THEN conjunct2, THEN conjunct2, THEN conjunct2, THEN conjunct2, THEN conjunct2,
         THEN conjunct2, THEN conjunct2, THEN conjunct2, THEN conjunct2, THEN conjunct1]
       abc_sizes(3,4) many ln merge_batches chain_abc dn en
  have bf: "fst (maybe_generate_with_openrouter abc_config env_batch_no_synthesis five_images []) =
     Inr (Some batch_merged,
          ''OpenRouter batch success (ordered pages) via model-a | reconciliation:model-b -> model-a | reconciliation:model-b -> model-a | reconciliation:model-b | summary/reco:model-a: HTTP 500 Internal Server Error | model-b: HTTP 500 Internal Server Error | model-c: HTTP 500 Internal Server Error'')"
    by (simp add: abc_sizes)
  from five_batch_loop [of env_batch, OF env_batch_answers]
  obtain logb where lb: "batch_loop abc_config env_batch five_images
           (request_images five_images)
           (py_range 0 (length (request_images five_images))
              (OPENROUTER_PAGE_BATCH_SIZE abc_config)) [] [] [] =
           (Inr (BatchDone ?chunks [?ok, ?ok, ?ok]), logb)"
    by blast
  have ob: "outcome_at env_batch ?bargs [''model-a'', ''model-b'', ''model-c''] logb 0 =
              Inr (batch_result ''Low'')"
    by (simp add: outcome_at_def try_body_def call_openrouter_model_def env_batch_def
        synthesis_args_def Let_def normalize_batch_output)
  have ub: "batch_merged\<lparr>recommendations := recommendations (batch_result ''Low''),
                        summary := summary (batch_result ''Low''),
                        disclaimer := disclaimer (batch_result ''Low'')\<rparr> =
            batch_merged\<lparr>summary := ''Batch summary.''\<rparr>"
    by (simp add: batch_merged_def batch_result_def)
  from synthesis_frame [of ?E abc_config env_batch five_images "[]" 0 "batch_result ''Low''" "[]"
         ?chunks batch_merged ?I "[1]" 1 "[]" ?M ?ok logb "[?ok, ?ok, ?ok]",
         THEN conjunct2, THEN conjunct2, THEN conjunct2, THEN conjunct2, THEN conjunct2,
         THEN conjunct2, THEN conjunct2, THEN conjunct2, THEN conjunct2, THEN conjunct2]
       abc_sizes(3,4) many lb merge_batches chain_abc ob ub
  have bs: "fst (maybe_generate_with_openrouter abc_config env_batch five_images []) =
     Inr (Some (batch_merged\<lparr>summary := ''Batch summary.''\<rparr>),
          ''OpenRouter batch success (ordered pages) via model-a | reconciliation:model-b -> model-a | reconciliation:model-b -> model-a | reconciliation:model-b | summary/reco:model-a'')"
    by (simp add: abc_sizes)
  have sm: "summary batch_merged =
              ''Analyzed report pages in order across 3 batch(es). Batch summary.''"
    by (simp add: batch_merged_def)
  from h a b c m f g pd sf rs ss sb l2 l3 bf bs sm show ?thesis
    by - (intro conjI; assumption)
qed

section \<open>Batches, merge and final summary of a request of five images\<close>

subsection \<open>The merged biomarkers\<close>







subsection \<open>The request\<close>






end
